theory Spec2Isabelle
  imports Complex_Main "HOL-Library.Word" "HOL-Library.Multiset"
begin

section \<open>JavaScript strings\<close>

text \<open>
  A JavaScript string is a sequence of UTF-16 code units. The service's response parsers
  look for Cyrillic headings and labels, so a code unit is modelled as its number and a
  string as a list of numbers. \<open>js\<close> writes an ASCII literal; Cyrillic literals are written
  as lists of code units next to the source text they stand for.
\<close>

type_synonym jschar = nat
type_synonym jsstring = "nat list"

definition js :: "string \<Rightarrow> jsstring" where
  "js s = map of_char s"

text \<open>
  WhiteSpace and LineTerminator of ECMAScript: what \<open>\s\<close> matches and what
  \<open>String.prototype.trim\<close> strips.
\<close>

definition is_line_terminator :: "jschar \<Rightarrow> bool" where
  "is_line_terminator c = (c = 10 \<or> c = 13 \<or> c = 8232 \<or> c = 8233)"

definition is_space :: "jschar \<Rightarrow> bool" where
  "is_space c =
     (c = 9 \<or> c = 10 \<or> c = 11 \<or> c = 12 \<or> c = 13 \<or> c = 32 \<or> c = 160 \<or> c = 5760
      \<or> (8192 \<le> c \<and> c \<le> 8202) \<or> c = 8232 \<or> c = 8233 \<or> c = 8239 \<or> c = 8287
      \<or> c = 12288 \<or> c = 65279)"

definition is_digit :: "jschar \<Rightarrow> bool" where
  "is_digit c = (48 \<le> c \<and> c \<le> 57)"

text \<open>
  Case mapping. The tables cover Basic Latin and the Cyrillic block U+0400 to U+045F, the
  two alphabets of the service's prompts and labels; every other code unit is left as it
  is.
\<close>

definition lower_unit :: "jschar \<Rightarrow> jschar" where
  "lower_unit c =
     (if 65 \<le> c \<and> c \<le> 90 then c + 32
      else if 1040 \<le> c \<and> c \<le> 1071 then c + 32
      else if 1024 \<le> c \<and> c \<le> 1039 then c + 80
      else c)"

definition upper_unit :: "jschar \<Rightarrow> jschar" where
  "upper_unit c =
     (if 97 \<le> c \<and> c \<le> 122 then c - 32
      else if 1072 \<le> c \<and> c \<le> 1103 then c - 32
      else if 1104 \<le> c \<and> c \<le> 1119 then c - 80
      else c)"

definition toLowerCase :: "jsstring \<Rightarrow> jsstring" where
  "toLowerCase s = map lower_unit s"

definition trim :: "jsstring \<Rightarrow> jsstring" where
  "trim s = rev (dropWhile is_space (rev (dropWhile is_space s)))"

fun is_prefix :: "jsstring \<Rightarrow> jsstring \<Rightarrow> bool" where
  "is_prefix [] s = True"
| "is_prefix (p # ps) [] = False"
| "is_prefix (p # ps) (c # cs) = (p = c \<and> is_prefix ps cs)"

text \<open>\<open>String.prototype.includes\<close>.\<close>

fun str_includes :: "jsstring \<Rightarrow> jsstring \<Rightarrow> bool" where
  "str_includes [] sub = (sub = [])"
| "str_includes (c # cs) sub = (is_prefix sub (c # cs) \<or> str_includes cs sub)"

text \<open>
  \<open>String.prototype.split\<close> with a string separator: the pieces between the
  occurrences of the separator, scanning from the left; the empty separator splits into
  single code units.
\<close>

function split_str_loop :: "jsstring \<Rightarrow> jsstring \<Rightarrow> jsstring \<Rightarrow> jsstring list" where
  "split_str_loop sep acc [] = [rev acc]"
| "split_str_loop sep acc (c # cs) =
     (if sep \<noteq> [] \<and> is_prefix sep (c # cs)
      then rev acc # split_str_loop sep [] (drop (length sep) (c # cs))
      else split_str_loop sep (c # acc) cs)"
  by pat_completeness auto
termination
  by (relation "measure (\<lambda>(sep, acc, s). length s)") auto

definition split_str :: "jsstring \<Rightarrow> jsstring \<Rightarrow> jsstring list" where
  "split_str s sep = (if sep = [] then map (\<lambda>c. [c]) s else split_str_loop sep [] s)"

text \<open>\<open>Array.prototype.join\<close>.\<close>

fun join :: "jsstring \<Rightarrow> jsstring list \<Rightarrow> jsstring" where
  "join sep [] = []"
| "join sep [x] = x"
| "join sep (x # y # ys) = x @ sep @ join sep (y # ys)"

section \<open>Regular expressions\<close>

text \<open>
  The parsers are written with regular expression literals. A literal is modelled by its
  syntax tree and matched by a backtracking matcher that follows the ECMAScript
  specification: a pattern applied to a state yields the states it can end in, in the
  order in which the backtracking search would reach them, so that the head of the list is
  the match JavaScript reports.
\<close>

record flags =
  ignoreCase :: bool
  multiline :: bool
  dotAll :: bool

datatype cls = ClsDigit | ClsSpace | ClsNotSpace | ClsChar jschar

datatype regex =
    Eps
  | Lit jschar
  | Dot
  | Class "cls list"
  | Bol
  | Eol
  | Seq regex regex
  | Alt regex regex
  | Star bool regex
  | Plus bool regex
  | Opt bool regex
  | Group nat regex
  | Look regex

text \<open>
  The matcher's state: the index reached, the code unit before it (for \<open>^\<close> in
  multiline mode), the input from there on, and the captures.
\<close>

record mstate =
  pos :: nat
  prev :: "jschar option"
  rest :: jsstring
  caps :: "nat \<rightharpoonup> jsstring"

text \<open>Canonicalize of a pattern without the \<open>u\<close> flag.\<close>

definition canonicalize :: "flags \<Rightarrow> jschar \<Rightarrow> jschar" where
  "canonicalize fl c =
     (if ignoreCase fl
      then (let cu = upper_unit c in if 128 \<le> c \<and> cu < 128 then c else cu)
      else c)"

fun cls_matches :: "cls \<Rightarrow> jschar \<Rightarrow> bool" where
  "cls_matches ClsDigit c = is_digit c"
| "cls_matches ClsSpace c = is_space c"
| "cls_matches ClsNotSpace c = (\<not> is_space c)"
| "cls_matches (ClsChar d) c = (c = d)"

definition advance :: "mstate \<Rightarrow> mstate" where
  "advance st =
     (case rest st of
        [] \<Rightarrow> st
      | c # cs \<Rightarrow> st\<lparr>pos := Suc (pos st), prev := Some c, rest := cs\<rparr>)"

definition step_if :: "(jschar \<Rightarrow> bool) \<Rightarrow> mstate \<Rightarrow> mstate list" where
  "step_if p st =
     (case rest st of
        [] \<Rightarrow> []
      | c # cs \<Rightarrow> if p c then [advance st] else [])"

fun groups_of :: "regex \<Rightarrow> nat list" where
  "groups_of (Seq r1 r2) = groups_of r1 @ groups_of r2"
| "groups_of (Alt r1 r2) = groups_of r1 @ groups_of r2"
| "groups_of (Star g r) = groups_of r"
| "groups_of (Plus g r) = groups_of r"
| "groups_of (Opt g r) = groups_of r"
| "groups_of (Group k r) = k # groups_of r"
| "groups_of (Look r) = groups_of r"
| "groups_of _ = []"

text \<open>
  RepeatMatcher clears the captures of the groups inside a quantified pattern at the start
  of every iteration.
\<close>

definition reset_caps :: "regex \<Rightarrow> mstate \<Rightarrow> mstate" where
  "reset_caps r st = st\<lparr>caps := (\<lambda>k. if k \<in> set (groups_of r) then None else caps st k)\<rparr>"

fun rsize :: "regex \<Rightarrow> nat" where
  "rsize (Seq r1 r2) = Suc (rsize r1 + rsize r2)"
| "rsize (Alt r1 r2) = Suc (rsize r1 + rsize r2)"
| "rsize (Star g r) = Suc (rsize r)"
| "rsize (Plus g r) = Suc (Suc (rsize r))"
| "rsize (Opt g r) = Suc (rsize r)"
| "rsize (Group k r) = Suc (rsize r)"
| "rsize (Look r) = Suc (rsize r)"
| "rsize _ = 0"

function rmatch :: "flags \<Rightarrow> regex \<Rightarrow> mstate \<Rightarrow> mstate list" where
  "rmatch fl Eps st = [st]"
| "rmatch fl (Lit c) st = step_if (\<lambda>d. canonicalize fl d = canonicalize fl c) st"
| "rmatch fl Dot st = step_if (\<lambda>d. dotAll fl \<or> \<not> is_line_terminator d) st"
| "rmatch fl (Class cs) st = step_if (\<lambda>d. \<exists>k \<in> set cs. cls_matches k d) st"
| "rmatch fl Bol st =
     (if pos st = 0 then [st]
      else if multiline fl \<and> (case prev st of None \<Rightarrow> False | Some c \<Rightarrow> is_line_terminator c)
      then [st] else [])"
| "rmatch fl Eol st =
     (case rest st of
        [] \<Rightarrow> [st]
      | c # cs \<Rightarrow> if multiline fl \<and> is_line_terminator c then [st] else [])"
| "rmatch fl (Seq r1 r2) st = concat (map (\<lambda>st1. rmatch fl r2 st1) (rmatch fl r1 st))"
| "rmatch fl (Alt r1 r2) st = rmatch fl r1 st @ rmatch fl r2 st"
| "rmatch fl (Star g r) st =
     (let more = concat (map (\<lambda>st1.
                   if length (rest st1) < length (rest st) then rmatch fl (Star g r) st1 else [])
                 (rmatch fl r (reset_caps r st)))
      in if g then more @ [st] else st # more)"
| "rmatch fl (Plus g r) st =
     concat (map (\<lambda>st1. rmatch fl (Star g r) st1) (rmatch fl r (reset_caps r st)))"
| "rmatch fl (Opt g r) st =
     (let once = filter (\<lambda>st1. length (rest st1) < length (rest st))
                   (rmatch fl r (reset_caps r st))
      in if g then once @ [st] else st # once)"
| "rmatch fl (Group k r) st =
     map (\<lambda>st1. st1\<lparr>caps := (caps st1)(k \<mapsto> take (pos st1 - pos st) (rest st))\<rparr>)
       (rmatch fl r st)"
| "rmatch fl (Look r) st =
     (case rmatch fl r st of
        [] \<Rightarrow> []
      | st1 # _ \<Rightarrow> [st\<lparr>caps := caps st1\<rparr>])"
  by pat_completeness auto
termination
  by (relation "inv_image (less_than <*lex*> less_than)
                  (\<lambda>(fl, r, st). (rsize r, length (rest st)))") auto


abbreviation Digit :: regex where "Digit \<equiv> Class [ClsDigit]"
abbreviation Space :: regex where "Space \<equiv> Class [ClsSpace]"
abbreviation AnySS :: regex where "AnySS \<equiv> Class [ClsSpace, ClsNotSpace]"

fun seqs :: "regex list \<Rightarrow> regex" where
  "seqs [] = Eps"
| "seqs (r # rs) = Seq r (seqs rs)"

definition lits :: "jsstring \<Rightarrow> regex" where
  "lits s = seqs (map Lit s)"

subsection \<open>The matching interface of RegExp and String\<close>

record match_result =
  m_index :: nat
  m_end :: nat
  m_text :: jsstring
  m_groups :: "nat \<rightharpoonup> jsstring"

definition start_state :: "nat \<Rightarrow> jschar option \<Rightarrow> jsstring \<Rightarrow> mstate" where
  "start_state i p s = \<lparr>pos = i, prev = p, rest = s, caps = Map.empty\<rparr>"

definition result_of :: "mstate \<Rightarrow> mstate \<Rightarrow> match_result" where
  "result_of st0 st =
     \<lparr>m_index = pos st0, m_end = pos st,
      m_text = take (pos st - pos st0) (rest st0), m_groups = caps st\<rparr>"

text \<open>The match that starts exactly at the state, if there is one.\<close>

definition match_at :: "flags \<Rightarrow> regex \<Rightarrow> mstate \<Rightarrow> match_result option" where
  "match_at fl re st0 =
     (case rmatch fl re st0 of [] \<Rightarrow> None | st # _ \<Rightarrow> Some (result_of st0 st))"

text \<open>
  The search of RegExpBuiltinExec: the first index from the start on at which the pattern
  matches.
\<close>

fun search_loop :: "flags \<Rightarrow> regex \<Rightarrow> nat \<Rightarrow> jschar option \<Rightarrow> jsstring \<Rightarrow> match_result option" where
  "search_loop fl re i p [] = match_at fl re (start_state i p [])"
| "search_loop fl re i p (c # cs) =
     (case match_at fl re (start_state i p (c # cs)) of
        Some m \<Rightarrow> Some m
      | None \<Rightarrow> search_loop fl re (Suc i) (Some c) cs)"

text \<open>
  \<open>re.exec(s)\<close> with \<open>re.lastIndex = i\<close> for a global pattern; a \<open>lastIndex\<close> beyond the
  end of the input fails.
\<close>

definition regex_exec :: "flags \<Rightarrow> regex \<Rightarrow> jsstring \<Rightarrow> nat \<Rightarrow> match_result option" where
  "regex_exec fl re s i =
     (if length s < i then None
      else search_loop fl re i (if i = 0 then None else Some (s ! (i - 1))) (drop i s))"

text \<open>\<open>s.match(re)\<close> for a pattern without the \<open>g\<close> flag.\<close>

definition str_match :: "flags \<Rightarrow> regex \<Rightarrow> jsstring \<Rightarrow> match_result option" where
  "str_match fl re s = regex_exec fl re s 0"

text \<open>
  The loop \<^verbatim>\<open>while ((m = re.exec(s)) !== null) { ... }\<close> over a global pattern: each
  \<open>exec\<close> starts at the \<open>lastIndex\<close> the previous match left, which is the end of that
  match. \<open>exec\<close> does not move \<open>lastIndex\<close> past an empty match, so on a pattern that
  matches the empty string the loop does not end; not returning is the value \<open>None\<close>.
\<close>

partial_function (option) exec_all :: "flags \<Rightarrow> regex \<Rightarrow> jsstring \<Rightarrow> nat \<Rightarrow> match_result list option" where
  "exec_all fl re s i =
     (case regex_exec fl re s i of
        None \<Rightarrow> Some []
      | Some m \<Rightarrow> Option.bind (exec_all fl re s (m_end m)) (\<lambda>ms. Some (m # ms)))"

declare exec_all.simps [code]


subsection \<open>Matching moves forward\<close>

text \<open>
  A match only moves forward: every state the matcher yields is reached from the start
  state by consuming a prefix of the remaining input.
\<close>

definition extends :: "mstate \<Rightarrow> mstate \<Rightarrow> bool" where
  "extends st st1 = (\<exists>xs. rest st = xs @ rest st1 \<and> pos st1 = pos st + length xs)"

lemma extends_refl: "extends st st"
  by (simp add: extends_def)

lemma extends_trans: "extends a b \<Longrightarrow> extends b c \<Longrightarrow> extends a c"
  by (auto simp: extends_def)

lemma extends_step_if: "st1 \<in> set (step_if p st) \<Longrightarrow> extends st st1"
  by (cases "rest st") (auto simp: step_if_def advance_def extends_def split: if_splits)

lemma extends_reset: "extends (reset_caps r st) st1 \<Longrightarrow> extends st st1"
  by (simp add: extends_def reset_caps_def)

lemma rmatch_extends: "st1 \<in> set (rmatch fl r st) \<Longrightarrow> extends st st1"
proof (induction fl r st arbitrary: st1 rule: rmatch.induct)
  case (1 fl st)
  then show ?case by (simp add: extends_refl)
next
  case (2 fl c st)
  then show ?case by (simp add: extends_step_if)
next
  case (3 fl st)
  then show ?case by (simp add: extends_step_if)
next
  case (4 fl cs st)
  then show ?case by (simp add: extends_step_if)
next
  case (5 fl st)
  then show ?case by (simp add: extends_refl split: if_splits)
next
  case (6 fl st)
  then show ?case by (simp add: extends_refl split: if_splits list.splits)
next
  case (7 fl r1 r2 st)
  from "7.prems" obtain st2 where a: "st2 \<in> set (rmatch fl r1 st)" and b: "st1 \<in> set (rmatch fl r2 st2)"
    by auto
  from "7.IH"(1)[OF a] "7.IH"(2)[OF a b] show ?case by (rule extends_trans)
next
  case (8 fl r1 r2 st)
  from "8.prems" have "st1 \<in> set (rmatch fl r1 st) \<or> st1 \<in> set (rmatch fl r2 st)" by simp
  then show ?case using "8.IH" by blast
next
  case (9 fl g r st)
  let ?more = "concat (map (\<lambda>st2.
                   if length (rest st2) < length (rest st) then rmatch fl (Star g r) st2 else [])
                 (rmatch fl r (reset_caps r st)))"
  from "9.prems" have "st1 \<in> set (if g then ?more @ [st] else st # ?more)"
    by (subst (asm) rmatch.simps(9)) (simp only: Let_def)
  then have "st1 = st \<or> st1 \<in> set ?more"
    by (auto simp del: rmatch.simps split: if_splits)
  then show ?case
  proof
    assume "st1 = st" then show ?thesis by (simp add: extends_refl)
  next
    assume "st1 \<in> set ?more"
    then obtain st2 where a: "st2 \<in> set (rmatch fl r (reset_caps r st))"
      and l: "length (rest st2) < length (rest st)"
      and b: "st1 \<in> set (rmatch fl (Star g r) st2)"
      by (auto simp del: rmatch.simps split: if_splits)
    have "extends st st2" using "9.IH"(1)[OF a] by (rule extends_reset)
    moreover have "extends st2 st1" using "9.IH"(2)[OF a l b] .
    ultimately show ?thesis by (rule extends_trans)
  qed
next
  case (10 fl g r st)
  from "10.prems" obtain st2 where a: "st2 \<in> set (rmatch fl r (reset_caps r st))"
      and b: "st1 \<in> set (rmatch fl (Star g r) st2)"
    by auto
  have "extends st st2" using "10.IH"(1)[OF a] by (rule extends_reset)
  moreover have "extends st2 st1" using "10.IH"(2)[OF a b] .
  ultimately show ?case by (rule extends_trans)
next
  case (11 fl g r st)
  from "11.prems" have "st1 = st \<or> st1 \<in> set (rmatch fl r (reset_caps r st))"
    by (auto simp: Let_def split: if_splits)
  then show ?case using "11.IH" by (auto simp: extends_refl intro: extends_reset)
next
  case (12 fl k r st)
  from "12.prems" obtain st2 where a: "st2 \<in> set (rmatch fl r st)"
    and b: "st1 = st2\<lparr>caps := (caps st2)(k \<mapsto> take (pos st2 - pos st) (rest st))\<rparr>"
    by auto
  from "12.IH"[OF a] b show ?case by (simp add: extends_def)
next
  case (13 fl r st)
  then show ?case by (auto simp: extends_def split: list.splits)
qed


lemma rmatch_hd_extends: "rmatch fl r st = st1 # sts \<Longrightarrow> extends st st1"
  by (rule rmatch_extends[of st1 fl r st]) simp

lemma extends_lengthD:
  "extends st st1 \<Longrightarrow> length (rest st1) \<le> length (rest st) \<and> (pos st1 \<noteq> pos st \<longrightarrow> length (rest st1) < length (rest st))"
  by (auto simp: extends_def)

subsection \<open>split and replace with a pattern\<close>

text \<open>
  \<open>s.split(re)\<close> (RegExp.prototype[@@split]): \<open>p\<close> is the end of the last separator
  found, \<open>q\<close> the index tried next, \<open>piece\<close> the code units from \<open>p\<close> to \<open>q\<close> in
  reverse. A match at \<open>q\<close> that ends at \<open>p\<close> is empty and is skipped. None of the
  patterns the service splits on has a capture group, so no captures are spliced into the
  result.
\<close>

function split_loop :: "flags \<Rightarrow> regex \<Rightarrow> nat \<Rightarrow> jsstring \<Rightarrow> nat \<Rightarrow> jschar option \<Rightarrow> jsstring \<Rightarrow> jsstring list" where
  "split_loop fl re p piece q pv [] = [rev piece]"
| "split_loop fl re p piece q pv (c # cs) =
     (case rmatch fl re (start_state q pv (c # cs)) of
        [] \<Rightarrow> split_loop fl re p (c # piece) (Suc q) (Some c) cs
      | st # _ \<Rightarrow>
          if pos st = p then split_loop fl re p (c # piece) (Suc q) (Some c) cs
          else rev piece # split_loop fl re (pos st) [] (pos st) (prev st) (rest st))"
  by pat_completeness auto
termination
proof (relation "measure (\<lambda>(fl, re, p, piece, q, pv, s). 2 * length s + (if p = q then 0 else 1))",
    goal_cases)
  case 1
  show ?case by simp
next
  case (2 fl re p piece q pv c cs)
  show ?case by simp
next
  case (3 fl re p piece q pv c cs st sts)
  show ?case by simp
next
  case (4 fl re p piece q pv c cs st sts)
  from rmatch_hd_extends[OF 4(1)] have "extends (start_state q pv (c # cs)) st" .
  from extends_lengthD[OF this] 4(2) show ?case
    by (auto simp: start_state_def)
qed

definition regex_split :: "flags \<Rightarrow> regex \<Rightarrow> jsstring \<Rightarrow> jsstring list" where
  "regex_split fl re s =
     (if s = [] then (case rmatch fl re (start_state 0 None []) of [] \<Rightarrow> [[]] | _ \<Rightarrow> [])
      else split_loop fl re 0 [] 0 None s)"

text \<open>
  GetSubstitution: the text a replacement template stands for at one match. \<open>n\<close> is the
  number of capture groups of the pattern; the patterns here have no named groups.
\<close>

definition capture_text :: "(nat \<rightharpoonup> jsstring) \<Rightarrow> nat \<Rightarrow> jsstring" where
  "capture_text cp k = (case cp k of None \<Rightarrow> [] | Some t \<Rightarrow> t)"

fun get_substitution :: "(nat \<rightharpoonup> jsstring) \<Rightarrow> nat \<Rightarrow> jsstring \<Rightarrow> jsstring \<Rightarrow> jsstring \<Rightarrow> jsstring \<Rightarrow> jsstring" where
  "get_substitution cp n matched pre post [] = []"
| "get_substitution cp n matched pre post [c] = [c]"
| "get_substitution cp n matched pre post (c # d # t) =
     (if c \<noteq> 36 then c # get_substitution cp n matched pre post (d # t)
      else if d = 36 then 36 # get_substitution cp n matched pre post t
      else if d = 38 then matched @ get_substitution cp n matched pre post t
      else if d = 96 then pre @ get_substitution cp n matched pre post t
      else if d = 39 then post @ get_substitution cp n matched pre post t
      else if d = 60 then 36 # 60 # get_substitution cp n matched pre post t
      else if is_digit d then
        (case t of
           e # u \<Rightarrow>
             if is_digit e \<and> 10 * (d - 48) + (e - 48) \<le> n
             then (if 1 \<le> 10 * (d - 48) + (e - 48)
                   then capture_text cp (10 * (d - 48) + (e - 48)) @ get_substitution cp n matched pre post u
                   else 36 # d # e # get_substitution cp n matched pre post u)
             else if 1 \<le> d - 48 \<and> d - 48 \<le> n
             then capture_text cp (d - 48) @ get_substitution cp n matched pre post t
             else 36 # d # get_substitution cp n matched pre post t
         | [] \<Rightarrow>
             if 1 \<le> d - 48 \<and> d - 48 \<le> n then capture_text cp (d - 48) else [36, d])
      else 36 # get_substitution cp n matched pre post (d # t))"

text \<open>
  \<open>s.replace(re, value)\<close> for a global pattern and a string value
  (RegExp.prototype[@@replace]): the matches are found from the left, the search going on
  at the end of each match, one code unit further after an empty match; each match is
  replaced by what GetSubstitution makes of the value.
\<close>

function replace_loop :: "flags \<Rightarrow> regex \<Rightarrow> jsstring \<Rightarrow> jsstring \<Rightarrow> nat \<Rightarrow> jschar option \<Rightarrow> jsstring \<Rightarrow> jsstring" where
  "replace_loop fl re v s q pv [] =
     (case rmatch fl re (start_state q pv []) of
        [] \<Rightarrow> []
      | st # _ \<Rightarrow> get_substitution (caps st) (length (groups_of re)) [] (take q s) [] v)"
| "replace_loop fl re v s q pv (c # cs) =
     (case rmatch fl re (start_state q pv (c # cs)) of
        [] \<Rightarrow> c # replace_loop fl re v s (Suc q) (Some c) cs
      | st # _ \<Rightarrow>
          if pos st = q
          then get_substitution (caps st) (length (groups_of re)) [] (take q s) (c # cs) v
               @ c # replace_loop fl re v s (Suc q) (Some c) cs
          else get_substitution (caps st) (length (groups_of re))
                 (take (pos st - q) (c # cs)) (take q s) (rest st) v
               @ replace_loop fl re v s (pos st) (prev st) (rest st))"
  by pat_completeness auto
termination
proof (relation "measure (\<lambda>(fl, re, v, s, q, pv, r). length r)", goal_cases)
  case 1
  show ?case by simp
next
  case (2 fl re v s q pv c cs)
  show ?case by simp
next
  case (3 fl re v s q pv c cs st sts)
  show ?case by simp
next
  case (4 fl re v s q pv c cs st sts)
  from rmatch_hd_extends[OF 4(1)] have "extends (start_state q pv (c # cs)) st" .
  from extends_lengthD[OF this] 4(2) show ?case
    by (auto simp: start_state_def)
qed

definition regex_replace_all :: "flags \<Rightarrow> regex \<Rightarrow> jsstring \<Rightarrow> jsstring \<Rightarrow> jsstring" where
  "regex_replace_all fl re s v = replace_loop fl re v s 0 None s"


section \<open>Outcomes, errors and array reads\<close>

text \<open>
  Every public operation of the service runs in a \<open>try\<close> block whose \<open>catch\<close> logs the
  error and throws \<open>new Error(prefix + error)\<close>; \<open>Wrapped prefix e\<close> is that error.
  The other constructors are the errors the modelled code can raise itself. An operation
  returns a value, throws, or (where it loops over the matches of a pattern) does not end.
  \<open>Unmodelled\<close> marks the two places where the model stops short of JavaScript, both
  in \<open>preparePrompt\<close>: a parameter name that a pattern would read as syntax, and a
  parameter name that an object inherits.
\<close>

datatype js_error =
    TypeError
  | ReferenceError
  | Template_not_found jsstring
  | Read_error jsstring
  | Json_syntax_error jsstring
  | Cache_error
  | Request_error
  | Wrapped string js_error

datatype 'a outcome = Returns 'a | Throws js_error | Diverges | Unmodelled

definition bind_o :: "'a outcome \<Rightarrow> ('a \<Rightarrow> 'b outcome) \<Rightarrow> 'b outcome" where
  "bind_o x f =
     (case x of
        Returns a \<Rightarrow> f a
      | Throws e \<Rightarrow> Throws e
      | Diverges \<Rightarrow> Diverges
      | Unmodelled \<Rightarrow> Unmodelled)"

text \<open>\<^verbatim>\<open>try { ... } catch (error) { throw new Error(prefix + error) }\<close>\<close>

definition try_wrap :: "string \<Rightarrow> 'a outcome \<Rightarrow> 'a outcome" where
  "try_wrap prefix x = (case x of Throws e \<Rightarrow> Throws (Wrapped prefix e) | _ \<Rightarrow> x)"

text \<open>The matches a loop over a pattern collects; \<open>Diverges\<close> when the loop does not end.\<close>

definition of_loop :: "'a option \<Rightarrow> 'a outcome" where
  "of_loop x = (case x of None \<Rightarrow> Diverges | Some a \<Rightarrow> Returns a)"

text \<open>The loop body run on each match in turn; the first error ends the loop.\<close>

fun for_each :: "('a \<Rightarrow> 'b outcome) \<Rightarrow> 'a list \<Rightarrow> 'b list outcome" where
  "for_each f [] = Returns []"
| "for_each f (x # xs) = bind_o (f x) (\<lambda>y. bind_o (for_each f xs) (\<lambda>ys. Returns (y # ys)))"

text \<open>\<open>xs[i]\<close>: \<open>undefined\<close> outside the array.\<close>

definition nth_opt :: "'a list \<Rightarrow> nat \<Rightarrow> 'a option" where
  "nth_opt xs i = (if i < length xs then Some (xs ! i) else None)"

text \<open>
  A method call on \<open>match[k]\<close> or on \<open>xs[i]\<close>, such as \<open>.trim()\<close>: a TypeError when the
  value is \<open>undefined\<close>.
\<close>

definition defined :: "'a option \<Rightarrow> 'a outcome" where
  "defined x = (case x of None \<Rightarrow> Throws TypeError | Some a \<Rightarrow> Returns a)"

definition grp :: "match_result \<Rightarrow> nat \<Rightarrow> jsstring outcome" where
  "grp m k = defined (m_groups m k)"

text \<open>\<^verbatim>\<open>match[k] ? match[k].trim() : ''\<close>\<close>

definition grp_trim_or_empty :: "match_result \<Rightarrow> nat \<Rightarrow> jsstring" where
  "grp_trim_or_empty m k =
     (case m_groups m k of None \<Rightarrow> [] | Some g \<Rightarrow> if g = [] then [] else trim g)"

definition fl_plain :: flags where
  "fl_plain = \<lparr>ignoreCase = False, multiline = False, dotAll = False\<rparr>"

definition fl_i :: flags where
  "fl_i = \<lparr>ignoreCase = True, multiline = False, dotAll = False\<rparr>"

definition fl_s :: flags where
  "fl_s = \<lparr>ignoreCase = False, multiline = False, dotAll = True\<rparr>"

definition fl_ms :: flags where
  "fl_ms = \<lparr>ignoreCase = False, multiline = True, dotAll = True\<rparr>"

section \<open>validateGraph\<close>

datatype severity = Low | Medium | High

datatype issue_type = Contradiction | Missing_element

datatype suggestion_type = Add_category | Add_connection | Modify_category | Modify_connection

record ValidationIssue =
  issue_type :: issue_type
  issue_description :: jsstring
  issue_severity :: severity

record ValidationSuggestion =
  suggestion_type :: suggestion_type
  suggestion_description :: jsstring

record ValidationResult =
  general_analysis :: jsstring
  contradictions :: "ValidationIssue list"
  missing_elements :: "ValidationIssue list"
  improvement_suggestions :: "ValidationSuggestion list"

definition ru_neznachitelnyi :: jsstring where
  \<comment> \<open>neznachitel'nyi (insignificant)\<close>
  "ru_neznachitelnyi =
     [1085, 1077, 1079, 1085, 1072, 1095, 1080, 1090, 1077, 1083, 1100, 1085, 1099, 1081]"

definition ru_nebolshoi :: jsstring where
  \<comment> \<open>nebol'shoi (small)\<close>
  "ru_nebolshoi =
     [1085, 1077, 1073, 1086, 1083, 1100, 1096, 1086, 1081]"

definition ru_kriticheskii :: jsstring where
  \<comment> \<open>kriticheskii (critical)\<close>
  "ru_kriticheskii =
     [1082, 1088, 1080, 1090, 1080, 1095, 1077, 1089, 1082, 1080, 1081]"

definition ru_sereznyi :: jsstring where
  \<comment> \<open>ser'eznyi (serious)\<close>
  "ru_sereznyi =
     [1089, 1077, 1088, 1100, 1077, 1079, 1085, 1099, 1081]"

definition ru_dobavit_kategoriyu :: jsstring where
  \<comment> \<open>dobavit' kategoriyu (add a category)\<close>
  "ru_dobavit_kategoriyu =
     [1076, 1086, 1073, 1072, 1074, 1080, 1090, 1100, 32, 1082, 1072, 1090, 1077, 1075,
      1086, 1088, 1080, 1102]"

definition ru_dobavit_svyaz :: jsstring where
  \<comment> \<open>dobavit' svyaz' (add a connection)\<close>
  "ru_dobavit_svyaz =
     [1076, 1086, 1073, 1072, 1074, 1080, 1090, 1100, 32, 1089, 1074, 1103, 1079, 1100]"

definition ru_izmenit_kategoriyu :: jsstring where
  \<comment> \<open>izmenit' kategoriyu (modify a category)\<close>
  "ru_izmenit_kategoriyu =
     [1080, 1079, 1084, 1077, 1085, 1080, 1090, 1100, 32, 1082, 1072, 1090, 1077, 1075,
      1086, 1088, 1080, 1102]"

definition determineSuggestionType :: "jsstring \<Rightarrow> suggestion_type" where
  "determineSuggestionType text =
     (if str_includes (toLowerCase text) ru_dobavit_kategoriyu
         \<or> str_includes (toLowerCase text) (js ''add category'') then Add_category
      else if str_includes (toLowerCase text) ru_dobavit_svyaz
         \<or> str_includes (toLowerCase text) (js ''add connection'') then Add_connection
      else if str_includes (toLowerCase text) ru_izmenit_kategoriyu
         \<or> str_includes (toLowerCase text) (js ''modify category'') then Modify_category
      else Modify_connection)"

definition lowKeywords :: "jsstring list" where
  "lowKeywords = [js ''minor'', js ''slight'', ru_neznachitelnyi, ru_nebolshoi]"

definition highKeywords :: "jsstring list" where
  "highKeywords = [js ''critical'', js ''severe'', js ''major'', ru_kriticheskii, ru_sereznyi]"

definition determineSeverity :: "jsstring \<Rightarrow> severity" where
  "determineSeverity text =
     (let textLower = toLowerCase text
      in if list_ex (\<lambda>word. str_includes textLower word) highKeywords then High
         else if list_ex (\<lambda>word. str_includes textLower word) lowKeywords then Low
         else Medium)"

text \<open>The pattern \<^verbatim>\<open>/\d+\.\s+/\<close> of the numbered sections.\<close>

definition numbered_re :: regex where
  "numbered_re = seqs [Plus True Digit, Lit 46, Plus True Space]"

text \<open>The pattern \<^verbatim>\<open>/\n-\s+/\<close> of a bullet.\<close>

definition bullet_re :: regex where
  "bullet_re = seqs [Lit 10, Lit 45, Plus True Space]"

text \<open>\<^verbatim>\<open>text.split(/\n-\s+/).slice(1)\<close>\<close>

definition bullets :: "jsstring \<Rightarrow> jsstring list" where
  "bullets text = drop 1 (regex_split fl_plain bullet_re text)"

text \<open>
  The part of \<open>validateGraph\<close> after the response has arrived (lines 278 to 333). With
  four or more pieces the code reads \<open>sections[1]\<close> to \<open>sections[4]\<close>; a piece that is
  not there is \<open>undefined\<close>, and \<open>undefined.trim()\<close> raises a TypeError, which the
  \<open>catch\<close> wraps.
\<close>

definition validateGraph_parse :: "jsstring \<Rightarrow> ValidationResult outcome" where
  "validateGraph_parse response =
     try_wrap ''Failed to validate graph''
       (let sections = regex_split fl_plain numbered_re response
        in if 4 \<le> length sections then
             bind_o (defined (nth_opt sections 1)) (\<lambda>s1.
             bind_o (defined (nth_opt sections 2)) (\<lambda>s2.
             bind_o (defined (nth_opt sections 3)) (\<lambda>s3.
             bind_o (defined (nth_opt sections 4)) (\<lambda>s4.
               Returns
                 \<lparr>general_analysis = trim s1,
                  contradictions =
                    map (\<lambda>text. \<lparr>issue_type = Contradiction, issue_description = trim text,
                                  issue_severity = determineSeverity text\<rparr>)
                      (bullets (trim s2)),
                  missing_elements =
                    map (\<lambda>text. \<lparr>issue_type = Missing_element, issue_description = trim text,
                                  issue_severity = determineSeverity text\<rparr>)
                      (bullets (trim s3)),
                  improvement_suggestions =
                    map (\<lambda>text. \<lparr>suggestion_type = determineSuggestionType text,
                                  suggestion_description = trim text\<rparr>)
                      (bullets (trim s4))\<rparr>))))
           else Returns \<lparr>general_analysis = response, contradictions = [],
                          missing_elements = [], improvement_suggestions = []\<rparr>)"

section \<open>Concept graphs\<close>

text \<open>
  The records of \<open>src/types/index.ts\<close> that the modelled code reads or builds. A
  \<open>Date\<close> is a number of milliseconds. Field names carry the record's prefix where two
  interfaces share a name. \<open>tradition_concepts\<close> and \<open>philosophers\<close>, which the service
  neither reads nor writes, are left out, and an attribute keeps its type and value.
\<close>

record Attribute =
  attribute_type :: jsstring
  attribute_value :: rat

record Category =
  category_id :: jsstring
  cat_concept_id :: jsstring
  cat_name :: jsstring
  cat_definition :: jsstring
  cat_extended_description :: "jsstring option"
  cat_source :: "jsstring option"
  cat_created_at :: nat
  cat_last_modified :: nat
  cat_attributes :: "Attribute list"

record Connection =
  connection_id :: jsstring
  conn_concept_id :: jsstring
  source_category_id :: jsstring
  target_category_id :: jsstring
  connection_type :: jsstring
  direction :: jsstring
  conn_description :: "jsstring option"
  conn_created_at :: nat
  conn_last_modified :: nat
  conn_attributes :: "Attribute list"
  source_category :: "Category option"
  target_category :: "Category option"

record ConceptGraph =
  graph_concept_id :: jsstring
  concept_name :: jsstring
  concept_description :: "jsstring option"
  categories :: "Category list"
  connections :: "Connection list"

section \<open>generateTheses\<close>

datatype thesis_type = Ontological | Epistemological | Ethical | Aesthetic | Political | Metaphysical

datatype thesis_style = Academic | Popular | Aphoristic

datatype detail_level = Detail_low | Detail_medium | Detail_high

record ThesisGenerationParams =
  count :: int
  param_type :: thesis_type
  detail_level :: "detail_level option"
  param_style :: "thesis_style option"
  focus_categories :: "jsstring list option"
  useWeights :: bool

record derived_from =
  df_categories :: "jsstring list"
  df_connections :: "jsstring list"

record Thesis =
  thesis_id :: jsstring
  thesis_concept_id :: jsstring
  thesis_text :: jsstring
  thesis_type :: thesis_type
  thesis_derived_from :: derived_from
  generation_parameters :: ThesisGenerationParams
  used_weights :: bool
  thesis_style :: "thesis_style option"
  thesis_created_at :: nat
  thesis_last_modified :: nat

definition ru_istochnik :: jsstring where
  \<comment> \<open>Istochnik: (Source:)\<close>
  "ru_istochnik =
     [1048, 1089, 1090, 1086, 1095, 1085, 1080, 1082, 58]"

definition ru_obosnovanie :: jsstring where
  \<comment> \<open>Obosnovanie: (Justification:)\<close>
  "ru_obosnovanie =
     [1054, 1073, 1086, 1089, 1085, 1086, 1074, 1072, 1085, 1080, 1077, 58]"

text \<open>
  \<open>thesisRegex\<close>, with the flags \<open>gms\<close>:
  \<^verbatim>\<open>/^\d+\.\s+(.+?)(?:\n\s+-\s+Istochnik:\s+(.+?))?(?:\n\s+-\s+Obosnovanie:\s+(.+?))?(?=\n\d+\.|$)/\<close>
\<close>

definition thesisRegex :: regex where
  "thesisRegex =
     seqs [Bol, Plus True Digit, Lit 46, Plus True Space, Group 1 (Plus False Dot),
           Opt True (seqs [Lit 10, Plus True Space, Lit 45, Plus True Space, lits ru_istochnik,
                           Plus True Space, Group 2 (Plus False Dot)]),
           Opt True (seqs [Lit 10, Plus True Space, Lit 45, Plus True Space, lits ru_obosnovanie,
                           Plus True Space, Group 3 (Plus False Dot)]),
           Look (Alt (seqs [Lit 10, Plus True Digit, Lit 46]) Eol)]"

text \<open>The pattern \<^verbatim>\<open>/,\s*/\<close> that separates the source names.\<close>

definition comma_re :: regex where
  "comma_re = seqs [Lit 44, Star True Space]"

text \<open>
  The body of the loop (lines 558 to 585): one thesis from one match. \<open>match[1]\<close> is
  trimmed as it is, so an absent group would raise; \<open>match[2]\<close> is tested for truth
  first. The connection identifiers are the empty array.
\<close>

definition thesis_of_match :: "ConceptGraph \<Rightarrow> ThesisGenerationParams \<Rightarrow> nat \<Rightarrow> match_result \<Rightarrow> Thesis outcome" where
  "thesis_of_match conceptGraph parameters now m =
     bind_o (grp m 1) (\<lambda>g1.
       (let thesisText = trim g1;
            sourcesText = grp_trim_or_empty m 2;
            cats = List.map_filter
                     (\<lambda>name. map_option category_id
                        (find (\<lambda>c. toLowerCase (cat_name c) = toLowerCase name)
                           (categories conceptGraph)))
                     (regex_split fl_plain comma_re sourcesText)
        in Returns
             \<lparr>thesis_id = [],
              thesis_concept_id = graph_concept_id conceptGraph,
              thesis_text = thesisText,
              thesis_type = param_type parameters,
              thesis_derived_from = \<lparr>df_categories = cats, df_connections = []\<rparr>,
              generation_parameters = parameters,
              used_weights = useWeights parameters,
              thesis_style = param_style parameters,
              thesis_created_at = now,
              thesis_last_modified = now\<rparr>))"

text \<open>The part of \<open>generateTheses\<close> after the response has arrived (lines 551 to 592).\<close>

definition generateTheses_parse :: "ConceptGraph \<Rightarrow> ThesisGenerationParams \<Rightarrow> nat \<Rightarrow> jsstring \<Rightarrow> Thesis list outcome" where
  "generateTheses_parse conceptGraph parameters now response =
     try_wrap ''Failed to generate theses''
       (bind_o (of_loop (exec_all fl_ms thesisRegex response 0))
          (for_each (thesis_of_match conceptGraph parameters now)))"


section \<open>Sections under a heading\<close>

text \<open>
  Most parsers cut the response at Markdown headings with a pattern of one shape,
  \<^verbatim>\<open>/## Heading\s+([\s\S]*?)(?=##|$)/i\<close>: the heading, white space, and the shortest text
  up to the next \<open>##\<close> or the end of the response.
\<close>

definition heading :: "jsstring \<Rightarrow> jsstring" where
  "heading title = js ''## '' @ title"

definition section_re :: "jsstring \<Rightarrow> regex" where
  "section_re h =
     seqs [lits h, Plus True Space, Group 1 (Star False AnySS), Look (Alt (lits (js ''##'')) Eol)]"

text \<open>
  \<^verbatim>\<open>m = response.match(re); if (m) { field = m[1].trim() }\<close>, the field keeping \<open>dflt\<close>
  otherwise.
\<close>

definition section_text :: "jsstring \<Rightarrow> jsstring \<Rightarrow> jsstring \<Rightarrow> jsstring outcome" where
  "section_text h dflt response =
     (case str_match fl_i (section_re h) response of
        None \<Rightarrow> Returns dflt
      | Some m \<Rightarrow> bind_o (grp m 1) (\<lambda>t. Returns (trim t)))"

text \<open>\<^verbatim>\<open>text.split(/\n-\s+/).slice(1).map(t => t.trim()).filter(t => t.length > 0)\<close>\<close>

definition bullet_items :: "jsstring \<Rightarrow> jsstring list" where
  "bullet_items text = filter (\<lambda>t. 0 < length t) (map trim (bullets text))"

text \<open>\<^verbatim>\<open>m = response.match(re); if (m) { field = items of m[1] }\<close>, else the empty array.\<close>

definition section_items :: "jsstring \<Rightarrow> jsstring \<Rightarrow> jsstring list outcome" where
  "section_items h response =
     (case str_match fl_i (section_re h) response of
        None \<Rightarrow> Returns []
      | Some m \<Rightarrow> bind_o (grp m 1) (\<lambda>t. Returns (bullet_items t)))"

section \<open>enrichCategory and enrichConnection\<close>

record EnrichmentResult =
  extended_description :: jsstring
  alternative_interpretations :: "jsstring list"
  historical_analogs :: "jsstring list"
  related_concepts :: "jsstring list"

definition ru_rasshirennoe_opisanie :: jsstring where
  \<comment> \<open>Rasshirennoe opisanie (Extended description)\<close>
  "ru_rasshirennoe_opisanie =
     [1056, 1072, 1089, 1096, 1080, 1088, 1077, 1085, 1085, 1086, 1077, 32, 1086, 1087,
      1080, 1089, 1072, 1085, 1080, 1077]"

definition ru_alternativnye_traktovki :: jsstring where
  \<comment> \<open>Al'ternativnye traktovki (Alternative interpretations)\<close>
  "ru_alternativnye_traktovki =
     [1040, 1083, 1100, 1090, 1077, 1088, 1085, 1072, 1090, 1080, 1074, 1085, 1099, 1077,
      32, 1090, 1088, 1072, 1082, 1090, 1086, 1074, 1082, 1080]"

definition ru_istoricheskie_analogi :: jsstring where
  \<comment> \<open>Istoricheskie analogi (Historical analogues)\<close>
  "ru_istoricheskie_analogi =
     [1048, 1089, 1090, 1086, 1088, 1080, 1095, 1077, 1089, 1082, 1080, 1077, 32, 1072,
      1085, 1072, 1083, 1086, 1075, 1080]"

definition ru_svyazannye_kontsepty :: jsstring where
  \<comment> \<open>Svyazannye kontsepty (Related concepts)\<close>
  "ru_svyazannye_kontsepty =
     [1057, 1074, 1103, 1079, 1072, 1085, 1085, 1099, 1077, 32, 1082, 1086, 1085, 1094,
      1077, 1087, 1090, 1099]"

definition ru_filosofskoe_obosnovanie :: jsstring where
  \<comment> \<open>Filosofskoe obosnovanie (Philosophical justification)\<close>
  "ru_filosofskoe_obosnovanie =
     [1060, 1080, 1083, 1086, 1089, 1086, 1092, 1089, 1082, 1086, 1077, 32, 1086, 1073,
      1086, 1089, 1085, 1086, 1074, 1072, 1085, 1080, 1077]"

definition ru_vozmozhnye_kontrargumenty :: jsstring where
  \<comment> \<open>Vozmozhnye kontrargumenty (Possible counterarguments)\<close>
  "ru_vozmozhnye_kontrargumenty =
     [1042, 1086, 1079, 1084, 1086, 1078, 1085, 1099, 1077, 32, 1082, 1086, 1085, 1090,
      1088, 1072, 1088, 1075, 1091, 1084, 1077, 1085, 1090, 1099]"

definition ru_analogichnye_svyazi :: jsstring where
  \<comment> \<open>Analogichnye svyazi (Analogous connections)\<close>
  "ru_analogichnye_svyazi =
     [1040, 1085, 1072, 1083, 1086, 1075, 1080, 1095, 1085, 1099, 1077, 32, 1089, 1074,
      1103, 1079, 1080]"

definition ru_prakticheskie_sledstviya :: jsstring where
  \<comment> \<open>Prakticheskie sledstviya (Practical consequences)\<close>
  "ru_prakticheskie_sledstviya =
     [1055, 1088, 1072, 1082, 1090, 1080, 1095, 1077, 1089, 1082, 1080, 1077, 32, 1089,
      1083, 1077, 1076, 1089, 1090, 1074, 1080, 1103]"

text \<open>The part of \<open>enrichCategory\<close> after the response has arrived (lines 388 to 435).\<close>

definition enrichCategory_parse :: "jsstring \<Rightarrow> EnrichmentResult outcome" where
  "enrichCategory_parse response =
     try_wrap ''Failed to enrich category''
       (bind_o (section_text (heading ru_rasshirennoe_opisanie) response response) (\<lambda>ext.
        bind_o (section_items (heading ru_alternativnye_traktovki) response) (\<lambda>alt.
        bind_o (section_items (heading ru_istoricheskie_analogi) response) (\<lambda>hist.
        bind_o (section_items (heading ru_svyazannye_kontsepty) response) (\<lambda>rel.
          Returns \<lparr>extended_description = ext, alternative_interpretations = alt,
                   historical_analogs = hist, related_concepts = rel\<rparr>)))))"

text \<open>The part of \<open>enrichConnection\<close> after the response has arrived (lines 459 to 497).\<close>

definition enrichConnection_parse :: "jsstring \<Rightarrow> EnrichmentResult outcome" where
  "enrichConnection_parse response =
     try_wrap ''Failed to enrich connection''
       (bind_o (section_text (heading ru_filosofskoe_obosnovanie) response response) (\<lambda>ext.
        bind_o (section_items (heading ru_vozmozhnye_kontrargumenty) response) (\<lambda>alt.
        bind_o (section_items (heading ru_analogichnye_svyazi) response) (\<lambda>hist.
          Returns \<lparr>extended_description = ext, alternative_interpretations = alt,
                   historical_analogs = hist, related_concepts = []\<rparr>))))"

section \<open>developThesis\<close>

record ThesisDevelopment =
  dev_text :: jsstring
  dev_justification :: jsstring
  dev_counterarguments :: jsstring
  dev_historical_analogs :: jsstring
  dev_practical_implications :: jsstring

text \<open>
  The part of \<open>developThesis\<close> after the response has arrived (lines 613 to 646); \<open>text\<close>
  is the text of the thesis that was sent, not the response.
\<close>

definition developThesis_parse :: "jsstring \<Rightarrow> jsstring \<Rightarrow> ThesisDevelopment outcome" where
  "developThesis_parse thesis_txt response =
     try_wrap ''Failed to develop thesis''
       (bind_o (section_text (heading ru_filosofskoe_obosnovanie) [] response) (\<lambda>j.
        bind_o (section_text (heading ru_vozmozhnye_kontrargumenty) [] response) (\<lambda>c.
        bind_o (section_text (heading ru_istoricheskie_analogi) [] response) (\<lambda>h.
        bind_o (section_text (heading ru_prakticheskie_sledstviya) [] response) (\<lambda>i.
          Returns \<lparr>dev_text = thesis_txt, dev_justification = j, dev_counterarguments = c,
                   dev_historical_analogs = h, dev_practical_implications = i\<rparr>)))))"

section \<open>The operations that return the response as it is\<close>

text \<open>
  \<open>historicalContextualize\<close>, \<open>practicalApplication\<close>, \<open>dialogicalInterpretation\<close> and
  \<open>conceptEvolution\<close> end in \<^verbatim>\<open>return { text: response }\<close>.
\<close>

record TextResult =
  result_text :: jsstring

definition text_only_parse :: "jsstring \<Rightarrow> TextResult outcome" where
  "text_only_parse response = Returns \<lparr>result_text = response\<rparr>"


section \<open>analyseSynthesisCompatibility\<close>

datatype element_type = El_category | El_connection

datatype compatibility_kind = Fully | Potentially | Incompatible

record CompatibilityElement =
  element_type :: element_type
  element_id :: jsstring
  element_name :: jsstring
  element_description :: jsstring
  compatibility_explanation :: jsstring

record SynthesisStrategy =
  strategy_name :: jsstring
  strategy_description :: jsstring
  benefits :: "jsstring list"
  limitations :: "jsstring list"
  recommended :: bool

record CompatibilityAnalysis =
  fully_compatible :: "CompatibilityElement list"
  potentially_compatible :: "CompatibilityElement list"
  incompatible :: "CompatibilityElement list"
  synthesis_strategies :: "SynthesisStrategy list"

definition ru_polnostyu_sovmestimye :: jsstring where
  \<comment> \<open>Polnost'yu sovmestimye elementy (Fully compatible elements)\<close>
  "ru_polnostyu_sovmestimye =
     [1055, 1086, 1083, 1085, 1086, 1089, 1090, 1100, 1102, 32, 1089, 1086, 1074, 1084,
      1077, 1089, 1090, 1080, 1084, 1099, 1077, 32, 1101, 1083, 1077, 1084, 1077, 1085,
      1090, 1099]"

definition ru_potentsialno_sovmestimye :: jsstring where
  \<comment> \<open>Potentsial'no sovmestimye elementy (Potentially compatible elements)\<close>
  "ru_potentsialno_sovmestimye =
     [1055, 1086, 1090, 1077, 1085, 1094, 1080, 1072, 1083, 1100, 1085, 1086, 32, 1089,
      1086, 1074, 1084, 1077, 1089, 1090, 1080, 1084, 1099, 1077, 32, 1101, 1083, 1077,
      1084, 1077, 1085, 1090, 1099]"

definition ru_printsipialno_nesovmestimye :: jsstring where
  \<comment> \<open>Printsipial'no nesovmestimye elementy (Fundamentally incompatible elements)\<close>
  "ru_printsipialno_nesovmestimye =
     [1055, 1088, 1080, 1085, 1094, 1080, 1087, 1080, 1072, 1083, 1100, 1085, 1086, 32,
      1085, 1077, 1089, 1086, 1074, 1084, 1077, 1089, 1090, 1080, 1084, 1099, 1077, 32,
      1101, 1083, 1077, 1084, 1077, 1085, 1090, 1099]"

definition ru_vozmozhnye_strategii :: jsstring where
  \<comment> \<open>Vozmozhnye strategii sinteza (Possible synthesis strategies)\<close>
  "ru_vozmozhnye_strategii =
     [1042, 1086, 1079, 1084, 1086, 1078, 1085, 1099, 1077, 32, 1089, 1090, 1088, 1072,
      1090, 1077, 1075, 1080, 1080, 32, 1089, 1080, 1085, 1090, 1077, 1079, 1072]"

definition ru_opisanie_label :: jsstring where
  \<comment> \<open>Opisanie: (Description:)\<close>
  "ru_opisanie_label =
     [1054, 1087, 1080, 1089, 1072, 1085, 1080, 1077, 58]"

definition ru_preimushchestva :: jsstring where
  \<comment> \<open>Preimushchestva: (Benefits:)\<close>
  "ru_preimushchestva =
     [1055, 1088, 1077, 1080, 1084, 1091, 1097, 1077, 1089, 1090, 1074, 1072, 58]"

definition ru_ogranicheniya :: jsstring where
  \<comment> \<open>Ogranicheniya: (Limitations:)\<close>
  "ru_ogranicheniya =
     [1054, 1075, 1088, 1072, 1085, 1080, 1095, 1077, 1085, 1080, 1103, 58]"

definition ru_rekomenduetsya :: jsstring where
  \<comment> \<open>Rekomenduetsya: (Recommended:)\<close>
  "ru_rekomenduetsya =
     [1056, 1077, 1082, 1086, 1084, 1077, 1085, 1076, 1091, 1077, 1090, 1089, 1103, 58]"

definition ru_da :: jsstring where
  \<comment> \<open>da (yes)\<close>
  "ru_da =
     [1076, 1072]"

definition ru_svyaz :: jsstring where
  \<comment> \<open>svyaz' (connection)\<close>
  "ru_svyaz =
     [1089, 1074, 1103, 1079, 1100]"

definition ru_otnoshenie :: jsstring where
  \<comment> \<open>otnoshenie (relation)\<close>
  "ru_otnoshenie =
     [1086, 1090, 1085, 1086, 1096, 1077, 1085, 1080, 1077]"

definition ru_prichina_sovmestimosti :: jsstring where
  \<comment> \<open>Prichina sovmestimosti: (Reason of compatibility:)\<close>
  "ru_prichina_sovmestimosti =
     [1055, 1088, 1080, 1095, 1080, 1085, 1072, 32, 1089, 1086, 1074, 1084, 1077, 1089,
      1090, 1080, 1084, 1086, 1089, 1090, 1080, 58]"

definition ru_usloviya_sovmestimosti :: jsstring where
  \<comment> \<open>Usloviya sovmestimosti: (Conditions of compatibility:)\<close>
  "ru_usloviya_sovmestimosti =
     [1059, 1089, 1083, 1086, 1074, 1080, 1103, 32, 1089, 1086, 1074, 1084, 1077, 1089,
      1090, 1080, 1084, 1086, 1089, 1090, 1080, 58]"

definition ru_prichina_nesovmestimosti :: jsstring where
  \<comment> \<open>Prichina nesovmestimosti: (Reason of incompatibility:)\<close>
  "ru_prichina_nesovmestimosti =
     [1055, 1088, 1080, 1095, 1080, 1085, 1072, 32, 1085, 1077, 1089, 1086, 1074, 1084,
      1077, 1089, 1090, 1080, 1084, 1086, 1089, 1090, 1080, 58]"

text \<open>
  \<open>elementRegex\<close> and \<open>strategyRegex\<close>, with the flag \<open>g\<close>:
  \<^verbatim>\<open>/### (.+?)\s+([\s\S]*?)(?=###|$)/\<close>
\<close>

definition subheading_re :: regex where
  "subheading_re =
     seqs [lits (js ''### ''), Group 1 (Plus False Dot), Plus True Space,
           Group 2 (Star False AnySS), Look (Alt (lits (js ''###'')) Eol)]"

text \<open>
  A value handed to \<open>exec\<close> or \<open>match\<close> is converted to a string: \<open>undefined\<close> becomes
  the text \<open>undefined\<close>.
\<close>

definition to_string :: "jsstring option \<Rightarrow> jsstring" where
  "to_string x = (case x of None \<Rightarrow> js ''undefined'' | Some t \<Rightarrow> t)"

definition explanation_label :: "compatibility_kind \<Rightarrow> jsstring" where
  "explanation_label kind =
     (case kind of
        Fully \<Rightarrow> ru_prichina_sovmestimosti
      | Potentially \<Rightarrow> ru_usloviya_sovmestimosti
      | Incompatible \<Rightarrow> ru_prichina_nesovmestimosti)"

definition extractCompatibilityExplanation :: "jsstring \<Rightarrow> compatibility_kind \<Rightarrow> jsstring outcome" where
  "extractCompatibilityExplanation text kind =
     (if str_includes text (explanation_label kind)
      then bind_o (defined (nth_opt (split_str text (explanation_label kind)) 1))
             (\<lambda>t. Returns (trim t))
      else Returns text)"

definition element_of_match :: "compatibility_kind \<Rightarrow> match_result \<Rightarrow> CompatibilityElement outcome" where
  "element_of_match kind m =
     bind_o (grp m 1) (\<lambda>g1.
     bind_o (grp m 2) (\<lambda>g2.
       (let elementName = trim g1;
            elementContent = trim g2;
            elementType =
              (if str_includes elementName (js ''->'') \<or> str_includes elementContent ru_svyaz
                  \<or> str_includes elementContent ru_otnoshenie
               then El_connection else El_category)
        in bind_o (extractCompatibilityExplanation elementContent kind) (\<lambda>expl.
             Returns \<lparr>element_type = elementType, element_id = [], element_name = elementName,
                      element_description = elementContent,
                      compatibility_explanation = expl\<rparr>))))"

definition extractCompatibilityElements :: "jsstring \<Rightarrow> compatibility_kind \<Rightarrow> CompatibilityElement list outcome" where
  "extractCompatibilityElements text kind =
     bind_o (of_loop (exec_all fl_plain subheading_re text 0)) (for_each (element_of_match kind))"

text \<open>
  The patterns of a strategy's fields, \<^verbatim>\<open>/Label:\s+([\s\S]*?)(?=Next:|$)/i\<close>, and of its
  last field, \<^verbatim>\<open>/Rekomenduetsya:\s+([\s\S]*)/i\<close>.
\<close>

definition labelled_re :: "jsstring \<Rightarrow> jsstring \<Rightarrow> regex" where
  "labelled_re label nxt =
     seqs [lits label, Plus True Space, Group 1 (Star False AnySS), Look (Alt (lits nxt) Eol)]"

definition recommended_re :: regex where
  "recommended_re = seqs [lits ru_rekomenduetsya, Plus True Space, Group 1 (Star True AnySS)]"

definition strategy_of_match :: "match_result \<Rightarrow> SynthesisStrategy outcome" where
  "strategy_of_match m =
     bind_o (grp m 1) (\<lambda>g1.
     bind_o (grp m 2) (\<lambda>g2.
       (let strategyName = trim g1;
            strategyContent = trim g2;
            descriptionMatch = str_match fl_i (labelled_re ru_opisanie_label ru_preimushchestva) strategyContent;
            benefitsMatch = str_match fl_i (labelled_re ru_preimushchestva ru_ogranicheniya) strategyContent;
            limitationsMatch = str_match fl_i (labelled_re ru_ogranicheniya ru_rekomenduetsya) strategyContent;
            recommendedMatch = str_match fl_i recommended_re strategyContent
        in bind_o (case descriptionMatch of
                     None \<Rightarrow> Returns []
                   | Some d \<Rightarrow> bind_o (grp d 1) (\<lambda>t. Returns (trim t))) (\<lambda>descr.
           bind_o (case benefitsMatch of
                     None \<Rightarrow> Returns []
                   | Some b \<Rightarrow> bind_o (grp b 1) (\<lambda>t. Returns (bullet_items t))) (\<lambda>bens.
           bind_o (case limitationsMatch of
                     None \<Rightarrow> Returns []
                   | Some l \<Rightarrow> bind_o (grp l 1) (\<lambda>t. Returns (bullet_items t))) (\<lambda>lims.
           bind_o (case recommendedMatch of
                     None \<Rightarrow> Returns False
                   | Some r \<Rightarrow> bind_o (grp r 1) (\<lambda>t. Returns (toLowerCase (trim t) = ru_da))) (\<lambda>rec.
             Returns \<lparr>strategy_name = strategyName, strategy_description = descr,
                      benefits = bens, limitations = lims, recommended = rec\<rparr>)))))))"

definition compatibility_section :: "jsstring \<Rightarrow> compatibility_kind \<Rightarrow> jsstring \<Rightarrow> CompatibilityElement list outcome" where
  "compatibility_section title kind response =
     (case str_match fl_i (section_re (heading title)) response of
        None \<Rightarrow> Returns []
      | Some m \<Rightarrow> extractCompatibilityElements (to_string (m_groups m 1)) kind)"

text \<open>
  The part of \<open>analyseSynthesisCompatibility\<close> after the response has arrived (lines 682
  to 751).
\<close>

definition analyseSynthesisCompatibility_parse :: "jsstring \<Rightarrow> CompatibilityAnalysis outcome" where
  "analyseSynthesisCompatibility_parse response =
     try_wrap ''Failed to analyze synthesis compatibility''
       (bind_o (compatibility_section ru_polnostyu_sovmestimye Fully response) (\<lambda>full.
        bind_o (compatibility_section ru_potentsialno_sovmestimye Potentially response) (\<lambda>pot.
        bind_o (compatibility_section ru_printsipialno_nesovmestimye Incompatible response) (\<lambda>inc.
        bind_o (case str_match fl_i (section_re (heading ru_vozmozhnye_strategii)) response of
                  None \<Rightarrow> Returns []
                | Some m \<Rightarrow>
                    bind_o (of_loop (exec_all fl_plain subheading_re (to_string (m_groups m 1)) 0))
                      (for_each strategy_of_match)) (\<lambda>strats.
          Returns \<lparr>fully_compatible = full, potentially_compatible = pot, incompatible = inc,
                   synthesis_strategies = strats\<rparr>)))))"


section \<open>criticallyAnalyzeSynthesis\<close>

text \<open>
  A score is a JavaScript number; \<open>None\<close> is NaN. \<open>parseFloat\<close> is applied only to text
  the pattern \<^verbatim>\<open>\d+(?:\.\d+)?\<close> has captured, and is modelled for this form: digits, and
  a fraction when a dot and digits follow. The value is the exact decimal, not the double
  nearest to it.
\<close>

definition digits_value :: "jsstring \<Rightarrow> nat" where
  "digits_value ds = foldl (\<lambda>acc d. 10 * acc + (d - 48)) 0 ds"

definition parseFloat :: "jsstring option \<Rightarrow> rat option" where
  "parseFloat x =
     (case x of
        None \<Rightarrow> None
      | Some t \<Rightarrow>
          (let ip = takeWhile is_digit t; r = dropWhile is_digit t
           in if ip = [] then None
              else (case r of
                      c # fr \<Rightarrow>
                        if c = 46 \<and> takeWhile is_digit fr \<noteq> []
                        then Some (of_nat (digits_value ip)
                                   + of_nat (digits_value (takeWhile is_digit fr))
                                     / of_nat (10 ^ length (takeWhile is_digit fr)))
                        else Some (of_nat (digits_value ip))
                    | [] \<Rightarrow> Some (of_nat (digits_value ip)))))"

record InternalConsistency =
  ic_score :: "rat option"
  ic_analysis :: jsstring
  ic_issues :: "jsstring list option"

record PhilosophicalNovelty =
  pn_score :: "rat option"
  pn_analysis :: jsstring
  novel_elements :: "jsstring list option"

record PreservationOfValue =
  pv_score :: "rat option"
  pv_analysis :: jsstring
  preserved_elements :: "jsstring list option"
  lost_elements :: "jsstring list option"

record ContradictionResolution =
  cr_score :: "rat option"
  cr_analysis :: jsstring
  resolved_contradictions :: "jsstring list option"
  remaining_contradictions :: "jsstring list option"

record PotentialIssue =
  pi_severity :: severity
  pi_issue :: jsstring
  potential_solution :: "jsstring option"

record CriticalAnalysis =
  internal_consistency :: InternalConsistency
  philosophical_novelty :: PhilosophicalNovelty
  preservation_of_value :: PreservationOfValue
  contradiction_resolution :: ContradictionResolution
  potential_issues :: "PotentialIssue list"

definition ru_vnutrennyaya_soglasovannost :: jsstring where
  \<comment> \<open>Vnutrennyaya soglasovannost' (Internal consistency)\<close>
  "ru_vnutrennyaya_soglasovannost =
     [1042, 1085, 1091, 1090, 1088, 1077, 1085, 1085, 1103, 1103, 32, 1089, 1086, 1075,
      1083, 1072, 1089, 1086, 1074, 1072, 1085, 1085, 1086, 1089, 1090, 1100]"

definition ru_problemy :: jsstring where
  \<comment> \<open>Problemy: (Issues:)\<close>
  "ru_problemy =
     [1055, 1088, 1086, 1073, 1083, 1077, 1084, 1099, 58]"

definition ru_filosofskaya_novizna :: jsstring where
  \<comment> \<open>Filosofskaya novizna (Philosophical novelty)\<close>
  "ru_filosofskaya_novizna =
     [1060, 1080, 1083, 1086, 1089, 1086, 1092, 1089, 1082, 1072, 1103, 32, 1085, 1086,
      1074, 1080, 1079, 1085, 1072]"

definition ru_novye_elementy :: jsstring where
  \<comment> \<open>Novye elementy: (New elements:)\<close>
  "ru_novye_elementy =
     [1053, 1086, 1074, 1099, 1077, 32, 1101, 1083, 1077, 1084, 1077, 1085, 1090, 1099, 58]"

definition ru_sokhranenie_tsennykh_aspektov :: jsstring where
  \<comment> \<open>Sokhranenie tsennykh aspektov (Preservation of valuable aspects)\<close>
  "ru_sokhranenie_tsennykh_aspektov =
     [1057, 1086, 1093, 1088, 1072, 1085, 1077, 1085, 1080, 1077, 32, 1094, 1077, 1085,
      1085, 1099, 1093, 32, 1072, 1089, 1087, 1077, 1082, 1090, 1086, 1074]"

definition ru_sokhranennye_elementy :: jsstring where
  \<comment> \<open>Sokhranennye elementy: (Preserved elements:)\<close>
  "ru_sokhranennye_elementy =
     [1057, 1086, 1093, 1088, 1072, 1085, 1077, 1085, 1085, 1099, 1077, 32, 1101, 1083,
      1077, 1084, 1077, 1085, 1090, 1099, 58]"

definition ru_utrachennye_elementy :: jsstring where
  \<comment> \<open>Utrachennye elementy: (Lost elements:)\<close>
  "ru_utrachennye_elementy =
     [1059, 1090, 1088, 1072, 1095, 1077, 1085, 1085, 1099, 1077, 32, 1101, 1083, 1077,
      1084, 1077, 1085, 1090, 1099, 58]"

definition ru_razreshenie_protivorechii :: jsstring where
  \<comment> \<open>Razreshenie protivorechii (Resolution of contradictions)\<close>
  "ru_razreshenie_protivorechii =
     [1056, 1072, 1079, 1088, 1077, 1096, 1077, 1085, 1080, 1077, 32, 1087, 1088, 1086,
      1090, 1080, 1074, 1086, 1088, 1077, 1095, 1080, 1081]"

definition ru_razreshennye_protivorechiya :: jsstring where
  \<comment> \<open>Razreshennye protivorechiya: (Resolved contradictions:)\<close>
  "ru_razreshennye_protivorechiya =
     [1056, 1072, 1079, 1088, 1077, 1096, 1077, 1085, 1085, 1099, 1077, 32, 1087, 1088,
      1086, 1090, 1080, 1074, 1086, 1088, 1077, 1095, 1080, 1103, 58]"

definition ru_ostavshiesya_protivorechiya :: jsstring where
  \<comment> \<open>Ostavshiesya protivorechiya: (Remaining contradictions:)\<close>
  "ru_ostavshiesya_protivorechiya =
     [1054, 1089, 1090, 1072, 1074, 1096, 1080, 1077, 1089, 1103, 32, 1087, 1088, 1086,
      1090, 1080, 1074, 1086, 1088, 1077, 1095, 1080, 1103, 58]"

definition ru_potentsialnye_problemy :: jsstring where
  \<comment> \<open>Potentsial'nye problemy (Potential issues)\<close>
  "ru_potentsialnye_problemy =
     [1055, 1086, 1090, 1077, 1085, 1094, 1080, 1072, 1083, 1100, 1085, 1099, 1077, 32,
      1087, 1088, 1086, 1073, 1083, 1077, 1084, 1099]"

definition ru_sereznost :: jsstring where
  \<comment> \<open>Ser'eznost': (Severity:)\<close>
  "ru_sereznost =
     [1057, 1077, 1088, 1100, 1077, 1079, 1085, 1086, 1089, 1090, 1100, 58]"

definition ru_nizk :: jsstring where
  \<comment> \<open>nizk (stem of low)\<close>
  "ru_nizk =
     [1085, 1080, 1079, 1082]"

definition ru_vysok :: jsstring where
  \<comment> \<open>vysok (stem of high)\<close>
  "ru_vysok =
     [1074, 1099, 1089, 1086, 1082]"

definition ru_potentsialnoe_reshenie :: jsstring where
  \<comment> \<open>Potentsial'noe reshenie: (Potential solution:)\<close>
  "ru_potentsialnoe_reshenie =
     [1055, 1086, 1090, 1077, 1085, 1094, 1080, 1072, 1083, 1100, 1085, 1086, 1077, 32,
      1088, 1077, 1096, 1077, 1085, 1080, 1077, 58]"

text \<open>
  The pattern of a scored dimension, with the flag \<open>i\<close>:
  \<^verbatim>\<open>/## Heading\s+(\d+(?:\.\d+)?)\s*\/\s*1(?:\n|\r\n)([\s\S]*?)(?=##|$)/\<close>
\<close>

definition dimension_re :: "jsstring \<Rightarrow> regex" where
  "dimension_re h =
     seqs [lits h, Plus True Space,
           Group 1 (seqs [Plus True Digit, Opt True (seqs [Lit 46, Plus True Digit])]),
           Star True Space, Lit 47, Star True Space, Lit 49, Alt (Lit 10) (lits [13, 10]),
           Group 2 (Star False AnySS), Look (Alt (lits (js ''##'')) Eol)]"

text \<open>
  The patterns of the lists inside a dimension's text, with the flag \<open>i\<close>:
  \<^verbatim>\<open>/Label:([\s\S]*?)(?=stop|$)/\<close>, where \<open>stop\<close> is an empty line or the next label.
\<close>

definition sublist_re :: "jsstring \<Rightarrow> jsstring \<Rightarrow> regex" where
  "sublist_re label stop = seqs [lits label, Group 1 (Star False AnySS), Look (Alt (lits stop) Eol)]"

text \<open>\<^verbatim>\<open>m = analysis.match(re); if (m) { field = items of m[1] }\<close>, the field absent otherwise.\<close>

definition sublist :: "jsstring \<Rightarrow> jsstring \<Rightarrow> jsstring \<Rightarrow> jsstring list option outcome" where
  "sublist label stop analysis =
     (case str_match fl_i (sublist_re label stop) analysis of
        None \<Rightarrow> Returns None
      | Some m \<Rightarrow> bind_o (grp m 1) (\<lambda>t. Returns (Some (bullet_items t))))"

definition parse_internal_consistency :: "jsstring \<Rightarrow> InternalConsistency outcome" where
  "parse_internal_consistency response =
     (case str_match fl_i (dimension_re (heading ru_vnutrennyaya_soglasovannost)) response of
        None \<Rightarrow> Returns \<lparr>ic_score = Some 0, ic_analysis = [], ic_issues = None\<rparr>
      | Some m \<Rightarrow>
          bind_o (grp m 2) (\<lambda>g2.
          bind_o (sublist ru_problemy [10, 10] (trim g2)) (\<lambda>iss.
            Returns \<lparr>ic_score = parseFloat (m_groups m 1), ic_analysis = trim g2,
                     ic_issues = iss\<rparr>)))"

definition parse_philosophical_novelty :: "jsstring \<Rightarrow> PhilosophicalNovelty outcome" where
  "parse_philosophical_novelty response =
     (case str_match fl_i (dimension_re (heading ru_filosofskaya_novizna)) response of
        None \<Rightarrow> Returns \<lparr>pn_score = Some 0, pn_analysis = [], novel_elements = None\<rparr>
      | Some m \<Rightarrow>
          bind_o (grp m 2) (\<lambda>g2.
          bind_o (sublist ru_novye_elementy [10, 10] (trim g2)) (\<lambda>nov.
            Returns \<lparr>pn_score = parseFloat (m_groups m 1), pn_analysis = trim g2,
                     novel_elements = nov\<rparr>)))"

definition parse_preservation_of_value :: "jsstring \<Rightarrow> PreservationOfValue outcome" where
  "parse_preservation_of_value response =
     (case str_match fl_i (dimension_re (heading ru_sokhranenie_tsennykh_aspektov)) response of
        None \<Rightarrow> Returns \<lparr>pv_score = Some 0, pv_analysis = [], preserved_elements = None,
                          lost_elements = None\<rparr>
      | Some m \<Rightarrow>
          bind_o (grp m 2) (\<lambda>g2.
          bind_o (sublist ru_sokhranennye_elementy ru_utrachennye_elementy (trim g2)) (\<lambda>pres.
          bind_o (sublist ru_utrachennye_elementy [10, 10] (trim g2)) (\<lambda>lost.
            Returns \<lparr>pv_score = parseFloat (m_groups m 1), pv_analysis = trim g2,
                     preserved_elements = pres, lost_elements = lost\<rparr>))))"

definition parse_contradiction_resolution :: "jsstring \<Rightarrow> ContradictionResolution outcome" where
  "parse_contradiction_resolution response =
     (case str_match fl_i (dimension_re (heading ru_razreshenie_protivorechii)) response of
        None \<Rightarrow> Returns \<lparr>cr_score = Some 0, cr_analysis = [], resolved_contradictions = None,
                          remaining_contradictions = None\<rparr>
      | Some m \<Rightarrow>
          bind_o (grp m 2) (\<lambda>g2.
          bind_o (sublist ru_razreshennye_protivorechiya ru_ostavshiesya_protivorechiya (trim g2)) (\<lambda>res.
          bind_o (sublist ru_ostavshiesya_protivorechiya [10, 10] (trim g2)) (\<lambda>rem.
            Returns \<lparr>cr_score = parseFloat (m_groups m 1), cr_analysis = trim g2,
                     resolved_contradictions = res, remaining_contradictions = rem\<rparr>))))"

text \<open>
  The section of the potential issues, \<^verbatim>\<open>/## Potentsial'nye problemy([\s\S]*?)(?=##|$)/i\<close>,
  and \<open>issueRegex\<close>, with the flag \<open>g\<close>:
  \<^verbatim>\<open>/### (.+?)\s+Ser'eznost': (.+?)\s+([\s\S]*?)(?=###|$)/\<close>
\<close>

definition issues_section_re :: regex where
  "issues_section_re =
     seqs [lits (heading ru_potentsialnye_problemy), Group 1 (Star False AnySS),
           Look (Alt (lits (js ''##'')) Eol)]"

definition issueRegex :: regex where
  "issueRegex =
     seqs [lits (js ''### ''), Group 1 (Plus False Dot), Plus True Space,
           lits (ru_sereznost @ js '' ''), Group 2 (Plus False Dot), Plus True Space,
           Group 3 (Star False AnySS), Look (Alt (lits (js ''###'')) Eol)]"

definition solution_re :: regex where
  "solution_re =
     seqs [lits ru_potentsialnoe_reshenie, Plus True Space, Group 1 (Star False AnySS),
           Look (Alt (lits [10, 10]) Eol)]"

definition issue_of_match :: "match_result \<Rightarrow> PotentialIssue outcome" where
  "issue_of_match m =
     bind_o (grp m 1) (\<lambda>g1.
     bind_o (grp m 2) (\<lambda>g2.
     bind_o (grp m 3) (\<lambda>g3.
       (let severityText = toLowerCase (trim g2);
            issueDescription = trim g3;
            sev = (if str_includes severityText ru_nizk \<or> str_includes severityText (js ''low'')
                   then Low
                   else if str_includes severityText ru_vysok \<or> str_includes severityText (js ''high'')
                   then High else Medium)
        in bind_o (case str_match fl_i solution_re issueDescription of
                     None \<Rightarrow> Returns None
                   | Some sm \<Rightarrow> bind_o (grp sm 1) (\<lambda>t. Returns (Some (trim t)))) (\<lambda>sol.
           bind_o (if str_includes issueDescription ru_potentsialnoe_reshenie
                   then bind_o (defined (nth_opt (split_str issueDescription ru_potentsialnoe_reshenie) 0))
                          (\<lambda>t. Returns (trim t))
                   else Returns issueDescription) (\<lambda>iss.
             Returns \<lparr>pi_severity = sev, pi_issue = iss, potential_solution = sol\<rparr>))))))"

text \<open>
  The part of \<open>criticallyAnalyzeSynthesis\<close> after the response has arrived (lines 1060
  to 1212).
\<close>

definition criticallyAnalyzeSynthesis_parse :: "jsstring \<Rightarrow> CriticalAnalysis outcome" where
  "criticallyAnalyzeSynthesis_parse response =
     try_wrap ''Failed to critically analyze synthesis''
       (bind_o (parse_internal_consistency response) (\<lambda>ic.
        bind_o (parse_philosophical_novelty response) (\<lambda>pn.
        bind_o (parse_preservation_of_value response) (\<lambda>pv.
        bind_o (parse_contradiction_resolution response) (\<lambda>cr.
        bind_o (case str_match fl_i issues_section_re response of
                  None \<Rightarrow> Returns []
                | Some m \<Rightarrow>
                    bind_o (of_loop (exec_all fl_plain issueRegex (to_string (m_groups m 1)) 0))
                      (for_each issue_of_match)) (\<lambda>issues.
          Returns \<lparr>internal_consistency = ic, philosophical_novelty = pn,
                   preservation_of_value = pv, contradiction_resolution = cr,
                   potential_issues = issues\<rparr>))))))"


section \<open>synthesizeConcepts\<close>

datatype synthesis_method = Dialectical | Integrative | Transformational | Complementary

datatype innovation_level = Conservative | Moderate | Radical

datatype abstraction_level = Concrete | Intermediate | Abstract

datatype historical_context = Contemporary | Historical | Timeless

record SynthesisParams =
  concept_ids :: "jsstring list"
  sp_synthesis_method :: synthesis_method
  sp_innovation_level :: "innovation_level option"
  sp_abstraction_level :: "abstraction_level option"
  sp_historical_context :: "historical_context option"
  sp_target_application :: "jsstring option"
  priorities :: "(jsstring \<times> rat) list option"
  sp_focus_area :: "thesis_type option"
  use_weights :: bool

record Concept =
  concept_id :: jsstring
  user_id :: jsstring
  name :: jsstring
  description :: "jsstring option"
  creation_date :: nat
  last_modified :: nat
  is_synthesis :: bool
  parent_concepts :: "jsstring list option"
  synthesis_method :: "synthesis_method option"
  focus_area :: "thesis_type option"

record SynthesisMeta =
  synthesis_id :: jsstring
  result_concept_id :: jsstring
  source_concept_ids :: "jsstring list"
  meta_synthesis_method :: synthesis_method
  meta_innovation_level :: "innovation_level option"
  meta_abstraction_level :: "abstraction_level option"
  meta_historical_context :: "historical_context option"
  meta_target_application :: "jsstring option"
  meta_created_at :: nat

record Origin =
  origin_concept_id :: jsstring
  origin_entity_id :: "jsstring option"
  transformation :: "jsstring option"

record OriginMapping =
  category_mapping :: "(jsstring \<times> Origin) list"
  connection_mapping :: "(jsstring \<times> Origin) list"

record SynthesisResult =
  result_concept :: Concept
  result_graph :: ConceptGraph
  synthesis_meta :: SynthesisMeta
  origin_mapping :: OriginMapping

text \<open>The drafts \<open>newCategories\<close> and \<open>newConnections\<close> collect.\<close>

record DraftCategory =
  dcat_name :: jsstring
  dcat_definition :: jsstring
  dcat_source :: jsstring

record DraftConnection =
  dconn_source_category :: jsstring
  dconn_target_category :: jsstring
  dconn_connection_type :: jsstring
  dconn_direction :: jsstring
  dconn_description :: jsstring
  dconn_source :: jsstring

definition ru_sintezirovannaya_kontseptsiya :: jsstring where
  \<comment> \<open>Sintezirovannaya kontseptsiya: (Synthesized concept:)\<close>
  "ru_sintezirovannaya_kontseptsiya =
     [1057, 1080, 1085, 1090, 1077, 1079, 1080, 1088, 1086, 1074, 1072, 1085, 1085, 1072,
      1103, 32, 1082, 1086, 1085, 1094, 1077, 1087, 1094, 1080, 1103, 58]"

definition ru_sintez :: jsstring where
  \<comment> \<open>Sintez: (Synthesis:)\<close>
  "ru_sintez =
     [1057, 1080, 1085, 1090, 1077, 1079, 58]"

definition ru_opisanie :: jsstring where
  \<comment> \<open>Opisanie (Description)\<close>
  "ru_opisanie =
     [1054, 1087, 1080, 1089, 1072, 1085, 1080, 1077]"

definition ru_kategorii :: jsstring where
  \<comment> \<open>Kategorii (Categories)\<close>
  "ru_kategorii =
     [1050, 1072, 1090, 1077, 1075, 1086, 1088, 1080, 1080]"

definition ru_proiskhozhdenie :: jsstring where
  \<comment> \<open>Proiskhozhdenie: (Origin:)\<close>
  "ru_proiskhozhdenie =
     [1055, 1088, 1086, 1080, 1089, 1093, 1086, 1078, 1076, 1077, 1085, 1080, 1077, 58]"

definition ru_svyazi :: jsstring where
  \<comment> \<open>Svyazi (Connections)\<close>
  "ru_svyazi =
     [1057, 1074, 1103, 1079, 1080]"

text \<open>The decimal digits of an array index, as a template literal writes it.\<close>

function show_nat :: "nat \<Rightarrow> jsstring" where
  "show_nat n = (if n < 10 then [48 + n] else show_nat (n div 10) @ [48 + n mod 10])"
  by pat_completeness auto
termination
  by (relation "measure id") auto

text \<open>
  The title line, without flags: \<^verbatim>\<open>/# Sintezirovannaya kontseptsiya: (.+?)(?=\n|$)/\<close>
\<close>

definition title_re :: regex where
  "title_re =
     seqs [lits (js ''# '' @ ru_sintezirovannaya_kontseptsiya @ js '' ''), Group 1 (Plus False Dot),
           Look (Alt (Lit 10) Eol)]"

text \<open>
  \<open>categoryRegex\<close>, with the flags \<open>gs\<close>:
  \<^verbatim>\<open>/### (.+?)\s+(.+?)(?:\nProiskhozhdenie: (.+?))?(?=###|$)/\<close>
\<close>

definition categoryRegex :: regex where
  "categoryRegex =
     seqs [lits (js ''### ''), Group 1 (Plus False Dot), Plus True Space, Group 2 (Plus False Dot),
           Opt True (seqs [lits ([10] @ ru_proiskhozhdenie @ js '' ''), Group 3 (Plus False Dot)]),
           Look (Alt (lits (js ''###'')) Eol)]"

text \<open>
  \<open>connectionRegex\<close>, with the flags \<open>gs\<close>:
  \<^verbatim>\<open>/- (.+?) (->|<->|<-) (.+?) \((.+?)\)(?:: (.+?))?(?:\nProiskhozhdenie: (.+?))?(?=\n-|\n##|$)/\<close>
\<close>

definition connectionRegex :: regex where
  "connectionRegex =
     seqs [lits (js ''- ''), Group 1 (Plus False Dot), Lit 32,
           Group 2 (Alt (lits (js ''->'')) (Alt (lits (js ''<->'')) (lits (js ''<-'')))), Lit 32,
           Group 3 (Plus False Dot), lits (js '' (''), Group 4 (Plus False Dot), Lit 41,
           Opt True (seqs [lits (js '': ''), Group 5 (Plus False Dot)]),
           Opt True (seqs [lits ([10] @ ru_proiskhozhdenie @ js '' ''), Group 6 (Plus False Dot)]),
           Look (Alt (lits [10, 45]) (Alt (lits ([10] @ js ''##'')) Eol))]"

definition category_of_match :: "match_result \<Rightarrow> DraftCategory outcome" where
  "category_of_match m =
     bind_o (grp m 1) (\<lambda>g1.
     bind_o (grp m 2) (\<lambda>g2.
       Returns \<lparr>dcat_name = trim g1, dcat_definition = trim g2,
                dcat_source = grp_trim_or_empty m 3\<rparr>))"

definition connection_of_match :: "match_result \<Rightarrow> DraftConnection outcome" where
  "connection_of_match m =
     bind_o (grp m 1) (\<lambda>g1.
     bind_o (grp m 2) (\<lambda>g2.
     bind_o (grp m 3) (\<lambda>g3.
     bind_o (grp m 4) (\<lambda>g4.
       Returns \<lparr>dconn_source_category = trim g1,
                dconn_target_category = trim g3,
                dconn_connection_type = trim g4,
                dconn_direction =
                  (if trim g2 = js ''->'' then js ''directed''
                   else if trim g2 = js ''<->'' then js ''bidirectional''
                   else js ''directed''),
                dconn_description = grp_trim_or_empty m 5,
                dconn_source = grp_trim_or_empty m 6\<rparr>))))"

text \<open>\<^verbatim>\<open>m = response.match(re); if (m) { loop over re2 in m[1] }\<close>, else nothing is collected.\<close>

definition collect_section :: "jsstring \<Rightarrow> regex \<Rightarrow> (match_result \<Rightarrow> 'a outcome) \<Rightarrow> jsstring \<Rightarrow> 'a list outcome" where
  "collect_section title re body response =
     (case str_match fl_i (section_re (heading title)) response of
        None \<Rightarrow> Returns []
      | Some m \<Rightarrow> bind_o (of_loop (exec_all fl_s re (to_string (m_groups m 1)) 0)) (for_each body))"

text \<open>The categories of \<open>partialGraph\<close> (lines 968 to 978).\<close>

definition category_of_draft :: "nat \<Rightarrow> nat \<times> DraftCategory \<Rightarrow> Category" where
  "category_of_draft now ic =
     \<lparr>category_id = js ''new_category_'' @ show_nat (fst ic),
      cat_concept_id = [],
      cat_name = dcat_name (snd ic),
      cat_definition = dcat_definition (snd ic),
      cat_extended_description = Some [],
      cat_source = Some (dcat_source (snd ic)),
      cat_created_at = now,
      cat_last_modified = now,
      cat_attributes = []\<rparr>"

text \<open>
  The callback that builds one connection of \<open>partialGraph\<close> (lines 979 to 998). It reads
  the variable \<open>partialGraph\<close> to look the two names up. Its first argument is the state
  of that binding when the callback runs: \<open>None\<close> while the binding is not initialised,
  where reading it raises a ReferenceError (\<open>const\<close> compiled to \<open>var\<close> reads
  \<open>undefined\<close> instead, and the property access on it raises a TypeError).
\<close>

definition category_id_or_empty :: "Category option \<Rightarrow> jsstring" where
  "category_id_or_empty c = (case c of None \<Rightarrow> [] | Some k \<Rightarrow> category_id k)"

definition connection_of_draft :: "ConceptGraph option \<Rightarrow> nat \<Rightarrow> nat \<times> DraftConnection \<Rightarrow> Connection outcome" where
  "connection_of_draft partialGraph now ic =
     (case partialGraph of
        None \<Rightarrow> Throws ReferenceError
      | Some g \<Rightarrow>
          (let sourceCategory = find (\<lambda>c. cat_name c = dconn_source_category (snd ic)) (categories g);
               targetCategory = find (\<lambda>c. cat_name c = dconn_target_category (snd ic)) (categories g)
           in Returns
                \<lparr>connection_id = js ''new_connection_'' @ show_nat (fst ic),
                 conn_concept_id = [],
                 source_category_id = category_id_or_empty sourceCategory,
                 target_category_id = category_id_or_empty targetCategory,
                 connection_type = dconn_connection_type (snd ic),
                 direction = dconn_direction (snd ic),
                 conn_description = Some (dconn_description (snd ic)),
                 conn_created_at = now,
                 conn_last_modified = now,
                 conn_attributes = [],
                 source_category = sourceCategory,
                 target_category = targetCategory\<rparr>))"

text \<open>
  The part of \<open>synthesizeConcepts\<close> after the response has arrived (lines 866 to 1007).
  The object literal that initialises \<open>partialGraph\<close> calls \<open>newConnections.map\<close> with
  the callback above, so the callback runs before the initialisation of \<open>partialGraph\<close>
  is complete: the binding it reads is not initialised.
\<close>

definition synthesizeConcepts_parse :: "jsstring \<Rightarrow> Concept list \<Rightarrow> synthesis_method \<Rightarrow> SynthesisParams \<Rightarrow> nat \<Rightarrow> jsstring \<Rightarrow> SynthesisResult outcome" where
  "synthesizeConcepts_parse userId concepts method parameters now response =
     try_wrap ''Failed to synthesize concepts''
       (bind_o (case str_match fl_plain title_re response of
                  None \<Rightarrow> Returns (ru_sintez @ js '' '' @ join (js '' + '') (map name concepts))
                | Some m \<Rightarrow> bind_o (grp m 1) (\<lambda>t. Returns (trim t))) (\<lambda>newConceptName.
        bind_o (section_text (heading ru_opisanie) [] response) (\<lambda>newConceptDesc.
        bind_o (collect_section ru_kategorii categoryRegex category_of_match response) (\<lambda>newCategories.
        bind_o (collect_section ru_svyazi connectionRegex connection_of_match response) (\<lambda>newConnections.
        bind_o (for_each (connection_of_draft None now) (enumerate 0 newConnections)) (\<lambda>conns.
          Returns
            \<lparr>result_concept =
               \<lparr>concept_id = [], user_id = userId, name = newConceptName,
                description = Some newConceptDesc, creation_date = now, last_modified = now,
                is_synthesis = True, parent_concepts = Some (map concept_id concepts),
                synthesis_method = Some method, focus_area = sp_focus_area parameters\<rparr>,
             result_graph =
               \<lparr>graph_concept_id = [], concept_name = newConceptName,
                concept_description = Some newConceptDesc,
                categories = map (category_of_draft now) (enumerate 0 newCategories),
                connections = conns\<rparr>,
             synthesis_meta =
               \<lparr>synthesis_id = [], result_concept_id = [],
                source_concept_ids = map concept_id concepts,
                meta_synthesis_method = method,
                meta_innovation_level = sp_innovation_level parameters,
                meta_abstraction_level = sp_abstraction_level parameters,
                meta_historical_context = sp_historical_context parameters,
                meta_target_application = sp_target_application parameters,
                meta_created_at = now\<rparr>,
             origin_mapping = \<lparr>category_mapping = [], connection_mapping = []\<rparr>\<rparr>))))))"


unbundle bit_operations_syntax

section \<open>The cache key\<close>

text \<open>
  \<open>createHash('sha256').update(prompt).digest('hex')\<close>: the string is encoded as UTF-8
  (a surrogate without its partner as U+FFFD), hashed with SHA-256 (FIPS 180-4), and the
  digest is written as 64 lower-case hexadecimal digits.
\<close>

definition utf8_bmp :: "nat \<Rightarrow> nat list" where
  "utf8_bmp c =
     (if c < 128 then [c]
      else if c < 2048 then [192 + c div 64, 128 + c mod 64]
      else [224 + c div 4096, 128 + (c div 64) mod 64, 128 + c mod 64])"

definition utf8_pair :: "nat \<Rightarrow> nat \<Rightarrow> nat list" where
  "utf8_pair c d =
     (let cp = 65536 + (c - 55296) * 1024 + (d - 56320)
      in [240 + cp div 262144, 128 + (cp div 4096) mod 64, 128 + (cp div 64) mod 64,
          128 + cp mod 64])"

fun utf8_encode :: "jsstring \<Rightarrow> nat list" where
  "utf8_encode [] = []"
| "utf8_encode (c # cs) =
     (if 55296 \<le> c \<and> c \<le> 56319 then
        (case cs of
           [] \<Rightarrow> [239, 191, 189]
         | d # ds \<Rightarrow>
             if 56320 \<le> d \<and> d \<le> 57343 then utf8_pair c d @ utf8_encode ds
             else [239, 191, 189] @ utf8_encode cs)
      else if 56320 \<le> c \<and> c \<le> 57343 then [239, 191, 189] @ utf8_encode cs
      else utf8_bmp c @ utf8_encode cs)"

definition sha_K :: "32 word list" where
  "sha_K =
    [0x428A2F98, 0x71374491, 0xB5C0FBCF, 0xE9B5DBA5, 0x3956C25B, 0x59F111F1,
     0x923F82A4, 0xAB1C5ED5, 0xD807AA98, 0x12835B01, 0x243185BE, 0x550C7DC3,
     0x72BE5D74, 0x80DEB1FE, 0x9BDC06A7, 0xC19BF174, 0xE49B69C1, 0xEFBE4786,
     0x0FC19DC6, 0x240CA1CC, 0x2DE92C6F, 0x4A7484AA, 0x5CB0A9DC, 0x76F988DA,
     0x983E5152, 0xA831C66D, 0xB00327C8, 0xBF597FC7, 0xC6E00BF3, 0xD5A79147,
     0x06CA6351, 0x14292967, 0x27B70A85, 0x2E1B2138, 0x4D2C6DFC, 0x53380D13,
     0x650A7354, 0x766A0ABB, 0x81C2C92E, 0x92722C85, 0xA2BFE8A1, 0xA81A664B,
     0xC24B8B70, 0xC76C51A3, 0xD192E819, 0xD6990624, 0xF40E3585, 0x106AA070,
     0x19A4C116, 0x1E376C08, 0x2748774C, 0x34B0BCB5, 0x391C0CB3, 0x4ED8AA4A,
     0x5B9CCA4F, 0x682E6FF3, 0x748F82EE, 0x78A5636F, 0x84C87814, 0x8CC70208,
     0x90BEFFFA, 0xA4506CEB, 0xBEF9A3F7, 0xC67178F2]"

definition sha_H0 :: "32 word list" where
  "sha_H0 =
    [0x6A09E667, 0xBB67AE85, 0x3C6EF372, 0xA54FF53A,
     0x510E527F, 0x9B05688C, 0x1F83D9AB, 0x5BE0CD19]"

definition sha_pad :: "nat list \<Rightarrow> nat list" where
  "sha_pad msg =
     msg @ [128] @ replicate ((64 - (length msg + 9) mod 64) mod 64) 0
     @ map (\<lambda>i. (8 * length msg div 256 ^ (7 - i)) mod 256) [0..<8]"

function chunks :: "nat \<Rightarrow> 'a list \<Rightarrow> 'a list list" where
  "chunks n xs = (if n = 0 \<or> xs = [] then [] else take n xs # chunks n (drop n xs))"
  by pat_completeness auto
termination
  by (relation "measure (\<lambda>(n, xs). length xs)") auto

definition be_word :: "nat list \<Rightarrow> 32 word" where
  "be_word bs = of_nat (foldl (\<lambda>acc b. 256 * acc + b) 0 bs)"

definition ssig0 :: "32 word \<Rightarrow> 32 word" where
  "ssig0 x = word_rotr 7 x XOR word_rotr 18 x XOR drop_bit 3 x"

definition ssig1 :: "32 word \<Rightarrow> 32 word" where
  "ssig1 x = word_rotr 17 x XOR word_rotr 19 x XOR drop_bit 10 x"

definition bsig0 :: "32 word \<Rightarrow> 32 word" where
  "bsig0 x = word_rotr 2 x XOR word_rotr 13 x XOR word_rotr 22 x"

definition bsig1 :: "32 word \<Rightarrow> 32 word" where
  "bsig1 x = word_rotr 6 x XOR word_rotr 11 x XOR word_rotr 25 x"

definition sha_schedule :: "32 word list \<Rightarrow> 32 word list" where
  "sha_schedule w16 =
     foldl (\<lambda>w t. w @ [ssig1 (w ! (t - 2)) + w ! (t - 7) + ssig0 (w ! (t - 15)) + w ! (t - 16)])
       w16 [16..<64]"

fun sha_round :: "32 word list \<Rightarrow> 32 word \<times> 32 word \<Rightarrow> 32 word list" where
  "sha_round [a, b, c, d, e, f, g, h] (k, w) =
     (let t1 = h + bsig1 e + ((e AND f) XOR (NOT e AND g)) + k + w;
          t2 = bsig0 a + ((a AND b) XOR (a AND c) XOR (b AND c))
      in [t1 + t2, a, b, c, d + t1, e, f, g])"
| "sha_round st kw = st"

definition sha_block :: "32 word list \<Rightarrow> nat list \<Rightarrow> 32 word list" where
  "sha_block hs block =
     map (\<lambda>(x, y). x + y)
       (zip hs (foldl sha_round hs (zip sha_K (sha_schedule (map be_word (chunks 4 block))))))"

definition sha256 :: "nat list \<Rightarrow> 32 word list" where
  "sha256 msg = foldl sha_block sha_H0 (chunks 64 (sha_pad msg))"

definition hex_digit :: "nat \<Rightarrow> nat" where
  "hex_digit d = (if d < 10 then 48 + d else 87 + d)"

definition hex_word :: "32 word \<Rightarrow> jsstring" where
  "hex_word w = map (\<lambda>i. hex_digit ((unat w div 16 ^ (7 - i)) mod 16)) [0..<8]"

definition generatePromptHash :: "jsstring \<Rightarrow> jsstring" where
  "generatePromptHash prompt = concat (map hex_word (sha256 (utf8_encode prompt)))"


section \<open>sendRequest\<close>

text \<open>
  What \<open>sendRequest\<close> touches: the Redis cache (each entry with the instant at which
  its \<open>EX\<close> time-to-live runs out), the table of logged interactions, the requests posted
  to the external model, and the clock, in milliseconds. Redis and the database can be
  down, in which case their calls raise. A cached value is the JSON text of
  \<open>{response, tokensUsed}\<close> and is carried as the record it parses back to.
\<close>

record completion =
  completion_response :: jsstring
  tokensUsed :: nat

record ClaudeApiRequest =
  req_model :: jsstring
  req_content :: jsstring
  max_tokens :: nat
  temperature :: rat
  req_system :: "jsstring option"

record ClaudeApiResponse =
  message_content :: jsstring
  input_tokens :: nat
  output_tokens :: nat

record ClaudeInteraction =
  log_user_id :: jsstring
  log_concept_id :: "jsstring option"
  interaction_type :: jsstring
  log_prompt :: jsstring
  log_response :: jsstring
  tokens_used :: nat
  duration_ms :: nat

record gateway =
  redis :: "jsstring \<rightharpoonup> completion \<times> nat"
  redis_up :: bool
  interactions :: "ClaudeInteraction list"
  db_up :: bool
  posted :: "ClaudeApiRequest list"
  clock :: nat

text \<open>
  The external model: what it answers to a request posted at an instant, and after how
  many milliseconds; \<open>None\<close> is a transport error or a response that is not a success.
\<close>

type_synonym external_model = "nat \<Rightarrow> ClaudeApiRequest \<Rightarrow> ClaudeApiResponse option \<times> nat"

definition cache_key :: "jsstring \<Rightarrow> jsstring" where
  "cache_key promptHash = js ''claude:'' @ promptHash"

text \<open>\<open>checkCache\<close>: a Redis error is logged and counts as a miss.\<close>

definition checkCache :: "gateway \<Rightarrow> jsstring \<Rightarrow> completion option" where
  "checkCache g promptHash =
     (if redis_up g then
        (case redis g (cache_key promptHash) of
           None \<Rightarrow> None
         | Some (v, expiry) \<Rightarrow> if clock g < expiry then Some v else None)
      else None)"

text \<open>\<open>cacheResponse\<close>, with its default time-to-live of 3600 seconds; an error is logged.\<close>

definition cacheResponse :: "gateway \<Rightarrow> jsstring \<Rightarrow> completion \<Rightarrow> gateway" where
  "cacheResponse g promptHash v =
     (if redis_up g then g\<lparr>redis := (redis g)(cache_key promptHash \<mapsto> (v, clock g + 3600 * 1000))\<rparr>
      else g)"

text \<open>\<open>logInteraction\<close>: a database error is logged and otherwise ignored.\<close>

definition logInteraction :: "gateway \<Rightarrow> ClaudeInteraction \<Rightarrow> gateway" where
  "logInteraction g r = (if db_up g then g\<lparr>interactions := interactions g @ [r]\<rparr> else g)"

text \<open>
  \<open>sendRequest\<close> (lines 117 to 191). The hash is taken of the prompt alone; \<open>maxTokens\<close>
  and \<open>temperature\<close> go into the request and nowhere else.
\<close>

definition sendRequest :: "external_model \<Rightarrow> jsstring \<Rightarrow> jsstring \<Rightarrow> jsstring option \<Rightarrow> jsstring \<Rightarrow> jsstring \<Rightarrow> nat \<Rightarrow> rat \<Rightarrow> bool \<Rightarrow> jsstring option \<Rightarrow> gateway \<Rightarrow> completion outcome \<times> gateway" where
  "sendRequest api model userId conceptId interactionType prompt maxTokens temp useCaching systemPrompt g =
     (let promptHash = generatePromptHash prompt;
          cachedResponse = (if useCaching then checkCache g promptHash else None)
      in case cachedResponse of
           Some v \<Rightarrow> (Returns v, g)
         | None \<Rightarrow>
             (let startTime = clock g;
                  request = \<lparr>req_model = model, req_content = prompt, max_tokens = maxTokens,
                             temperature = temp,
                             req_system = (case systemPrompt of
                                             None \<Rightarrow> None
                                           | Some sp \<Rightarrow> if sp = [] then None else Some sp)\<rparr>;
                  g1 = g\<lparr>posted := posted g @ [request], clock := clock g + snd (api (clock g) request)\<rparr>
              in case fst (api (clock g) request) of
                   None \<Rightarrow>
                     (Throws (Wrapped ''Failed to get response from Claude API'' Request_error), g1)
                 | Some r \<Rightarrow>
                     (let result = \<lparr>completion_response = message_content r,
                                     tokensUsed = input_tokens r + output_tokens r\<rparr>;
                          durationMs = clock g1 - startTime;
                          g2 = (if useCaching then cacheResponse g1 promptHash result else g1);
                          g3 = logInteraction g2
                                 \<lparr>log_user_id = userId, log_concept_id = conceptId,
                                  interaction_type = interactionType, log_prompt = prompt,
                                  log_response = completion_response result,
                                  tokens_used = tokensUsed result, duration_ms = durationMs\<rparr>
                      in (Returns result, g3))))"


section \<open>The template store\<close>

record PromptTemplate =
  tpl_name :: jsstring
  tpl_description :: jsstring
  tpl_template :: jsstring
  tpl_parameters :: "jsstring list"
  fallback_strategy :: "jsstring option"

text \<open>
  What \<open>loadTemplates\<close> reads: Redis, which can be down, with the cached template set if
  there is one, and one file per template name. A file is carried as what \<open>readFile\<close>
  and \<open>JSON.parse\<close> make of it: \<open>readFile\<close> raises when the file is missing,
  \<open>JSON.parse\<close> raises on a malformed body.
\<close>

datatype template_file = Missing | Malformed | Body PromptTemplate

record template_world =
  tw_redis_up :: bool
  cached_templates :: "(jsstring \<times> PromptTemplate) list option"
  template_files :: "jsstring \<Rightarrow> template_file"

record PromptTemplateService =
  templates :: "(jsstring \<times> PromptTemplate) list"
  templatesLoaded :: bool

text \<open>\<open>Map.prototype.set\<close>: a new key goes to the end, a known key keeps its place.\<close>

fun map_set :: "'k \<Rightarrow> 'v \<Rightarrow> ('k \<times> 'v) list \<Rightarrow> ('k \<times> 'v) list" where
  "map_set k v [] = [(k, v)]"
| "map_set k v ((k', v') # kvs) = (if k' = k then (k, v) # kvs else (k', v') # map_set k v kvs)"

definition templateFiles :: "jsstring list" where
  "templateFiles =
     [js ''graph_validation'', js ''category_enrichment'', js ''connection_enrichment'',
      js ''thesis_generation'', js ''thesis_development'', js ''synthesis_compatibility'',
      js ''concept_synthesis'', js ''critical_analysis'', js ''historical_contextualization'',
      js ''practical_application'', js ''dialogical_interpretation'', js ''concept_evolution'']"

text \<open>
  The loop over \<open>templateFiles\<close> (lines 60 to 66): the first file that cannot be read or
  parsed ends it; the templates set so far stay in the map.
\<close>

fun load_files :: "(jsstring \<Rightarrow> template_file) \<Rightarrow> jsstring list \<Rightarrow> (jsstring \<times> PromptTemplate) list \<Rightarrow> js_error option \<times> (jsstring \<times> PromptTemplate) list" where
  "load_files files [] ts = (None, ts)"
| "load_files files (n # ns) ts =
     (case files n of
        Missing \<Rightarrow> (Some (Read_error n), ts)
      | Malformed \<Rightarrow> (Some (Json_syntax_error n), ts)
      | Body t \<Rightarrow> load_files files ns (map_set n t ts))"

text \<open>\<open>loadTemplates\<close> (lines 25 to 78); the whole body is one \<open>try\<close> block.\<close>

definition loadTemplates :: "PromptTemplateService \<Rightarrow> template_world \<Rightarrow> unit outcome \<times> PromptTemplateService \<times> template_world" where
  "loadTemplates svc w =
     (if templatesLoaded svc then (Returns (), svc, w)
      else if \<not> tw_redis_up w then
        (Throws (Wrapped ''Failed to load prompt templates'' Cache_error), svc, w)
      else
        (case cached_templates w of
           Some entries \<Rightarrow>
             (Returns (),
              svc\<lparr>templates := foldl (\<lambda>ts kv. map_set (fst kv) (snd kv) ts) (templates svc) entries,
                  templatesLoaded := True\<rparr>,
              w)
         | None \<Rightarrow>
             (case load_files (template_files w) templateFiles (templates svc) of
                (Some e, ts) \<Rightarrow>
                  (Throws (Wrapped ''Failed to load prompt templates'' e), svc\<lparr>templates := ts\<rparr>, w)
              | (None, ts) \<Rightarrow>
                  (Returns (), svc\<lparr>templates := ts, templatesLoaded := True\<rparr>,
                   w\<lparr>cached_templates := Some ts\<rparr>))))"

text \<open>
  \<open>getTemplate\<close> (lines 83 to 95): \<open>null\<close>, here \<open>None\<close>, for a name that is not in the
  map; an error of \<open>loadTemplates\<close> passes through.
\<close>

definition getTemplate :: "PromptTemplateService \<Rightarrow> template_world \<Rightarrow> jsstring \<Rightarrow> PromptTemplate option outcome \<times> PromptTemplateService \<times> template_world" where
  "getTemplate svc w nm =
     (case loadTemplates svc w of
        (Returns u, svc1, w1) \<Rightarrow> (Returns (map_of (templates svc1) nm), svc1, w1)
      | (Throws e, svc1, w1) \<Rightarrow> (Throws e, svc1, w1)
      | (Diverges, svc1, w1) \<Rightarrow> (Diverges, svc1, w1)
      | (Unmodelled, svc1, w1) \<Rightarrow> (Unmodelled, svc1, w1))"

section \<open>preparePrompt\<close>

text \<open>
  The values the data object can hold. An object is the list of its own enumerable
  properties in the order \<open>Object.keys\<close> gives them, an array the list of its elements.
  \<open>Cyclic\<close> is a reference to an object or array that contains the place where the
  reference stands, the data object itself included. A number is an integer; BigInts are
  apart. Functions, symbols and objects with a \<open>toJSON\<close> method are not covered.
\<close>

datatype jsvalue =
    Undef
  | Null
  | Boolean bool
  | Number int
  | BigInt int
  | Str jsstring
  | Arr "jsvalue list"
  | Obj "(jsstring \<times> jsvalue) list"
  | Cyclic

text \<open>\<open>typeof value === 'object'\<close> (line 214): objects, arrays and \<open>null\<close>.\<close>

fun typeof_object :: "jsvalue \<Rightarrow> bool" where
  "typeof_object Null = True"
| "typeof_object (Arr xs) = True"
| "typeof_object (Obj kvs) = True"
| "typeof_object Cyclic = True"
| "typeof_object v = False"

text \<open>
  The conversion of a number to a string. It is modelled for the safe integers, which are
  written as their decimal digits; a BigInt is written in the same way at any size.
\<close>

definition show_int :: "int \<Rightarrow> jsstring" where
  "show_int n = (if n < 0 then 45 # show_nat (nat (- n)) else show_nat (nat n))"

definition number_to_string :: "int \<Rightarrow> jsstring outcome" where
  "number_to_string n = (if \<bar>n\<bar> < 2 ^ 53 then Returns (show_int n) else Unmodelled)"

text \<open>
  \<open>QuoteJSONString\<close>: the text between double quotes, with the short escapes for
  backspace, tab, line feed, form feed, carriage return, the double quote and the
  backslash, and \<^verbatim>\<open>\uXXXX\<close> in lower-case digits for the other code units below 32 and
  for a surrogate that has no partner.
\<close>

definition unicode_escape :: "nat \<Rightarrow> jsstring" where
  "unicode_escape c =
     [92, 117, hex_digit (c div 4096 mod 16), hex_digit (c div 256 mod 16),
      hex_digit (c div 16 mod 16), hex_digit (c mod 16)]"

definition is_leading_surrogate :: "nat \<Rightarrow> bool" where
  "is_leading_surrogate c = (55296 \<le> c \<and> c \<le> 56319)"

definition is_trailing_surrogate :: "nat \<Rightarrow> bool" where
  "is_trailing_surrogate c = (56320 \<le> c \<and> c \<le> 57343)"

definition escape_unit :: "nat \<Rightarrow> jsstring" where
  "escape_unit c =
     (if c = 8 then [92, 98]
      else if c = 9 then [92, 116]
      else if c = 10 then [92, 110]
      else if c = 12 then [92, 102]
      else if c = 13 then [92, 114]
      else if c = 34 then [92, 34]
      else if c = 92 then [92, 92]
      else if c < 32 \<or> is_leading_surrogate c \<or> is_trailing_surrogate c then unicode_escape c
      else [c])"

fun escape_units :: "jsstring \<Rightarrow> jsstring" where
  "escape_units [] = []"
| "escape_units [c] = escape_unit c"
| "escape_units (c # d # cs) =
     (if is_leading_surrogate c \<and> is_trailing_surrogate d then c # d # escape_units cs
      else escape_unit c @ escape_units (d # cs))"

definition quote_json :: "jsstring \<Rightarrow> jsstring" where
  "quote_json s = 34 # escape_units s @ [34]"

text \<open>
  \<open>JSON.stringify(value, null, 2)\<close> (line 215). The gap is two spaces. \<open>serialize\<close> is
  \<open>SerializeJSONProperty\<close> at the indentation \<open>ind\<close>: \<open>None\<close> is \<open>undefined\<close>, which an
  object leaves out with its key and an array writes as \<open>null\<close>. A BigInt and a cyclic
  reference raise a TypeError.
\<close>

definition gap :: jsstring where
  "gap = [32, 32]"

definition bracketed :: "nat \<Rightarrow> nat \<Rightarrow> jsstring \<Rightarrow> jsstring list \<Rightarrow> jsstring" where
  "bracketed opening closing stepback parts =
     (if parts = [] then [opening, closing]
      else [opening, 10] @ stepback @ gap @ join ([44, 10] @ stepback @ gap) parts
           @ [10] @ stepback @ [closing])"

fun serialize :: "jsstring \<Rightarrow> jsvalue \<Rightarrow> jsstring option outcome"
  and serialize_elements :: "jsstring \<Rightarrow> jsvalue list \<Rightarrow> jsstring list outcome"
  and serialize_members :: "jsstring \<Rightarrow> (jsstring \<times> jsvalue) list \<Rightarrow> jsstring list outcome"
where
  "serialize ind Undef = Returns None"
| "serialize ind Null = Returns (Some (js ''null''))"
| "serialize ind (Boolean b) = Returns (Some (if b then js ''true'' else js ''false''))"
| "serialize ind (Number n) = bind_o (number_to_string n) (\<lambda>t. Returns (Some t))"
| "serialize ind (BigInt n) = Throws TypeError"
| "serialize ind (Str s) = Returns (Some (quote_json s))"
| "serialize ind (Arr xs) =
     bind_o (serialize_elements (ind @ gap) xs) (\<lambda>parts. Returns (Some (bracketed 91 93 ind parts)))"
| "serialize ind (Obj kvs) =
     bind_o (serialize_members (ind @ gap) kvs) (\<lambda>parts. Returns (Some (bracketed 123 125 ind parts)))"
| "serialize ind Cyclic = Throws TypeError"
| "serialize_elements ind [] = Returns []"
| "serialize_elements ind (x # xs) =
     bind_o (serialize ind x) (\<lambda>r.
     bind_o (serialize_elements ind xs) (\<lambda>rs.
       Returns ((case r of None \<Rightarrow> js ''null'' | Some t \<Rightarrow> t) # rs)))"
| "serialize_members ind [] = Returns []"
| "serialize_members ind ((k, v) # kvs) =
     bind_o (serialize ind v) (\<lambda>r.
     bind_o (serialize_members ind kvs) (\<lambda>rs.
       Returns ((case r of None \<Rightarrow> [] | Some t \<Rightarrow> [quote_json k @ js '': '' @ t]) @ rs)))"

definition JSON_stringify :: "jsvalue \<Rightarrow> jsstring outcome" where
  "JSON_stringify v = bind_o (serialize [] v) (\<lambda>r. Returns (to_string r))"

text \<open>
  What \<open>replace\<close> makes of a replacement value that is not an object: a string is taken
  as it is, the others are converted to a string.
\<close>

fun replacement_string :: "jsvalue \<Rightarrow> jsstring outcome" where
  "replacement_string (Str s) = Returns s"
| "replacement_string (Number n) = number_to_string n"
| "replacement_string (BigInt n) = Returns (show_int n)"
| "replacement_string (Boolean b) = Returns (if b then js ''true'' else js ''false'')"
| "replacement_string Undef = Returns (js ''undefined'')"
| "replacement_string v = Unmodelled"

text \<open>Lines 213 to 217: the text that takes the place of the placeholder.\<close>

definition value_text :: "jsvalue \<Rightarrow> jsstring outcome" where
  "value_text v = (if typeof_object v then JSON_stringify v else replacement_string v)"

text \<open>
  \<open>data[param]\<close> on an object literal: the own property, else what \<open>Object.prototype\<close>
  has under that name, else \<open>undefined\<close>.
\<close>

definition object_prototype_names :: "jsstring list" where
  "object_prototype_names =
     [js ''constructor'', js ''hasOwnProperty'', js ''isPrototypeOf'',
      js ''propertyIsEnumerable'', js ''toLocaleString'', js ''toString'', js ''valueOf'',
      js ''__proto__'', js ''__defineGetter__'', js ''__defineSetter__'',
      js ''__lookupGetter__'', js ''__lookupSetter__'']"

datatype property = Own jsvalue | Inherited | Undefined

definition get_property :: "(jsstring \<rightharpoonup> jsvalue) \<Rightarrow> jsstring \<Rightarrow> property" where
  "get_property data param =
     (case data param of
        Some v \<Rightarrow> Own v
      | None \<Rightarrow> if param \<in> set object_prototype_names then Inherited else Undefined)"

text \<open>
  \<^verbatim>\<open>new RegExp(`\\{\\{${param}\\}\\}`, 'g')\<close>: the parameter name is spliced into the source
  of the pattern. The model covers the names without a syntax character of patterns
  (\<^verbatim>\<open>^ $ \ . * + ? ( ) [ ] { } |\<close>), for which the pattern matches the text \<open>{{name}}\<close>.
\<close>

definition syntax_characters :: jsstring where
  "syntax_characters = [94, 36, 92, 46, 42, 43, 63, 40, 41, 91, 93, 123, 125, 124]"

definition placeholder :: "jsstring \<Rightarrow> jsstring" where
  "placeholder param = js ''{{'' @ param @ js ''}}''"

definition placeholder_re :: "jsstring \<Rightarrow> regex option" where
  "placeholder_re param =
     (if list_ex (\<lambda>c. c \<in> set syntax_characters) param then None
      else Some (lits (placeholder param)))"

text \<open>One round of the loop over \<open>template.parameters\<close> (lines 206 to 219).\<close>

definition substitute_param :: "(jsstring \<rightharpoonup> jsvalue) \<Rightarrow> jsstring \<Rightarrow> jsstring \<Rightarrow> jsstring outcome" where
  "substitute_param data prompt param =
     (case placeholder_re param of
        None \<Rightarrow> Unmodelled
      | Some regex \<Rightarrow>
          (case get_property data param of
             Undefined \<Rightarrow> Returns (regex_replace_all fl_plain regex prompt [])
           | Inherited \<Rightarrow> Unmodelled
           | Own v \<Rightarrow>
               if v = Undef then Returns (regex_replace_all fl_plain regex prompt [])
               else bind_o (value_text v)
                      (\<lambda>value. Returns (regex_replace_all fl_plain regex prompt value))))"

fun substitute_all :: "(jsstring \<rightharpoonup> jsvalue) \<Rightarrow> jsstring \<Rightarrow> jsstring list \<Rightarrow> jsstring outcome" where
  "substitute_all data prompt [] = Returns prompt"
| "substitute_all data prompt (param # params) =
     bind_o (substitute_param data prompt param) (\<lambda>prompt1. substitute_all data prompt1 params)"

text \<open>\<open>preparePrompt\<close> (lines 196 to 226).\<close>

definition preparePrompt :: "PromptTemplateService \<Rightarrow> template_world \<Rightarrow> jsstring \<Rightarrow> (jsstring \<rightharpoonup> jsvalue) \<Rightarrow> jsstring outcome \<times> PromptTemplateService \<times> template_world" where
  "preparePrompt svc w templateName data =
     (case getTemplate svc w templateName of
        (r, svc1, w1) \<Rightarrow>
          (try_wrap ''Failed to prepare prompt''
             (bind_o r (\<lambda>t. case t of
                None \<Rightarrow> Throws (Template_not_found templateName)
              | Some tpl \<Rightarrow> substitute_all data (tpl_template tpl) (tpl_parameters tpl))),
           svc1, w1))"


subsection \<open>Templates as rows of text and placeholders\<close>

text \<open>
  Replacing every occurrence of a text, found from the left: what \<open>replace\<close> with a
  global pattern does when the pattern is a literal and the value has no \<open>$\<close>.
\<close>

function replace_lit :: "jsstring \<Rightarrow> jsstring \<Rightarrow> jsstring \<Rightarrow> jsstring" where
  "replace_lit pat v [] = []"
| "replace_lit pat v (c # cs) =
     (if pat \<noteq> [] \<and> is_prefix pat (c # cs)
      then v @ replace_lit pat v (drop (length pat) (c # cs))
      else c # replace_lit pat v cs)"
  by pat_completeness auto
termination
  by (relation "measure (\<lambda>(pat, v, s). length s)") auto


text \<open>
  A flat template: pieces of text and placeholders \<open>{{name}}\<close> in a row. A piece of text
  is clean when it has no \<open>{{\<close> and does not end in \<open>{\<close>; a name is brace free.
\<close>

datatype segment = Text jsstring | Hole jsstring

fun seg_text :: "segment \<Rightarrow> jsstring" where
  "seg_text (Text t) = t"
| "seg_text (Hole n) = placeholder n"

text \<open>The template that a row of pieces stands for.\<close>

definition row_text :: "segment list \<Rightarrow> jsstring" where
  "row_text segs = concat (map seg_text segs)"

fun clean :: "jsstring \<Rightarrow> bool" where
  "clean [] = True"
| "clean [c] = (c \<noteq> 123)"
| "clean (c # d # t) = ((c \<noteq> 123 \<or> d \<noteq> 123) \<and> clean (d # t))"

definition brace_free :: "jsstring \<Rightarrow> bool" where
  "brace_free n = (123 \<notin> set n \<and> 125 \<notin> set n)"

fun flat_seg :: "segment \<Rightarrow> bool" where
  "flat_seg (Text t) = clean t"
| "flat_seg (Hole n) = brace_free n"

definition flat :: "segment list \<Rightarrow> bool" where
  "flat segs = list_all flat_seg segs"

text \<open>
  The text a parameter is replaced by: the text of its value, or the empty text when the
  data lacks it or holds \<open>undefined\<close>. \<open>has_text\<close> says that there is such a text, that
  is, that the value can be written; \<open>shown\<close> is that text.
\<close>

definition text_of :: "(jsstring \<rightharpoonup> jsvalue) \<Rightarrow> jsstring \<Rightarrow> jsstring outcome" where
  "text_of data p =
     (case data p of
        None \<Rightarrow> Returns []
      | Some v \<Rightarrow> if v = Undef then Returns [] else value_text v)"

definition has_text :: "(jsstring \<rightharpoonup> jsvalue) \<Rightarrow> jsstring \<Rightarrow> bool" where
  "has_text data p = (case text_of data p of Returns t \<Rightarrow> True | _ \<Rightarrow> False)"

definition shown :: "(jsstring \<rightharpoonup> jsvalue) \<Rightarrow> jsstring \<Rightarrow> jsstring" where
  "shown data p = (case text_of data p of Returns t \<Rightarrow> t | _ \<Rightarrow> [])"

fun fill :: "(jsstring \<rightharpoonup> jsvalue) \<Rightarrow> jsstring list \<Rightarrow> segment \<Rightarrow> segment" where
  "fill data ps (Text t) = Text t"
| "fill data ps (Hole n) = (if n \<in> set ps then Text (shown data n) else Hole n)"

text \<open>A name the model covers: no syntax character of patterns, not an inherited property.\<close>

definition plain_name :: "jsstring \<Rightarrow> bool" where
  "plain_name p = (\<not> list_ex (\<lambda>c. c \<in> set syntax_characters) p \<and> p \<notin> set object_prototype_names)"

definition plain_value :: "jsstring \<Rightarrow> bool" where
  "plain_value v = (clean v \<and> 36 \<notin> set v)"

definition plain_text :: "(jsstring \<rightharpoonup> jsvalue) \<Rightarrow> jsstring \<Rightarrow> bool" where
  "plain_text data p = (case text_of data p of Returns t \<Rightarrow> plain_value t | _ \<Rightarrow> False)"


fun subst :: "jsstring \<Rightarrow> jsstring \<Rightarrow> segment \<Rightarrow> segment" where
  "subst p v (Text t) = Text t"
| "subst p v (Hole n) = (if n = p then Text v else Hole n)"


section \<open>Evaluating the model\<close>

text \<open>The definitions the simplifier unfolds to run a pattern on a concrete input.\<close>

lemmas regex_eval = js_def step_if_def advance_def reset_caps_def canonicalize_def
  upper_unit_def is_digit_def is_space_def is_line_terminator_def start_state_def
  result_of_def match_at_def regex_exec_def str_match_def regex_split_def lits_def Let_def
  fl_plain_def fl_i_def fl_s_def fl_ms_def

lemmas outcome_eval = bind_o_def try_wrap_def of_loop_def defined_def grp_def
  grp_trim_or_empty_def nth_opt_def to_string_def

section \<open>The loop bodies\<close>

lemma for_each_Returns:
  "for_each f xs = Returns ys \<Longrightarrow> list_all2 (\<lambda>x y. f x = Returns y) xs ys"
proof (induction xs arbitrary: ys)
  case Nil
  then show ?case by simp
next
  case (Cons x xs)
  from Cons.prems obtain y where y: "f x = Returns y"
    by (cases "f x") (simp_all add: bind_o_def)
  with Cons.prems obtain zs where zs: "for_each f xs = Returns zs" and ys: "ys = y # zs"
    by (cases "for_each f xs") (simp_all add: bind_o_def)
  from Cons.IH[OF zs] y ys show ?case by simp
qed

lemma for_each_Cons_Throws:
  "f x = Throws e \<Longrightarrow> for_each f (x # xs) = Throws e"
  by (simp add: bind_o_def)

section \<open>Theses: the scenario of the flux thesis\<close>

text \<open>
  The response of the scenario: the thesis \<open>1. All is flux.\<close> with its two continuation
  lines, the source Becoming and a justification.
\<close>

definition flux_response :: jsstring where
  "flux_response =
     js ''1. All is flux.'' @ [10] @ js ''   - '' @ ru_istochnik @ js '' Becoming'' @ [10]
     @ js ''   - '' @ ru_obosnovanie @ js '' derived from definition''"

lemma flux_matches:
  "exec_all fl_ms thesisRegex flux_response 0 =
     Some [\<lparr>m_index = 0, m_end = 81, m_text = flux_response,
            m_groups = [1 \<mapsto> js ''All is flux.'', 2 \<mapsto> js ''Becoming'',
                        3 \<mapsto> js ''derived from definition'']\<rparr>]"
  by (simp add: regex_eval exec_all.simps thesisRegex_def flux_response_def ru_istochnik_def
      ru_obosnovanie_def fun_eq_iff)

text \<open>
  C9. On a graph whose categories are Being, with identifier c1, and Becoming, with
  identifier c2, whatever its other fields, and on the response of the scenario,
  \<open>generateTheses\<close> returns exactly one thesis; its text is \<open>All is flux.\<close> and the
  categories it is derived from are the one identifier c2.
\<close>

theorem generateTheses_all_is_flux:
  "generateTheses_parse
     \<lparr>graph_concept_id = cid, concept_name = cn, concept_description = cd,
      categories = [c1\<lparr>category_id := js ''c1'', cat_name := js ''Being''\<rparr>,
                    c2\<lparr>category_id := js ''c2'', cat_name := js ''Becoming''\<rparr>],
      connections = conns\<rparr>
     params now flux_response =
   Returns
     [\<lparr>thesis_id = [], thesis_concept_id = cid, thesis_text = js ''All is flux.'',
       thesis_type = param_type params,
       thesis_derived_from = \<lparr>df_categories = [js ''c2''], df_connections = []\<rparr>,
       generation_parameters = params, used_weights = useWeights params,
       thesis_style = param_style params, thesis_created_at = now,
       thesis_last_modified = now\<rparr>]"
  unfolding generateTheses_parse_def flux_matches
  by (simp add: regex_eval outcome_eval thesis_of_match_def trim_def comma_re_def
      List.map_filter_simps toLowerCase_def lower_unit_def)

section \<open>Theses: the connections a thesis is derived from\<close>

lemma thesis_of_match_connections:
  "thesis_of_match g p now m = Returns t \<Longrightarrow> df_connections (thesis_derived_from t) = []"
  by (cases "m_groups m 1") (auto simp: thesis_of_match_def grp_def defined_def bind_o_def Let_def)

lemma try_wrap_Returns: "try_wrap prefix x = Returns a \<Longrightarrow> x = Returns a"
  by (cases x) (simp_all add: try_wrap_def)

lemma bind_o_Returns: "bind_o x f = Returns b \<Longrightarrow> \<exists>a. x = Returns a \<and> f a = Returns b"
  by (cases x) (simp_all add: bind_o_def)

text \<open>
  C10. Whatever the graph, the generation parameters and the response, every thesis that
  \<open>generateTheses\<close> returns is derived from no connection: the list of connection
  identifiers is empty.
\<close>

theorem generateTheses_no_connections:
  assumes "generateTheses_parse g p now resp = Returns theses"
  shows "\<forall>t \<in> set theses. df_connections (thesis_derived_from t) = []"
proof -
  from assms obtain ms where "for_each (thesis_of_match g p now) ms = Returns theses"
    unfolding generateTheses_parse_def
    by (blast dest: try_wrap_Returns bind_o_Returns)
  then have "list_all2 (\<lambda>m t. thesis_of_match g p now m = Returns t) ms theses"
    by (rule for_each_Returns)
  then have "\<forall>t \<in> set theses. \<exists>m. thesis_of_match g p now m = Returns t"
    by (fastforce simp: list_all2_conv_all_nth in_set_conv_nth)
  then show ?thesis
    by (blast dest: thesis_of_match_connections)
qed

definition one_thesis_response :: jsstring where
  "one_thesis_response = js ''1. Being is.''"

definition empty_graph :: ConceptGraph where
  "empty_graph =
     \<lparr>graph_concept_id = js ''k1'', concept_name = js ''Eleatic'', concept_description = None,
      categories = [], connections = []\<rparr>"

definition ontological_params :: ThesisGenerationParams where
  "ontological_params =
     \<lparr>count = 1, param_type = Ontological, detail_level = None, param_style = None,
      focus_categories = None, useWeights = False\<rparr>"

lemma one_thesis_eval:
  "generateTheses_parse empty_graph ontological_params 0 one_thesis_response =
     Returns
       [\<lparr>thesis_id = [], thesis_concept_id = js ''k1'', thesis_text = js ''Being is.'',
         thesis_type = Ontological,
         thesis_derived_from = \<lparr>df_categories = [], df_connections = []\<rparr>,
         generation_parameters = ontological_params, used_weights = False,
         thesis_style = None, thesis_created_at = 0, thesis_last_modified = 0\<rparr>]"
  by (simp add: generateTheses_parse_def regex_eval outcome_eval exec_all.simps thesisRegex_def
      one_thesis_response_def ru_istochnik_def ru_obosnovanie_def thesis_of_match_def trim_def
      comma_re_def List.map_filter_simps empty_graph_def ontological_params_def)

theorem generateTheses_no_connections_witness:
  "(\<exists>t. generateTheses_parse empty_graph ontological_params 0 one_thesis_response = Returns [t]
        \<and> df_connections (thesis_derived_from t) = [])"
  using generateTheses_no_connections[OF one_thesis_eval] one_thesis_eval by simp


section \<open>Validation: the number of sections\<close>

text \<open>
  The array \<open>sections\<close> that \<open>split\<close> returns starts with the text before the first
  marker, so a response with \<open>n\<close> numbered markers gives \<open>n + 1\<close> pieces. With three
  pieces or fewer the response goes to \<open>general_analysis\<close> as it is.
\<close>

lemma validateGraph_fallback:
  "length (regex_split fl_plain numbered_re resp) < 4 \<Longrightarrow>
   validateGraph_parse resp =
     Returns \<lparr>general_analysis = resp, contradictions = [], missing_elements = [],
              improvement_suggestions = []\<rparr>"
  by (simp add: validateGraph_parse_def try_wrap_def Let_def)

text \<open>
  C2. A response with exactly three numbered sections gives four pieces, which passes the
  test \<open>sections.length >= 4\<close>; the code then reads \<open>sections[4]\<close>, which is not there,
  and \<open>validateGraph\<close> throws instead of falling back to the whole response.
\<close>

theorem validateGraph_three_sections_throw:
  assumes "length (regex_split fl_plain numbered_re resp) = 4"
  shows "validateGraph_parse resp = Throws (Wrapped ''Failed to validate graph'' TypeError)"
  using assms
  by (simp add: validateGraph_parse_def try_wrap_def Let_def nth_opt_def defined_def bind_o_def)

definition three_sections_response :: jsstring where
  "three_sections_response =
     js ''1. The graph is coherent.'' @ [10] @ js ''2. No contradictions.'' @ [10]
     @ js ''3. Nothing is missing.''"

lemma three_sections_split:
  "regex_split fl_plain numbered_re three_sections_response =
     [[], js ''The graph is coherent.'' @ [10], js ''No contradictions.'' @ [10],
      js ''Nothing is missing.'']"
  by (simp add: regex_eval numbered_re_def three_sections_response_def)

theorem validateGraph_three_sections_throw_witness:
  "length (regex_split fl_plain numbered_re three_sections_response) = 4
   \<and> validateGraph_parse three_sections_response =
       Throws (Wrapped ''Failed to validate graph'' TypeError)"
proof -
  have h: "length (regex_split fl_plain numbered_re three_sections_response) = 4"
    by (simp add: three_sections_split)
  show ?thesis using h validateGraph_three_sections_throw[OF h] by simp
qed

section \<open>Synthesis: the scenario of Unity and Multiplicity\<close>

text \<open>
  A response in the layout the parser expects: the title line, the description, the
  categories Unity and Multiplicity under their sub-headings, and the connection bullet
  of the scenario.
\<close>

definition unity_response :: jsstring where
  "unity_response =
     js ''# '' @ ru_sintezirovannaya_kontseptsiya @ js '' Henology'' @ [10]
     @ heading ru_opisanie @ [10] @ js ''The one grounds the many.'' @ [10]
     @ heading ru_kategorii @ [10]
     @ js ''### Unity'' @ [10] @ js ''The one'' @ [10]
     @ js ''### Multiplicity'' @ [10] @ js ''The many'' @ [10]
     @ heading ru_svyazi @ [10]
     @ js ''- Unity -> Multiplicity (causal): grounds''"

lemmas unity_defs = unity_response_def heading_def ru_kategorii_def ru_svyazi_def
  ru_opisanie_def ru_sintezirovannaya_kontseptsiya_def ru_proiskhozhdenie_def

text \<open>
  The section of the categories ends at the first \<open>##\<close>, which the sub-heading
  \<open>### Unity\<close> starts with: the text handed to \<open>categoryRegex\<close> is empty and no category
  is collected.
\<close>

lemma unity_categories:
  "collect_section ru_kategorii categoryRegex category_of_match unity_response = Returns []"
  by (simp add: regex_eval outcome_eval collect_section_def section_re_def unity_defs
      exec_all.simps categoryRegex_def)

lemma unity_connections:
  "collect_section ru_svyazi connectionRegex connection_of_match unity_response =
     Returns [\<lparr>dconn_source_category = js ''Unity'', dconn_target_category = js ''Multiplicity'',
               dconn_connection_type = js ''causal'', dconn_direction = js ''directed'',
               dconn_description = js ''grounds'', dconn_source = []\<rparr>]"
  by (simp add: regex_eval outcome_eval collect_section_def section_re_def unity_defs
      exec_all.simps connectionRegex_def connection_of_match_def trim_def)

lemma unity_title:
  "str_match fl_plain title_re unity_response =
     Some \<lparr>m_index = 0, m_end = 37,
           m_text = js ''# '' @ ru_sintezirovannaya_kontseptsiya @ js '' Henology'',
           m_groups = [1 \<mapsto> js ''Henology'']\<rparr>"
  by (simp add: regex_eval title_re_def unity_defs fun_eq_iff)

lemma unity_description:
  "section_text (heading ru_opisanie) [] unity_response =
     Returns (js ''The one grounds the many.'')"
  by (simp add: regex_eval outcome_eval section_text_def section_re_def unity_defs trim_def)

text \<open>
  C5. On the response of the scenario \<open>synthesizeConcepts\<close> does not return a graph: the
  connection bullet is parsed, the callback that resolves its two names runs while
  \<open>partialGraph\<close> is being initialised and reads that variable, and the operation
  throws.
\<close>

theorem synthesizeConcepts_unity_throws:
  "synthesizeConcepts_parse userId concepts method params now unity_response =
     Throws (Wrapped ''Failed to synthesize concepts'' ReferenceError)"
  unfolding synthesizeConcepts_parse_def unity_categories unity_connections unity_title
    unity_description
  by (simp add: outcome_eval connection_of_draft_def enumerate_eq_zip)

text \<open>The same holds for every response from which a connection is parsed.\<close>

lemma synthesizeConcepts_never_returns_a_connection:
  assumes "collect_section ru_svyazi connectionRegex connection_of_match resp = Returns (c # cs)"
  shows "synthesizeConcepts_parse userId concepts method params now resp \<noteq> Returns r"
proof
  assume "synthesizeConcepts_parse userId concepts method params now resp = Returns r"
  then obtain conns where
    "for_each (connection_of_draft None now) (enumerate 0 (c # cs)) = Returns conns"
    unfolding synthesizeConcepts_parse_def assms
    by (blast dest: try_wrap_Returns bind_o_Returns)
  then show False
    by (simp add: connection_of_draft_def bind_o_def)
qed


section \<open>The gateway's cache\<close>

text \<open>
  A call that misses the cache and returns has posted one request, and, Redis being up,
  has stored its result under the key of the prompt with a time-to-live of an hour.
\<close>

lemma sendRequest_miss:
  assumes miss: "checkCache g0 (generatePromptHash prompt) = None"
      and first: "sendRequest api model u c k prompt mt temp True sp g0 = (Returns r1, g1)"
  shows "clock g1 = clock g0 + snd (api (clock g0) \<lparr>req_model = model, req_content = prompt, max_tokens = mt,
                             temperature = temp,
                             req_system = (case sp of None \<Rightarrow> None
                                           | Some s \<Rightarrow> if s = [] then None else Some s)\<rparr>)
         \<and> (redis_up g0 \<longrightarrow> redis g1 (cache_key (generatePromptHash prompt)) = Some (r1, clock g1 + 3600 * 1000))"
  using first miss
  by (auto simp: sendRequest_def Let_def cacheResponse_def logInteraction_def
      split: option.splits if_splits)

text \<open>
  C4. A first call with caching enabled misses the cache, succeeds and stores its result.
  A second call with the same prompt, maximum of tokens and temperature, made while the
  entry is still in Redis and its hour has not run out, returns the result of the first,
  so the same \<open>tokensUsed\<close>, and leaves the gateway as it found it: no request is posted to
  the external model and no interaction is logged.
\<close>

theorem sendRequest_cache_hit:
  assumes miss: "checkCache g0 (generatePromptHash prompt) = None"
      and up: "redis_up g0"
      and first: "sendRequest api model u c k prompt mt temp True sp g0 = (Returns r1, g1)"
      and kept: "redis g2 (cache_key (generatePromptHash prompt)) =
                 redis g1 (cache_key (generatePromptHash prompt))"
      and up2: "redis_up g2"
      and ttl: "clock g2 < clock g1 + 3600 * 1000"
  shows "sendRequest api2 model2 u2 c2 k2 prompt mt temp True sp2 g2 = (Returns r1, g2)"
proof -
  from sendRequest_miss[OF miss first] up
  have "redis g1 (cache_key (generatePromptHash prompt)) = Some (r1, clock g1 + 3600 * 1000)"
    by simp
  with kept up2 ttl have "checkCache g2 (generatePromptHash prompt) = Some r1"
    by (simp add: checkCache_def)
  then show ?thesis
    by (simp add: sendRequest_def)
qed

text \<open>A model that always answers the same, and a gateway that has not been used.\<close>

definition steady_model :: external_model where
  "steady_model t req =
     (Some \<lparr>message_content = js ''Noted.'', input_tokens = 10, output_tokens = 5\<rparr>, 120)"

definition fresh_gateway :: gateway where
  "fresh_gateway =
     \<lparr>redis = Map.empty, redis_up = True, interactions = [], db_up = True, posted = [],
      clock = 1000\<rparr>"

theorem sendRequest_cache_hit_witness:
  "sendRequest steady_model (js ''m'') (js ''u2'') None (js ''critical_analysis'') (js ''What is being?'')
      4000 (7 / 10) True None
      ((snd (sendRequest steady_model (js ''m'') (js ''u1'') None (js ''graph_validation'')
               (js ''What is being?'') 4000 (7 / 10) True None fresh_gateway))\<lparr>clock := 5000\<rparr>)
   = (Returns \<lparr>completion_response = js ''Noted.'', tokensUsed = 15\<rparr>,
      (snd (sendRequest steady_model (js ''m'') (js ''u1'') None (js ''graph_validation'')
               (js ''What is being?'') 4000 (7 / 10) True None fresh_gateway))\<lparr>clock := 5000\<rparr>)
   \<and> length (interactions (snd (sendRequest steady_model (js ''m'') (js ''u1'') None (js ''graph_validation'')
               (js ''What is being?'') 4000 (7 / 10) True None fresh_gateway))) = 1"
proof -
  let ?first = "sendRequest steady_model (js ''m'') (js ''u1'') None (js ''graph_validation'')
               (js ''What is being?'') 4000 (7 / 10) True None fresh_gateway"
  have miss: "checkCache fresh_gateway (generatePromptHash (js ''What is being?'')) = None"
    by (simp add: checkCache_def fresh_gateway_def)
  have up: "redis_up fresh_gateway" by (simp add: fresh_gateway_def)
  have fst1: "fst ?first = Returns \<lparr>completion_response = js ''Noted.'', tokensUsed = 15\<rparr>"
    by (simp add: sendRequest_def Let_def checkCache_def fresh_gateway_def steady_model_def)
  then have first: "?first = (Returns \<lparr>completion_response = js ''Noted.'', tokensUsed = 15\<rparr>, snd ?first)"
    by (simp add: prod_eq_iff)
  have clk: "clock (snd ?first) = 1120"
    by (simp add: sendRequest_def Let_def checkCache_def steady_model_def cacheResponse_def logInteraction_def fresh_gateway_def)
  have n: "length (interactions (snd ?first)) = 1"
    by (simp add: sendRequest_def Let_def checkCache_def steady_model_def cacheResponse_def logInteraction_def fresh_gateway_def)
  have ttl: "clock ((snd ?first)\<lparr>clock := 5000\<rparr>) < clock (snd ?first) + 3600 * 1000"
    by (simp add: clk)
  have second:
    "sendRequest steady_model (js ''m'') (js ''u2'') None (js ''critical_analysis'')
       (js ''What is being?'') 4000 (7 / 10) True None ((snd ?first)\<lparr>clock := 5000\<rparr>)
     = (Returns \<lparr>completion_response = js ''Noted.'', tokensUsed = 15\<rparr>,
        (snd ?first)\<lparr>clock := 5000\<rparr>)"
    by (rule sendRequest_cache_hit[OF miss up first _ _ ttl])
      (simp_all add: sendRequest_def Let_def checkCache_def steady_model_def cacheResponse_def
        logInteraction_def fresh_gateway_def)
  show ?thesis using second n by simp
qed

text \<open>
  C3. The cache key is the hash of the prompt alone. After a call that missed the cache
  and stored its result, a call with the same prompt and any other maximum of tokens and
  temperature is served the stored result.
\<close>

theorem sendRequest_serves_other_parameters:
  assumes miss: "checkCache g0 (generatePromptHash prompt) = None"
      and up: "redis_up g0"
      and first: "sendRequest api model u c k prompt mt1 temp1 True sp g0 = (Returns r1, g1)"
  shows "sendRequest api model u c k prompt mt2 temp2 True sp g1 = (Returns r1, g1)"
proof -
  from sendRequest_miss[OF miss first] up
  have "redis g1 (cache_key (generatePromptHash prompt)) = Some (r1, clock g1 + 3600 * 1000)"
    by simp
  moreover from first miss up have "redis_up g1"
    by (auto simp: sendRequest_def Let_def cacheResponse_def logInteraction_def
        split: option.splits if_splits)
  ultimately have "checkCache g1 (generatePromptHash prompt) = Some r1"
    by (simp add: checkCache_def)
  then show ?thesis
    by (simp add: sendRequest_def)
qed

text \<open>
  A model whose answer depends on the maximum of tokens it is given. Asked for at most
  100 tokens it answers briefly; after a call with the same prompt and 4000 tokens, the
  gateway answers the call for 100 tokens with the long essay.
\<close>

definition budget_model :: external_model where
  "budget_model t req =
     (Some \<lparr>message_content = (if max_tokens req < 1000 then js ''Short.'' else js ''A long essay.''),
            input_tokens = 10, output_tokens = (if max_tokens req < 1000 then 2 else 900)\<rparr>, 120)"

theorem sendRequest_serves_other_parameters_witness:
  "fst (sendRequest budget_model (js ''m'') (js ''u1'') None (js ''practical_application'')
          (js ''Summarise.'') 100 0 True None
          (snd (sendRequest budget_model (js ''m'') (js ''u1'') None (js ''practical_application'')
                  (js ''Summarise.'') 4000 (7 / 10) True None fresh_gateway)))
   = Returns \<lparr>completion_response = js ''A long essay.'', tokensUsed = 910\<rparr>
   \<and> fst (sendRequest budget_model (js ''m'') (js ''u1'') None (js ''practical_application'')
          (js ''Summarise.'') 100 0 True None fresh_gateway)
   = Returns \<lparr>completion_response = js ''Short.'', tokensUsed = 12\<rparr>"
proof -
  let ?first = "sendRequest budget_model (js ''m'') (js ''u1'') None (js ''practical_application'')
                  (js ''Summarise.'') 4000 (7 / 10) True None fresh_gateway"
  have miss: "checkCache fresh_gateway (generatePromptHash (js ''Summarise.'')) = None"
    by (simp add: checkCache_def fresh_gateway_def)
  have up: "redis_up fresh_gateway" by (simp add: fresh_gateway_def)
  have "fst ?first = Returns \<lparr>completion_response = js ''A long essay.'', tokensUsed = 910\<rparr>"
    by (simp add: sendRequest_def Let_def checkCache_def fresh_gateway_def budget_model_def)
  then have first: "?first = (Returns \<lparr>completion_response = js ''A long essay.'', tokensUsed = 910\<rparr>, snd ?first)"
    by (simp add: prod_eq_iff)
  have alone: "fst (sendRequest budget_model (js ''m'') (js ''u1'') None (js ''practical_application'')
          (js ''Summarise.'') 100 0 True None fresh_gateway)
     = Returns \<lparr>completion_response = js ''Short.'', tokensUsed = 12\<rparr>"
    by (simp add: sendRequest_def Let_def checkCache_def fresh_gateway_def budget_model_def)
  from sendRequest_serves_other_parameters[OF miss up first, of 100 0] alone
  show ?thesis by simp
qed


section \<open>Loading the templates\<close>

text \<open>
  A store that has loaded nothing yet, and a world in which Redis holds no cached set and
  every template file is sound but the one of \<open>thesis_generation\<close>, which is missing.
\<close>

definition sound_template :: "jsstring \<Rightarrow> PromptTemplate" where
  "sound_template n =
     \<lparr>tpl_name = n, tpl_description = [], tpl_template = js ''Concept: {{concept_name}}'',
      tpl_parameters = [js ''concept_name''], fallback_strategy = None\<rparr>"

definition one_missing_world :: template_world where
  "one_missing_world =
     \<lparr>tw_redis_up = True, cached_templates = None,
      template_files = (\<lambda>n. if n = js ''thesis_generation'' then Missing else Body (sound_template n))\<rparr>"

definition fresh_service :: PromptTemplateService where
  "fresh_service = \<lparr>templates = [], templatesLoaded = False\<rparr>"

text \<open>
  C8, as stated, fails: in that world \<open>getTemplate\<close> raises for \<open>category_enrichment\<close>,
  whose file is sound and whose template was set in the map before the loop reached the
  missing file.
\<close>

theorem getTemplate_other_template_counterexample:
  "fst (getTemplate fresh_service one_missing_world (js ''category_enrichment'')) =
     Throws (Wrapped ''Failed to load prompt templates'' (Read_error (js ''thesis_generation'')))
   \<and> map fst (templates (fst (snd (getTemplate fresh_service one_missing_world (js ''category_enrichment'')))))
       = [js ''graph_validation'', js ''category_enrichment'', js ''connection_enrichment'']"
  by (simp add: getTemplate_def loadTemplates_def fresh_service_def one_missing_world_def
      templateFiles_def js_def)

lemma load_files_bad:
  "n \<in> set ns \<Longrightarrow> files n = Missing \<or> files n = Malformed \<Longrightarrow>
   \<exists>e ts1. load_files files ns ts = (Some e, ts1)"
proof (induction ns arbitrary: ts)
  case Nil
  then show ?case by simp
next
  case (Cons m ns)
  show ?case
  proof (cases "files m")
    case Missing
    then show ?thesis by simp
  next
    case Malformed
    then show ?thesis by simp
  next
    case (Body t)
    with Cons.prems have "n \<in> set ns" by auto
    from Cons.IH[OF this Cons.prems(2)] Body show ?thesis by simp
  qed
qed

text \<open>
  C8, amended. When the store loads the set from the files (nothing loaded yet, no cached
  set in Redis), a missing file or a malformed body for any one template of the set makes
  the load fail as a whole: \<open>getTemplate\<close> raises for every name, and the store stays
  unloaded, so that the next call loads again.
\<close>

theorem getTemplate_load_is_all_or_nothing:
  assumes "\<not> templatesLoaded svc"
      and "cached_templates w = None"
      and "n \<in> set templateFiles"
      and "template_files w n = Missing \<or> template_files w n = Malformed"
  shows "\<exists>e svc1. getTemplate svc w nm = (Throws (Wrapped ''Failed to load prompt templates'' e), svc1, w)
           \<and> \<not> templatesLoaded svc1"
proof (cases "tw_redis_up w")
  case False
  with assms(1) show ?thesis
    by (simp add: getTemplate_def loadTemplates_def)
next
  case True
  from load_files_bad[of n templateFiles "template_files w" "templates svc", OF assms(3,4)]
  obtain e ts1
    where "load_files (template_files w) templateFiles (templates svc) = (Some e, ts1)"
    by blast
  with True assms(1,2) show ?thesis
    by (simp add: getTemplate_def loadTemplates_def)
qed

theorem getTemplate_load_is_all_or_nothing_witness:
  "\<not> templatesLoaded fresh_service \<and> cached_templates one_missing_world = None
   \<and> js ''thesis_generation'' \<in> set templateFiles
   \<and> template_files one_missing_world (js ''thesis_generation'') = Missing
   \<and> (\<exists>e svc1. getTemplate fresh_service one_missing_world (js ''graph_validation'')
          = (Throws (Wrapped ''Failed to load prompt templates'' e), svc1, one_missing_world)
        \<and> \<not> templatesLoaded svc1)"
proof -
  have a: "\<not> templatesLoaded fresh_service" by (simp add: fresh_service_def)
  have b: "cached_templates one_missing_world = None" by (simp add: one_missing_world_def)
  have c: "js ''thesis_generation'' \<in> set templateFiles" by (simp add: templateFiles_def)
  have d: "template_files one_missing_world (js ''thesis_generation'') = Missing"
    by (simp add: one_missing_world_def)
  from d have d': "template_files one_missing_world (js ''thesis_generation'') = Missing
     \<or> template_files one_missing_world (js ''thesis_generation'') = Malformed" by simp
  from getTemplate_load_is_all_or_nothing[OF a b c d', of "js ''graph_validation''"] a b c d
  show ?thesis by blast
qed


section \<open>Responses without markers\<close>

text \<open>The input a literal pattern matches at a state, up to case.\<close>

fun ci_prefix :: "flags \<Rightarrow> jsstring \<Rightarrow> jsstring \<Rightarrow> bool" where
  "ci_prefix fl [] s = True"
| "ci_prefix fl (a # p) [] = False"
| "ci_prefix fl (a # p) (c # cs) = (canonicalize fl c = canonicalize fl a \<and> ci_prefix fl p cs)"

lemma lits_Cons: "lits (a # p) = Seq (Lit a) (lits p)"
  by (simp add: lits_def)

lemma lits_Nil: "lits [] = Eps"
  by (simp add: lits_def)

lemma rmatch_lits_prefix: "rmatch fl (lits p) st \<noteq> [] \<Longrightarrow> ci_prefix fl p (rest st)"
proof (induction p arbitrary: st)
  case Nil
  then show ?case by simp
next
  case (Cons a p)
  show ?case
  proof (cases "rest st")
    case Nil
    with Cons.prems show ?thesis by (simp add: lits_Cons step_if_def)
  next
    case (Cons c cs)
    with Cons.prems have c: "canonicalize fl c = canonicalize fl a"
      and m: "rmatch fl (lits p) (advance st) \<noteq> []"
      by (auto simp: lits_Cons step_if_def split: if_splits)
    have "rest (advance st) = cs" using Cons by (simp add: advance_def)
    with Cons.IH[OF m] c Cons show ?thesis by simp
  qed
qed

lemma rmatch_Seq_nonempty: "rmatch fl (Seq r1 r2) st \<noteq> [] \<Longrightarrow> rmatch fl r1 st \<noteq> []"
  by auto

lemma canon_hash: "canonicalize fl c = canonicalize fl 35 \<Longrightarrow> c = 35"
  by (auto simp: canonicalize_def upper_unit_def Let_def split: if_splits)

lemma canon_space: "canonicalize fl c = canonicalize fl 32 \<Longrightarrow> c = 32"
  by (auto simp: canonicalize_def upper_unit_def Let_def split: if_splits)

text \<open>No occurrence of a text means no occurrence at any offset.\<close>

lemma not_includes_drop:
  "\<not> str_includes s sub \<Longrightarrow> sub \<noteq> [] \<Longrightarrow> \<not> is_prefix sub (drop k s)"
proof (induction s arbitrary: k)
  case Nil
  then show ?case by (cases sub) simp_all
next
  case (Cons c cs)
  then show ?case by (cases k) simp_all
qed

lemma search_loop_None:
  assumes "\<And>i p k. rmatch fl re (start_state i p (drop k s)) = []"
  shows "search_loop fl re i0 p0 s = None"
  using assms
proof (induction s arbitrary: i0 p0)
  case Nil
  from Nil[of _ _ 0] show ?case by (simp add: match_at_def)
next
  case (Cons c cs)
  have here: "match_at fl re (start_state i0 p0 (c # cs)) = None"
    using Cons.prems[of i0 p0 0] by (simp add: match_at_def)
  have "\<And>i p k. rmatch fl re (start_state i p (drop k cs)) = []"
    using Cons.prems[of _ _ "Suc _"] by simp
  from Cons.IH[OF this] here show ?case by simp
qed

lemma str_match_None:
  assumes "\<And>i p k. rmatch fl re (start_state i p (drop k s)) = []"
  shows "str_match fl re s = None"
  using search_loop_None[OF assms] by (simp add: str_match_def regex_exec_def)

lemma ci_prefix_Cons: "ci_prefix fl (a # p) xs \<Longrightarrow> \<exists>c cs. xs = c # cs \<and> canonicalize fl c = canonicalize fl a \<and> ci_prefix fl p cs"
  by (cases xs) simp_all

lemma ci_prefix_hash_space:
  assumes "ci_prefix fl (a # 35 # 32 # t) xs"
  shows "\<exists>x zs. xs = x # 35 # 32 # zs"
proof -
  from ci_prefix_Cons[OF assms] obtain x xs1 where 1: "xs = x # xs1" and p1: "ci_prefix fl (35 # 32 # t) xs1"
    by blast
  from ci_prefix_Cons[OF p1] obtain y xs2 where 2: "xs1 = y # xs2" and y: "canonicalize fl y = canonicalize fl 35"
    and p2: "ci_prefix fl (32 # t) xs2"
    by blast
  from ci_prefix_Cons[OF p2] obtain z xs3 where 3: "xs2 = z # xs3" and z: "canonicalize fl z = canonicalize fl 32"
    by blast
  from 1 2 3 canon_hash[OF y] canon_space[OF z] show ?thesis by simp
qed

text \<open>A response without the text \<open># \<close> has no heading and no title line.\<close>

definition hash_space :: jsstring where
  "hash_space = [35, 32]"

lemma heading_no_match:
  assumes "\<not> str_includes s hash_space"
  shows "rmatch fl (Seq (lits (a # 35 # 32 # t)) r) (start_state i p (drop k s)) = []"
proof (rule ccontr)
  assume "rmatch fl (Seq (lits (a # 35 # 32 # t)) r) (start_state i p (drop k s)) \<noteq> []"
  then have "ci_prefix fl (a # 35 # 32 # t) (drop k s)"
    using rmatch_lits_prefix[OF rmatch_Seq_nonempty] by (fastforce simp: start_state_def)
  then obtain x zs where "drop k s = x # 35 # 32 # zs"
    by (blast dest: ci_prefix_hash_space)
  then have "drop (Suc k) s = 35 # 32 # zs"
    by (metis drop_Suc tl_drop list.sel(3))
  then have "is_prefix hash_space (drop (Suc k) s)" by (simp add: hash_space_def)
  with not_includes_drop[OF assms, of "Suc k"] show False by (simp add: hash_space_def)
qed

lemma title_no_match:
  assumes "\<not> str_includes s hash_space"
  shows "rmatch fl (Seq (lits (35 # 32 # t)) r) (start_state i p (drop k s)) = []"
proof (rule ccontr)
  assume "rmatch fl (Seq (lits (35 # 32 # t)) r) (start_state i p (drop k s)) \<noteq> []"
  then have p1: "ci_prefix fl (35 # 32 # t) (drop k s)"
    using rmatch_lits_prefix[OF rmatch_Seq_nonempty] by (fastforce simp: start_state_def)
  from ci_prefix_Cons[OF p1] obtain y xs2 where 2: "drop k s = y # xs2"
    and y: "canonicalize fl y = canonicalize fl 35" and p2: "ci_prefix fl (32 # t) xs2"
    by blast
  from ci_prefix_Cons[OF p2] obtain z xs3 where 3: "xs2 = z # xs3"
    and z: "canonicalize fl z = canonicalize fl 32"
    by blast
  from 2 3 canon_hash[OF y] canon_space[OF z] have "is_prefix hash_space (drop k s)"
    by (simp add: hash_space_def)
  with not_includes_drop[OF assms, of k] show False by (simp add: hash_space_def)
qed

text \<open>A numbered marker: a digit, a dot and a white space character in a row.\<close>

fun has_numbered_marker :: "jsstring \<Rightarrow> bool" where
  "has_numbered_marker (a # b # c # r) =
     ((is_digit a \<and> b = 46 \<and> is_space c) \<or> has_numbered_marker (b # c # r))"
| "has_numbered_marker r = False"

lemma has_numbered_marker_append:
  "has_numbered_marker ys \<Longrightarrow> has_numbered_marker (xs @ ys)"
proof (induction xs)
  case Nil
  then show ?case by simp
next
  case (Cons x xs)
  from Cons obtain a b c r where "xs @ ys = a # b # c # r"
    by (cases "xs @ ys" rule: has_numbered_marker.cases) auto
  with Cons show ?case by simp
qed

lemma has_numbered_marker_drop:
  "has_numbered_marker (drop k s) \<Longrightarrow> has_numbered_marker s"
  using has_numbered_marker_append[of "drop k s" "take k s"] by simp

text \<open>What a run of one character class consumes.\<close>

lemma rmatch_Star_Class:
  "st1 \<in> set (rmatch fl (Star g (Class cs)) st) \<Longrightarrow>
   \<exists>ds. rest st = ds @ rest st1 \<and> (\<forall>d \<in> set ds. \<exists>k \<in> set cs. cls_matches k d)"
proof (induction "length (rest st)" arbitrary: st rule: less_induct)
  case less
  let ?more = "concat (map (\<lambda>st2.
                   if length (rest st2) < length (rest st) then rmatch fl (Star g (Class cs)) st2 else [])
                 (rmatch fl (Class cs) (reset_caps (Class cs) st)))"
  from less.prems have "st1 \<in> set (if g then ?more @ [st] else st # ?more)"
    by (subst (asm) rmatch.simps(9)) (simp only: Let_def)
  then have "st1 = st \<or> st1 \<in> set ?more"
    by (auto simp del: rmatch.simps split: if_splits)
  then show ?case
  proof
    assume "st1 = st"
    then show ?thesis by simp
  next
    assume "st1 \<in> set ?more"
    then obtain st2 where a: "st2 \<in> set (rmatch fl (Class cs) (reset_caps (Class cs) st))"
      and l: "length (rest st2) < length (rest st)"
      and b: "st1 \<in> set (rmatch fl (Star g (Class cs)) st2)"
      by (auto simp del: rmatch.simps split: if_splits)
    from a obtain d where d: "rest st = d # rest st2" and dm: "\<exists>k \<in> set cs. cls_matches k d"
      by (cases "rest st") (auto simp: step_if_def advance_def reset_caps_def split: if_splits)
    from less.hyps[OF l b] obtain ds where "rest st2 = ds @ rest st1"
      and "\<forall>d \<in> set ds. \<exists>k \<in> set cs. cls_matches k d"
      by blast
    with d dm have "rest st = (d # ds) @ rest st1 \<and> (\<forall>d \<in> set (d # ds). \<exists>k \<in> set cs. cls_matches k d)"
      by simp
    then show ?thesis by blast
  qed
qed

lemma rmatch_Plus_Class:
  assumes "st1 \<in> set (rmatch fl (Plus g (Class cs)) st)"
  shows "\<exists>ds. ds \<noteq> [] \<and> rest st = ds @ rest st1 \<and> (\<forall>d \<in> set ds. \<exists>k \<in> set cs. cls_matches k d)"
proof -
  from assms obtain st2 where a: "st2 \<in> set (rmatch fl (Class cs) (reset_caps (Class cs) st))"
    and b: "st1 \<in> set (rmatch fl (Star g (Class cs)) st2)"
    by (auto simp del: rmatch.simps(9))
  from a obtain d where d: "rest st = d # rest st2" and dm: "\<exists>k \<in> set cs. cls_matches k d"
    by (cases "rest st") (auto simp: step_if_def advance_def reset_caps_def split: if_splits)
  from rmatch_Star_Class[OF b] obtain ds where ds: "rest st2 = ds @ rest st1"
    and all: "\<forall>d \<in> set ds. \<exists>k \<in> set cs. cls_matches k d"
    by blast
  from d ds dm all
  have "d # ds \<noteq> [] \<and> rest st = (d # ds) @ rest st1
        \<and> (\<forall>d \<in> set (d # ds). \<exists>k \<in> set cs. cls_matches k d)"
    by simp
  then show ?thesis by blast
qed

lemma canon_dot: "canonicalize fl c = canonicalize fl 46 \<Longrightarrow> c = 46"
  by (auto simp: canonicalize_def upper_unit_def Let_def split: if_splits)

lemma rmatch_Seq_elem:
  "x \<in> set (rmatch fl (Seq r1 r2) st) \<Longrightarrow> \<exists>st1 \<in> set (rmatch fl r1 st). x \<in> set (rmatch fl r2 st1)"
  by auto

lemma rmatch_Lit_elem:
  "x \<in> set (rmatch fl (Lit a) st) \<Longrightarrow>
   \<exists>c. rest st = c # rest x \<and> canonicalize fl c = canonicalize fl a"
  by (cases "rest st") (auto simp: step_if_def advance_def split: if_splits)

lemma numbered_marker_found:
  assumes "x \<in> set (rmatch fl (Seq (Plus True Digit) (Seq (Lit 46) (Seq (Plus True Space) r))) st)"
  shows "has_numbered_marker (rest st)"
proof -
  from rmatch_Seq_elem[OF assms] obtain st1
    where d: "st1 \<in> set (rmatch fl (Plus True Digit) st)"
      and 1: "x \<in> set (rmatch fl (Seq (Lit 46) (Seq (Plus True Space) r)) st1)"
    by blast
  from rmatch_Seq_elem[OF 1] obtain st2
    where dot: "st2 \<in> set (rmatch fl (Lit 46) st1)"
      and 2: "x \<in> set (rmatch fl (Seq (Plus True Space) r) st2)"
    by blast
  from rmatch_Seq_elem[OF 2] obtain st3
    where sp: "st3 \<in> set (rmatch fl (Plus True Space) st2)"
    by blast
  from rmatch_Plus_Class[OF d] obtain ds where ds: "ds \<noteq> []" "rest st = ds @ rest st1"
    and dall: "\<forall>d \<in> set ds. is_digit d"
    by auto
  from rmatch_Lit_elem[OF dot] canon_dot have r1: "rest st1 = 46 # rest st2"
    by blast
  from rmatch_Plus_Class[OF sp] obtain ss where ss: "ss \<noteq> []" "rest st2 = ss @ rest st3"
    and sall: "\<forall>d \<in> set ss. is_space d"
    by auto
  from ds(1) obtain es e where es: "ds = es @ [e]" by (cases ds rule: rev_cases) auto
  from ss(1) obtain c cs where cs: "ss = c # cs" by (cases ss) auto
  from es dall have e: "is_digit e" by simp
  from cs sall have c: "is_space c" by simp
  have "rest st = es @ (e # 46 # c # (cs @ rest st3))"
    using ds(2) r1 ss(2) es cs by simp
  moreover have "has_numbered_marker (e # 46 # c # (cs @ rest st3))"
    using e c by simp
  ultimately show ?thesis
    using has_numbered_marker_append by metis
qed

lemma numbered_no_match:
  assumes "\<not> has_numbered_marker s"
  shows "rmatch fl (Seq (Plus True Digit) (Seq (Lit 46) (Seq (Plus True Space) r)))
           (start_state i p (drop k s)) = []"
proof (rule ccontr)
  assume "rmatch fl (Seq (Plus True Digit) (Seq (Lit 46) (Seq (Plus True Space) r)))
           (start_state i p (drop k s)) \<noteq> []"
  then obtain x where
    "x \<in> set (rmatch fl (Seq (Plus True Digit) (Seq (Lit 46) (Seq (Plus True Space) r)))
           (start_state i p (drop k s)))"
    by (meson hd_in_set)
  from numbered_marker_found[OF this] have "has_numbered_marker (drop k s)"
    by (simp add: start_state_def)
  with assms has_numbered_marker_drop show False by blast
qed

lemma rmatch_Bol_Seq_empty:
  "rmatch fl r st = [] \<Longrightarrow> rmatch fl (Seq Bol r) st = []"
  by simp

lemma split_loop_no_match:
  assumes "\<And>i p k. rmatch fl re (start_state i p (drop k s)) = []"
  shows "split_loop fl re p0 piece q pv s = [rev piece @ s]"
  using assms
proof (induction s arbitrary: piece q pv)
  case Nil
  show ?case by simp
next
  case (Cons c cs)
  have here: "rmatch fl re (start_state q pv (c # cs)) = []"
    using Cons.prems[of q pv 0] by simp
  have "\<And>i p k. rmatch fl re (start_state i p (drop k cs)) = []"
    using Cons.prems[of _ _ "Suc _"] by simp
  from Cons.IH[OF this] here show ?case by simp
qed

lemma regex_split_no_match:
  assumes "\<And>i p k. rmatch fl re (start_state i p (drop k s)) = []"
  shows "regex_split fl re s = [s]"
proof (cases "s = []")
  case True
  with assms[of 0 None 0] show ?thesis by (simp add: regex_split_def)
next
  case False
  with split_loop_no_match[OF assms] show ?thesis by (simp add: regex_split_def)
qed

lemma exec_all_no_match:
  assumes "\<And>i p k. rmatch fl re (start_state i p (drop k s)) = []"
  shows "exec_all fl re s 0 = Some []"
proof -
  have "regex_exec fl re s 0 = None"
    using search_loop_None[OF assms] by (simp add: regex_exec_def)
  then show ?thesis by (simp add: exec_all.simps)
qed

definition marker_free :: "jsstring \<Rightarrow> bool" where
  "marker_free s = (\<not> str_includes s hash_space \<and> \<not> has_numbered_marker s)"

lemma heading_unfold: "heading title = 35 # 35 # 32 # title"
  by (simp add: heading_def js_def)

lemma section_no_match:
  assumes "marker_free s"
  shows "str_match fl (section_re (heading title)) s = None"
  using assms
  by (intro str_match_None) (simp add: section_re_def heading_unfold heading_no_match marker_free_def del: rmatch.simps)

lemma dimension_no_match:
  assumes "marker_free s"
  shows "str_match fl (dimension_re (heading title)) s = None"
  using assms
  by (intro str_match_None) (simp add: dimension_re_def heading_unfold heading_no_match marker_free_def del: rmatch.simps)

lemma issues_section_no_match:
  assumes "marker_free s"
  shows "str_match fl issues_section_re s = None"
  using assms
  by (intro str_match_None)
     (simp add: issues_section_re_def heading_unfold heading_no_match marker_free_def del: rmatch.simps)

lemma title_re_no_match:
  assumes "marker_free s"
  shows "str_match fl title_re s = None"
  using assms
  by (intro str_match_None) (simp add: title_re_def js_def title_no_match marker_free_def del: rmatch.simps)

lemma section_text_default:
  "marker_free s \<Longrightarrow> section_text (heading title) dflt s = Returns dflt"
  by (simp add: section_text_def section_no_match)

lemma section_items_default:
  "marker_free s \<Longrightarrow> section_items (heading title) s = Returns []"
  by (simp add: section_items_def section_no_match)

lemma numbered_split_whole:
  "marker_free s \<Longrightarrow> regex_split fl numbered_re s = [s]"
  by (intro regex_split_no_match) (simp add: numbered_re_def numbered_no_match marker_free_def del: rmatch.simps)

lemma thesis_no_match:
  "marker_free s \<Longrightarrow> exec_all fl thesisRegex s 0 = Some []"
  by (intro exec_all_no_match)
     (simp add: thesisRegex_def numbered_no_match rmatch_Bol_Seq_empty marker_free_def del: rmatch.simps)

lemma validateGraph_marker_free:
  "marker_free s \<Longrightarrow>
   validateGraph_parse s =
     Returns \<lparr>general_analysis = s, contradictions = [], missing_elements = [],
              improvement_suggestions = []\<rparr>"
  by (simp add: validateGraph_parse_def numbered_split_whole try_wrap_def)

lemma enrichCategory_marker_free:
  "marker_free s \<Longrightarrow>
   enrichCategory_parse s =
     Returns \<lparr>extended_description = s, alternative_interpretations = [],
              historical_analogs = [], related_concepts = []\<rparr>"
  by (simp add: enrichCategory_parse_def section_text_default section_items_default
      try_wrap_def bind_o_def)

lemma enrichConnection_marker_free:
  "marker_free s \<Longrightarrow>
   enrichConnection_parse s =
     Returns \<lparr>extended_description = s, alternative_interpretations = [],
              historical_analogs = [], related_concepts = []\<rparr>"
  by (simp add: enrichConnection_parse_def section_text_default section_items_default
      try_wrap_def bind_o_def)

lemma generateTheses_marker_free:
  "marker_free s \<Longrightarrow> generateTheses_parse g p now s = Returns []"
  by (simp add: generateTheses_parse_def thesis_no_match try_wrap_def bind_o_def of_loop_def)

lemma developThesis_marker_free:
  "marker_free s \<Longrightarrow>
   developThesis_parse t s =
     Returns \<lparr>dev_text = t, dev_justification = [], dev_counterarguments = [],
              dev_historical_analogs = [], dev_practical_implications = []\<rparr>"
  by (simp add: developThesis_parse_def section_text_default try_wrap_def bind_o_def)

lemma analyseSynthesisCompatibility_marker_free:
  "marker_free s \<Longrightarrow>
   analyseSynthesisCompatibility_parse s =
     Returns \<lparr>fully_compatible = [], potentially_compatible = [], incompatible = [],
              synthesis_strategies = []\<rparr>"
  by (simp add: analyseSynthesisCompatibility_parse_def compatibility_section_def
      section_no_match try_wrap_def bind_o_def)

lemma synthesizeConcepts_marker_free:
  "marker_free s \<Longrightarrow>
   synthesizeConcepts_parse u cs m ps now s =
     Returns
       \<lparr>result_concept =
          \<lparr>concept_id = [], user_id = u,
           name = ru_sintez @ js '' '' @ join (js '' + '') (map name cs),
           description = Some [], creation_date = now, last_modified = now,
           is_synthesis = True, parent_concepts = Some (map concept_id cs),
           synthesis_method = Some m, focus_area = sp_focus_area ps\<rparr>,
        result_graph =
          \<lparr>graph_concept_id = [],
           concept_name = ru_sintez @ js '' '' @ join (js '' + '') (map name cs),
           concept_description = Some [], categories = [], connections = []\<rparr>,
        synthesis_meta =
          \<lparr>synthesis_id = [], result_concept_id = [],
           source_concept_ids = map concept_id cs, meta_synthesis_method = m,
           meta_innovation_level = sp_innovation_level ps,
           meta_abstraction_level = sp_abstraction_level ps,
           meta_historical_context = sp_historical_context ps,
           meta_target_application = sp_target_application ps,
           meta_created_at = now\<rparr>,
        origin_mapping = \<lparr>category_mapping = [], connection_mapping = []\<rparr>\<rparr>"
  by (simp add: synthesizeConcepts_parse_def title_re_no_match section_text_default
      collect_section_def section_no_match try_wrap_def bind_o_def)

lemma criticallyAnalyzeSynthesis_marker_free:
  "marker_free s \<Longrightarrow>
   criticallyAnalyzeSynthesis_parse s =
     Returns
       \<lparr>internal_consistency = \<lparr>ic_score = Some 0, ic_analysis = [], ic_issues = None\<rparr>,
        philosophical_novelty = \<lparr>pn_score = Some 0, pn_analysis = [], novel_elements = None\<rparr>,
        preservation_of_value =
          \<lparr>pv_score = Some 0, pv_analysis = [], preserved_elements = None, lost_elements = None\<rparr>,
        contradiction_resolution =
          \<lparr>cr_score = Some 0, cr_analysis = [], resolved_contradictions = None,
           remaining_contradictions = None\<rparr>,
        potential_issues = []\<rparr>"
  by (simp add: criticallyAnalyzeSynthesis_parse_def parse_internal_consistency_def
      parse_philosophical_novelty_def parse_preservation_of_value_def
      parse_contradiction_resolution_def dimension_no_match issues_section_no_match
      try_wrap_def bind_o_def)

lemma marker_free_empty: "marker_free []"
  by (simp add: marker_free_def hash_space_def)

definition plain_remark :: jsstring where
  "plain_remark = js ''Being and becoming are one.''"

lemma plain_remark_marker_free: "marker_free plain_remark"
  by (simp add: marker_free_def hash_space_def plain_remark_def js_def is_digit_def)

text \<open>
  C1, as stated, fails: the remark has no heading and no numbered marker, and the critical
  analysis parsed from it has every text field empty; the remark is not kept in any of
  them. \<open>criticallyAnalyzeSynthesis\<close> has no branch that stores the response as it is.
\<close>

theorem critical_analysis_drops_text_counterexample:
  "marker_free plain_remark
   \<and> plain_remark \<noteq> []
   \<and> criticallyAnalyzeSynthesis_parse plain_remark =
       Returns
         \<lparr>internal_consistency = \<lparr>ic_score = Some 0, ic_analysis = [], ic_issues = None\<rparr>,
          philosophical_novelty = \<lparr>pn_score = Some 0, pn_analysis = [], novel_elements = None\<rparr>,
          preservation_of_value =
            \<lparr>pv_score = Some 0, pv_analysis = [], preserved_elements = None,
             lost_elements = None\<rparr>,
          contradiction_resolution =
            \<lparr>cr_score = Some 0, cr_analysis = [], resolved_contradictions = None,
             remaining_contradictions = None\<rparr>,
          potential_issues = []\<rparr>"
  using plain_remark_marker_free criticallyAnalyzeSynthesis_marker_free[OF plain_remark_marker_free]
  by (simp add: plain_remark_def js_def)

text \<open>
  C1, amended. On a response that is empty or has no heading marker (a \<open>#\<close> followed by a
  space) and no numbered marker (a digit, a dot, a white space character), every parser
  returns, none raises, and every collection of the result is empty or absent. The
  response is kept as it is by \<open>validateGraph\<close> in \<open>general_analysis\<close>, by
  \<open>enrichCategory\<close> and \<open>enrichConnection\<close> in \<open>extended_description\<close>, and by the four
  operations that return \<open>{text: response}\<close>. \<open>developThesis\<close> and
  \<open>criticallyAnalyzeSynthesis\<close> leave their text fields empty, \<open>synthesizeConcepts\<close>
  names the concept after its sources and leaves the description empty, and
  \<open>generateTheses\<close> and \<open>analyseSynthesisCompatibility\<close> return empty collections.
\<close>

theorem parsers_total_on_marker_free:
  assumes "marker_free resp"
  shows "validateGraph_parse resp =
           Returns \<lparr>general_analysis = resp, contradictions = [], missing_elements = [],
                    improvement_suggestions = []\<rparr>
       \<and> enrichCategory_parse resp =
           Returns \<lparr>extended_description = resp, alternative_interpretations = [],
                    historical_analogs = [], related_concepts = []\<rparr>
       \<and> enrichConnection_parse resp =
           Returns \<lparr>extended_description = resp, alternative_interpretations = [],
                    historical_analogs = [], related_concepts = []\<rparr>
       \<and> text_only_parse resp = Returns \<lparr>result_text = resp\<rparr>
       \<and> generateTheses_parse g p now resp = Returns []
       \<and> developThesis_parse t resp =
           Returns \<lparr>dev_text = t, dev_justification = [], dev_counterarguments = [],
                    dev_historical_analogs = [], dev_practical_implications = []\<rparr>
       \<and> analyseSynthesisCompatibility_parse resp =
           Returns \<lparr>fully_compatible = [], potentially_compatible = [], incompatible = [],
                    synthesis_strategies = []\<rparr>
       \<and> synthesizeConcepts_parse u cs m ps now resp =
           Returns
             \<lparr>result_concept =
                \<lparr>concept_id = [], user_id = u,
                 name = ru_sintez @ js '' '' @ join (js '' + '') (map name cs),
                 description = Some [], creation_date = now, last_modified = now,
                 is_synthesis = True, parent_concepts = Some (map concept_id cs),
                 synthesis_method = Some m, focus_area = sp_focus_area ps\<rparr>,
              result_graph =
                \<lparr>graph_concept_id = [],
                 concept_name = ru_sintez @ js '' '' @ join (js '' + '') (map name cs),
                 concept_description = Some [], categories = [], connections = []\<rparr>,
              synthesis_meta =
                \<lparr>synthesis_id = [], result_concept_id = [],
                 source_concept_ids = map concept_id cs, meta_synthesis_method = m,
                 meta_innovation_level = sp_innovation_level ps,
                 meta_abstraction_level = sp_abstraction_level ps,
                 meta_historical_context = sp_historical_context ps,
                 meta_target_application = sp_target_application ps,
                 meta_created_at = now\<rparr>,
              origin_mapping = \<lparr>category_mapping = [], connection_mapping = []\<rparr>\<rparr>
       \<and> criticallyAnalyzeSynthesis_parse resp =
           Returns
             \<lparr>internal_consistency = \<lparr>ic_score = Some 0, ic_analysis = [], ic_issues = None\<rparr>,
              philosophical_novelty =
                \<lparr>pn_score = Some 0, pn_analysis = [], novel_elements = None\<rparr>,
              preservation_of_value =
                \<lparr>pv_score = Some 0, pv_analysis = [], preserved_elements = None,
                 lost_elements = None\<rparr>,
              contradiction_resolution =
                \<lparr>cr_score = Some 0, cr_analysis = [], resolved_contradictions = None,
                 remaining_contradictions = None\<rparr>,
              potential_issues = []\<rparr>"
  using assms
  by (simp only: validateGraph_marker_free enrichCategory_marker_free
      enrichConnection_marker_free generateTheses_marker_free developThesis_marker_free
      analyseSynthesisCompatibility_marker_free synthesizeConcepts_marker_free
      criticallyAnalyzeSynthesis_marker_free text_only_parse_def simp_thms)

theorem parsers_total_on_marker_free_witness:
  "marker_free plain_remark
   \<and> validateGraph_parse plain_remark =
       Returns \<lparr>general_analysis = plain_remark, contradictions = [], missing_elements = [],
                improvement_suggestions = []\<rparr>
   \<and> enrichCategory_parse plain_remark =
       Returns \<lparr>extended_description = plain_remark, alternative_interpretations = [],
                historical_analogs = [], related_concepts = []\<rparr>
   \<and> generateTheses_parse empty_graph ontological_params 0 plain_remark = Returns []
   \<and> developThesis_parse (js ''All is one.'') plain_remark =
       Returns \<lparr>dev_text = js ''All is one.'', dev_justification = [], dev_counterarguments = [],
                dev_historical_analogs = [], dev_practical_implications = []\<rparr>"
  using parsers_total_on_marker_free[OF plain_remark_marker_free,
      of empty_graph ontological_params 0 "js ''All is one.''"]
    plain_remark_marker_free
  by simp

section \<open>Prompts: what the loop of substitutions computes\<close>

lemma canonicalize_plain: "canonicalize fl_plain c = c"
  by (simp add: canonicalize_def fl_plain_def)

lemma rmatch_lits_plain:
  "rmatch fl_plain (lits p) st =
     (if is_prefix p (rest st)
      then [st\<lparr>pos := pos st + length p,
               prev := (if p = [] then prev st else Some (last p)),
               rest := drop (length p) (rest st)\<rparr>]
      else [])"
proof (induction p arbitrary: st)
  case Nil
  show ?case by (simp add: lits_def)
next
  case (Cons a p)
  show ?case
  proof (cases "rest st")
    case Nil
    then show ?thesis by (simp add: lits_Cons step_if_def)
  next
    case (Cons c cs)
    show ?thesis
    proof (cases "c = a")
      case False
      with Cons show ?thesis by (simp add: lits_Cons step_if_def canonicalize_plain)
    next
      case True
      have adv: "advance st = st\<lparr>pos := Suc (pos st), prev := Some c, rest := cs\<rparr>"
        using Cons by (simp add: advance_def)
      show ?thesis
        using Cons True
        by (simp add: lits_Cons step_if_def canonicalize_plain Cons.IH adv)
    qed
  qed
qed

lemma get_substitution_plain:
  "36 \<notin> set v \<Longrightarrow> get_substitution cp n matched pre post v = v"
  by (induction v rule: induct_list012) simp_all

lemma replace_loop_lit:
  assumes "pat \<noteq> []" and "36 \<notin> set v"
  shows "replace_loop fl_plain (lits pat) v s q pv r = replace_lit pat v r"
proof (induction "length r" arbitrary: r q pv rule: less_induct)
  case less
  show ?case
  proof (cases r)
    case Nil
    with assms show ?thesis
      by (cases pat) (simp_all add: rmatch_lits_plain start_state_def del: rmatch.simps)
  next
    case (Cons c cs)
    show ?thesis
    proof (cases "is_prefix pat (c # cs)")
      case False
      have "length cs < length r" using Cons by simp
      from less[OF this] False Cons assms show ?thesis
        by (simp add: rmatch_lits_plain start_state_def del: rmatch.simps)
    next
      case True
      have "length (drop (length pat) (c # cs)) < length r"
        using Cons assms(1) by (cases pat) simp_all
      from less[OF this] True Cons assms show ?thesis
        by (simp add: rmatch_lits_plain start_state_def get_substitution_plain
            del: rmatch.simps)
    qed
  qed
qed

lemma regex_replace_all_lit:
  "pat \<noteq> [] \<Longrightarrow> 36 \<notin> set v \<Longrightarrow>
   regex_replace_all fl_plain (lits pat) s v = replace_lit pat v s"
  by (simp add: regex_replace_all_def replace_loop_lit)

lemma placeholder_unfold: "placeholder p = 123 # 123 # p @ [125, 125]"
  by (simp add: placeholder_def js_def)

lemma row_text_simps:
  "row_text [] = []"
  "row_text (Text t # segs) = t @ row_text segs"
  "row_text (Hole n # segs) = 123 # 123 # n @ 125 # 125 # row_text segs"
  by (simp_all add: row_text_def placeholder_unfold)

lemma replace_lit_clean:
  "clean t \<Longrightarrow> replace_lit (123 # 123 # pat) v (t @ ys) = t @ replace_lit (123 # 123 # pat) v ys"
proof (induction t rule: clean.induct)
  case 1
  show ?case by simp
next
  case (2 c)
  then show ?case by simp
next
  case (3 c d t)
  then have "clean (d # t)" and "c \<noteq> 123 \<or> d \<noteq> 123" by simp_all
  with 3 show ?case by auto
qed

lemma is_prefix_append_same: "is_prefix p (p @ ys)"
  by (induction p) simp_all

lemma is_prefix_closing:
  "brace_free p \<Longrightarrow> brace_free n \<Longrightarrow> is_prefix (p @ [125, 125]) (n @ 125 # 125 # ys) \<Longrightarrow> p = n"
proof (induction p arbitrary: n)
  case Nil
  then show ?case by (cases n) (auto simp: brace_free_def)
next
  case (Cons a p)
  show ?case
  proof (cases n)
    case Nil
    with Cons.prems show ?thesis by (auto simp: brace_free_def)
  next
    case (Cons b n')
    with Cons.prems have "a = b" and "is_prefix (p @ [125, 125]) (n' @ 125 # 125 # ys)"
      and "brace_free p" and "brace_free n'"
      by (auto simp: brace_free_def)
    with Cons.IH[of n'] Cons show ?thesis by simp
  qed
qed

lemma clean_hole_tail: "brace_free n \<Longrightarrow> clean (123 # n @ [125, 125])"
proof -
  assume bf: "brace_free n"
  have "123 \<notin> set n \<Longrightarrow> clean (n @ [125, 125])"
  proof (induction n rule: clean.induct)
    case 1
    show ?case by simp
  next
    case (2 c)
    then show ?case by simp
  next
    case (3 c d t)
    then show ?case by simp
  qed
  with bf have c: "clean (n @ [125, 125])" by (simp add: brace_free_def)
  show ?thesis
  proof (cases n)
    case Nil
    then show ?thesis by simp
  next
    case (Cons b n')
    with bf c show ?thesis by (simp add: brace_free_def)
  qed
qed

lemma replace_lit_hole_same:
  "replace_lit (placeholder p) v (123 # 123 # p @ 125 # 125 # ys) = v @ replace_lit (placeholder p) v ys"
proof -
  have "is_prefix (placeholder p) (placeholder p @ ys)" by (rule is_prefix_append_same)
  then have "is_prefix (placeholder p) (123 # 123 # p @ 125 # 125 # ys)"
    by (simp add: placeholder_unfold)
  moreover have "drop (length (placeholder p)) (123 # 123 # p @ 125 # 125 # ys) = ys"
    by (simp add: placeholder_unfold)
  ultimately show ?thesis
    by (simp add: placeholder_unfold)
qed

lemma replace_lit_hole_other:
  assumes "brace_free p" "brace_free n" "n \<noteq> p"
  shows "replace_lit (placeholder p) v (123 # 123 # n @ 125 # 125 # ys)
         = 123 # 123 # n @ 125 # 125 # replace_lit (placeholder p) v ys"
proof -
  have no: "\<not> is_prefix (placeholder p) (123 # 123 # n @ 125 # 125 # ys)"
    using is_prefix_closing[OF assms(1,2)] assms(3) by (auto simp: placeholder_unfold)
  have "replace_lit (placeholder p) v ((123 # n @ [125, 125]) @ ys)
        = (123 # n @ [125, 125]) @ replace_lit (placeholder p) v ys"
    unfolding placeholder_unfold
    by (rule replace_lit_clean) (rule clean_hole_tail[OF assms(2)])
  with no show ?thesis by simp
qed

lemma replace_lit_render:
  assumes "brace_free p"
  shows "flat segs \<Longrightarrow>
         replace_lit (placeholder p) v (row_text segs) = row_text (map (subst p v) segs)"
proof (induction segs)
  case Nil
  show ?case by (simp add: row_text_simps)
next
  case (Cons sg segs)
  then have fl: "flat segs" and sg: "flat_seg sg" by (simp_all add: flat_def)
  note IH = Cons.IH[OF fl]
  show ?case
  proof (cases sg)
    case (Text t)
    with sg have "clean t" by simp
    from replace_lit_clean[OF this, of "p @ [125, 125]" v "row_text segs"] IH Text
    show ?thesis by (simp add: row_text_simps placeholder_unfold)
  next
    case (Hole n)
    with sg have bn: "brace_free n" by simp
    show ?thesis
    proof (cases "n = p")
      case True
      with Hole IH replace_lit_hole_same[of p v "row_text segs"] show ?thesis
        by (simp add: row_text_simps)
    next
      case False
      with Hole IH replace_lit_hole_other[OF assms bn False, of v "row_text segs"] show ?thesis
        by (simp add: row_text_simps)
    qed
  qed
qed

lemma plain_name_brace_free: "plain_name p \<Longrightarrow> brace_free p"
  by (auto simp: plain_name_def brace_free_def syntax_characters_def list_ex_iff)

text \<open>A round of the loop on a plain name: what the text of the value decides.\<close>

lemma substitute_param_plain:
  assumes "plain_name p"
  shows "substitute_param data prompt p =
           bind_o (text_of data p)
             (\<lambda>t. Returns (regex_replace_all fl_plain (lits (placeholder p)) prompt t))"
proof -
  from assms have re: "placeholder_re p = Some (lits (placeholder p))"
    by (simp add: placeholder_re_def plain_name_def)
  from assms have "p \<notin> set object_prototype_names" by (simp add: plain_name_def)
  then show ?thesis
    by (cases "data p")
      (simp_all add: substitute_param_def re get_property_def text_of_def bind_o_def)
qed

lemma has_text_shown: "has_text data p \<Longrightarrow> text_of data p = Returns (shown data p)"
  by (cases "text_of data p") (simp_all add: has_text_def shown_def)

lemma plain_text_has_text: "plain_text data p \<Longrightarrow> has_text data p"
  by (cases "text_of data p") (simp_all add: has_text_def plain_text_def)

lemma plain_text_shown: "plain_text data p \<Longrightarrow> plain_value (shown data p)"
  by (cases "text_of data p") (simp_all add: shown_def plain_text_def)


lemma absent_has_text: "data p = None \<Longrightarrow> has_text data p \<and> shown data p = []"
  by (simp add: has_text_def shown_def text_of_def)

lemma substitute_param_shown:
  assumes "plain_name p" "has_text data p"
  shows "substitute_param data prompt p =
           Returns (regex_replace_all fl_plain (lits (placeholder p)) prompt (shown data p))"
  by (simp add: substitute_param_plain[OF assms(1)] has_text_shown[OF assms(2)] bind_o_def)



text \<open>A value that cannot be written stops the loop with its error.\<close>

lemma substitute_all_throws:
  "list_all plain_name ps \<Longrightarrow>
   list_all (\<lambda>p. has_text data p \<or> text_of data p = Throws e) ps \<Longrightarrow>
   \<not> list_all (has_text data) ps \<Longrightarrow>
   substitute_all data prompt ps = Throws e"
proof (induction ps arbitrary: prompt)
  case Nil
  then show ?case by simp
next
  case (Cons p ps)
  from Cons.prems(1) have pn: "plain_name p" and rest: "list_all plain_name ps" by simp_all
  show ?case
  proof (cases "has_text data p")
    case True
    with Cons.prems have "list_all (\<lambda>p. has_text data p \<or> text_of data p = Throws e) ps"
      and "\<not> list_all (has_text data) ps" by simp_all
    from Cons.IH[OF rest this] substitute_param_shown[OF pn True] show ?thesis
      by (simp add: bind_o_def)
  next
    case False
    with Cons.prems(2) have "text_of data p = Throws e" by simp
    then show ?thesis by (simp add: substitute_param_plain[OF pn] bind_o_def)
  qed
qed

lemma flat_subst: "flat segs \<Longrightarrow> clean v \<Longrightarrow> flat (map (subst p v) segs)"
proof (induction segs)
  case Nil
  show ?case by (simp add: flat_def)
next
  case (Cons sg segs)
  then show ?case by (cases sg) (simp_all add: flat_def)
qed

lemma substitute_param_render:
  assumes "plain_name p" "plain_text data p" "flat segs"
  shows "substitute_param data (row_text segs) p = Returns (row_text (map (subst p (shown data p)) segs))"
proof -
  have "placeholder p \<noteq> []" by (simp add: placeholder_unfold)
  moreover from plain_text_shown[OF assms(2)] have "36 \<notin> set (shown data p)"
    by (simp add: plain_value_def)
  ultimately have "regex_replace_all fl_plain (lits (placeholder p)) (row_text segs) (shown data p)
      = replace_lit (placeholder p) (shown data p) (row_text segs)"
    by (rule regex_replace_all_lit)
  with replace_lit_render[OF plain_name_brace_free[OF assms(1)] assms(3)]
    substitute_param_shown[OF assms(1) plain_text_has_text[OF assms(2)]]
  show ?thesis by simp
qed

lemma fill_Nil: "map (fill data []) segs = segs"
proof (induction segs)
  case Nil
  show ?case by simp
next
  case (Cons sg segs)
  then show ?case by (cases sg) simp_all
qed

lemma fill_subst:
  "map (fill data ps) (map (subst p (shown data p)) segs) = map (fill data (p # ps)) segs"
proof (induction segs)
  case Nil
  show ?case by simp
next
  case (Cons sg segs)
  then show ?case by (cases sg) simp_all
qed

lemma substitute_all_render:
  assumes "list_all plain_name ps" "list_all (plain_text data) ps"
  shows "flat segs \<Longrightarrow> substitute_all data (row_text segs) ps = Returns (row_text (map (fill data ps) segs))"
  using assms
proof (induction ps arbitrary: segs)
  case Nil
  show ?case by (simp add: fill_Nil)
next
  case (Cons p ps)
  from Cons.prems have pn: "plain_name p" and pv: "plain_text data p"
    and rest: "list_all plain_name ps" "list_all (plain_text data) ps"
    by simp_all
  from plain_text_shown[OF pv] have "clean (shown data p)" by (simp add: plain_value_def)
  from flat_subst[OF Cons.prems(1) this] have fl: "flat (map (subst p (shown data p)) segs)" .
  have "map (fill data ps \<circ> subst p (shown data p)) segs = map (fill data (p # ps)) segs"
    using fill_subst[of data ps p segs] by simp
  with Cons.IH[OF fl rest] substitute_param_render[OF pn pv Cons.prems(1)] show ?case
    by (simp add: bind_o_def)
qed

lemma fill_set_cong: "set qs = set ps \<Longrightarrow> fill data qs sg = fill data ps sg"
  by (cases sg) simp_all









lemma substitute_all_order:
  assumes "flat segs"
      and "list_all plain_name ps"
      and "list_all (plain_text data) ps"
      and "mset qs = mset ps"
  shows "substitute_all data (row_text segs) qs = substitute_all data (row_text segs) ps"
proof -
  from assms(4) have s: "set qs = set ps" by (rule mset_eq_setD)
  with assms(2,3) have q: "list_all plain_name qs" "list_all (plain_text data) qs"
    by (simp_all add: list_all_iff)
  have "map (fill data qs) segs = map (fill data ps) segs"
    using fill_set_cong[OF s] by simp
  with substitute_all_render[OF q assms(1)] substitute_all_render[OF assms(2,3,1)]
  show ?thesis by simp
qed

section \<open>Prompts: the scenarios\<close>

text \<open>
  A service that has loaded one template, and a world it never reads: the templates are
  loaded, so \<open>getTemplate\<close> goes to the map at once.
\<close>

definition loaded :: "PromptTemplate \<Rightarrow> PromptTemplateService" where
  "loaded tpl = \<lparr>templates = [(tpl_name tpl, tpl)], templatesLoaded = True\<rparr>"

definition idle_world :: template_world where
  "idle_world = \<lparr>tw_redis_up = False, cached_templates = None, template_files = (\<lambda>n. Missing)\<rparr>"

lemma loaded_get:
  "getTemplate (loaded tpl) w (tpl_name tpl) = (Returns (Some tpl), loaded tpl, w)"
  by (simp add: getTemplate_def loadTemplates_def loaded_def)

lemma preparePrompt_found:
  "getTemplate svc w nm = (Returns (Some tpl), svc1, w1) \<Longrightarrow>
   preparePrompt svc w nm data
   = (try_wrap ''Failed to prepare prompt''
        (substitute_all data (tpl_template tpl) (tpl_parameters tpl)), svc1, w1)"
  by (simp add: preparePrompt_def bind_o_def)

lemma preparePrompt_throws:
  assumes "getTemplate svc w nm = (Returns (Some tpl), svc1, w1)"
      and "list_all plain_name (tpl_parameters tpl)"
      and "list_all (\<lambda>p. has_text data p \<or> text_of data p = Throws e) (tpl_parameters tpl)"
      and "\<not> list_all (has_text data) (tpl_parameters tpl)"
  shows "preparePrompt svc w nm data
         = (Throws (Wrapped ''Failed to prepare prompt'' e), svc1, w1)"
  by (simp add: preparePrompt_found[OF assms(1)] substitute_all_throws[OF assms(2,3,4)]
      try_wrap_def)

lemmas name_eval = plain_name_def syntax_characters_def object_prototype_names_def js_def

lemmas value_eval = text_of_def value_text_def JSON_stringify_def bracketed_def gap_def
  quote_json_def escape_unit_def is_leading_surrogate_def is_trailing_surrogate_def
  number_to_string_def show_int_def to_string_def bind_o_def



definition essay_template :: PromptTemplate where
  "essay_template =
     \<lparr>tpl_name = js ''essay'', tpl_description = [],
      tpl_template = js ''Concept: {{concept_name}}; theses: {{thesis_count}}; era: {{era}}. Keep {{this}}. Options: {{options}}'',
      tpl_parameters = [js ''concept_name'', js ''thesis_count'', js ''options'', js ''era''],
      fallback_strategy = None\<rparr>"




text \<open>The same data with an options object that refers to itself.\<close>

definition knot_data :: "jsstring \<rightharpoonup> jsvalue" where
  "knot_data =
     [js ''concept_name'' \<mapsto> Str (js ''Henology''), js ''thesis_count'' \<mapsto> Number 3,
      js ''options'' \<mapsto> Obj [(js ''depth'', Number 2), (js ''self'', Cyclic)]]"

definition pair_template :: PromptTemplate where
  "pair_template =
     \<lparr>tpl_name = js ''pair'', tpl_description = [],
      tpl_template = js ''{{first}} and {{second}}'',
      tpl_parameters = [js ''first'', js ''second''], fallback_strategy = None\<rparr>"

definition pair_segments :: "segment list" where
  "pair_segments = [Hole (js ''first''), Text (js '' and ''), Hole (js ''second'')]"

definition pair_data :: "jsstring \<rightharpoonup> jsvalue" where
  "pair_data = [js ''first'' \<mapsto> Str (js ''being''), js ''second'' \<mapsto> Str (js ''becoming'')]"

definition swap_data :: "jsstring \<rightharpoonup> jsvalue" where
  "swap_data = [js ''first'' \<mapsto> Str (js ''{{second}}''), js ''second'' \<mapsto> Str (js ''x'')]"


lemma essay_name: "tpl_name essay_template = js ''essay''"
  by (simp add: essay_template_def)

lemma pair_name: "tpl_name pair_template = js ''pair''"
  by (simp add: pair_template_def)

lemma essay_names: "list_all plain_name (tpl_parameters essay_template)"
  by (simp add: essay_template_def name_eval)








lemma pair_names: "list_all plain_name (tpl_parameters pair_template)"
  by (simp add: pair_template_def name_eval)

lemma pair_render: "tpl_template pair_template = row_text pair_segments"
  by (simp add: pair_template_def pair_segments_def row_text_def placeholder_def js_def)

lemma pair_flat: "flat pair_segments"
  by (simp add: pair_segments_def flat_def brace_free_def js_def)

lemma pair_values: "list_all (plain_text pair_data) (tpl_parameters pair_template)"
  by (simp add: pair_template_def pair_data_def plain_text_def plain_value_def text_of_def
      value_text_def js_def)

lemma pair_swapped:
  "mset [js ''second'', js ''first''] = mset (tpl_parameters pair_template)"
  by (simp add: pair_template_def add.commute)

lemma swap_forward:
  "substitute_all swap_data (js ''{{first}} and {{second}}'') [js ''first'', js ''second'']
   = Returns (js ''x and x'')"
  by (simp add: swap_data_def substitute_param_plain name_eval bind_o_def text_of_def
      value_text_def regex_replace_all_lit placeholder_unfold)

lemma swap_backward:
  "substitute_all swap_data (js ''{{first}} and {{second}}'') [js ''second'', js ''first'']
   = Returns (js ''{{second}} and x'')"
  by (simp add: swap_data_def substitute_param_plain name_eval bind_o_def text_of_def
      value_text_def regex_replace_all_lit placeholder_unfold)

section \<open>Prompts: the declared placeholders after rendering\<close>




text \<open>
  A value that cannot be written is another matter: \<open>JSON.stringify\<close> raises on the
  options object that refers to itself, and \<open>preparePrompt\<close> raises with it.
\<close>

lemma preparePrompt_knot_throws:
  "preparePrompt (loaded essay_template) idle_world (js ''essay'') knot_data
   = (Throws (Wrapped ''Failed to prepare prompt'' TypeError), loaded essay_template, idle_world)"
proof -
  have get: "getTemplate (loaded essay_template) idle_world (js ''essay'')
             = (Returns (Some essay_template), loaded essay_template, idle_world)"
    using loaded_get[of essay_template idle_world] by (simp add: essay_name)
  have texts:
    "list_all (\<lambda>p. has_text knot_data p \<or> text_of knot_data p = Throws TypeError)
       (tpl_parameters essay_template)"
    by (simp add: essay_template_def knot_data_def has_text_def value_eval js_def)
  have "\<not> list_all (has_text knot_data) (tpl_parameters essay_template)"
    by (simp add: essay_template_def knot_data_def has_text_def value_eval js_def)
  from preparePrompt_throws[OF get essay_names texts this] show ?thesis .
qed

section \<open>Prompts: the order of the declared parameters\<close>

text \<open>
  C7, as stated, fails: on the template \<open>{{first}} and {{second}}\<close>, with the text
  \<open>{{second}}\<close> for \<open>first\<close> and \<open>x\<close> for \<open>second\<close>, the declared order gives \<open>x and x\<close> and
  the other order gives \<open>{{second}} and x\<close>.
\<close>

theorem preparePrompt_order_counterexample:
  "fst (preparePrompt (loaded pair_template) idle_world (js ''pair'') swap_data)
     = Returns (js ''x and x'')
   \<and> fst (preparePrompt (loaded (pair_template\<lparr>tpl_parameters := [js ''second'', js ''first'']\<rparr>))
           idle_world (js ''pair'') swap_data)
     = Returns (js ''{{second}} and x'')
   \<and> js ''x and x'' \<noteq> js ''{{second}} and x''"
proof -
  have g1: "getTemplate (loaded pair_template) idle_world (js ''pair'')
            = (Returns (Some pair_template), loaded pair_template, idle_world)"
    using loaded_get[of pair_template idle_world] by (simp add: pair_name)
  have g2: "getTemplate (loaded (pair_template\<lparr>tpl_parameters := [js ''second'', js ''first'']\<rparr>))
              idle_world (js ''pair'')
            = (Returns (Some (pair_template\<lparr>tpl_parameters := [js ''second'', js ''first'']\<rparr>)),
               loaded (pair_template\<lparr>tpl_parameters := [js ''second'', js ''first'']\<rparr>), idle_world)"
    using loaded_get[of "pair_template\<lparr>tpl_parameters := [js ''second'', js ''first'']\<rparr>" idle_world]
    by (simp add: pair_name)
  have t: "tpl_template pair_template = js ''{{first}} and {{second}}''"
    and p: "tpl_parameters pair_template = [js ''first'', js ''second'']"
    by (simp_all add: pair_template_def)
  have a: "fst (preparePrompt (loaded pair_template) idle_world (js ''pair'') swap_data)
           = Returns (js ''x and x'')"
    using preparePrompt_found[OF g1, of swap_data]
    by (simp add: t p swap_forward try_wrap_def del: substitute_all.simps)
  have b: "fst (preparePrompt (loaded (pair_template\<lparr>tpl_parameters := [js ''second'', js ''first'']\<rparr>))
                 idle_world (js ''pair'') swap_data)
           = Returns (js ''{{second}} and x'')"
    using preparePrompt_found[OF g2, of swap_data]
    by (simp add: t swap_backward try_wrap_def del: substitute_all.simps)
  have c: "js ''x and x'' \<noteq> js ''{{second}} and x''"
    by (simp add: js_def)
  from a b c show ?thesis by simp
qed

text \<open>
  C7, amended. Take a template that is a row of clean pieces of text and placeholders
  with brace-free names, whose declared parameter names have no syntax character of
  patterns and are not names of \<open>Object.prototype\<close>, and data whose text for every
  declared parameter is clean and has no \<open>$\<close>. Then the same template with its declared
  parameters in any other order gives the same prompt.
\<close>

theorem preparePrompt_order_on_flat_templates:
  assumes "getTemplate svc w nm = (Returns (Some tpl), svc1, w1)"
      and "getTemplate svc2 w2 nm = (Returns (Some (tpl\<lparr>tpl_parameters := qs\<rparr>)), svc3, w3)"
      and "mset qs = mset (tpl_parameters tpl)"
      and "tpl_template tpl = row_text segs"
      and "flat segs"
      and "list_all plain_name (tpl_parameters tpl)"
      and "list_all (plain_text data) (tpl_parameters tpl)"
  shows "fst (preparePrompt svc2 w2 nm data) = fst (preparePrompt svc w nm data)"
proof -
  have "substitute_all data (tpl_template tpl) qs
        = substitute_all data (tpl_template tpl) (tpl_parameters tpl)"
    unfolding assms(4) by (rule substitute_all_order[OF assms(5,6,7,3)])
  then show ?thesis
    by (simp add: preparePrompt_found[OF assms(1)] preparePrompt_found[OF assms(2)])
qed

theorem preparePrompt_order_on_flat_templates_witness:
  "fst (preparePrompt (loaded (pair_template\<lparr>tpl_parameters := [js ''second'', js ''first'']\<rparr>))
         idle_world (js ''pair'') pair_data)
   = fst (preparePrompt (loaded pair_template) idle_world (js ''pair'') pair_data)
   \<and> tpl_template pair_template = js ''{{first}} and {{second}}''"
proof -
  have g1: "getTemplate (loaded pair_template) idle_world (js ''pair'')
            = (Returns (Some pair_template), loaded pair_template, idle_world)"
    using loaded_get[of pair_template idle_world] by (simp add: pair_name)
  have g2: "getTemplate (loaded (pair_template\<lparr>tpl_parameters := [js ''second'', js ''first'']\<rparr>))
              idle_world (js ''pair'')
            = (Returns (Some (pair_template\<lparr>tpl_parameters := [js ''second'', js ''first'']\<rparr>)),
               loaded (pair_template\<lparr>tpl_parameters := [js ''second'', js ''first'']\<rparr>), idle_world)"
    using loaded_get[of "pair_template\<lparr>tpl_parameters := [js ''second'', js ''first'']\<rparr>" idle_world]
    by (simp add: pair_name)
  from preparePrompt_order_on_flat_templates[OF g1 g2 pair_swapped pair_render pair_flat
      pair_names pair_values]
  show ?thesis by (simp add: pair_template_def)
qed

end
